theory Spec2Isabelle
  imports Main "HOL-Library.Word"
begin

unbundle bit_operations_syntax

section \<open>Go values: errors, panics, bytes\<close>

type_synonym byte = "8 word"

text \<open>
  Go error values. \<open>RemoteCallError\<close> is the sentinel \<^verbatim>\<open>weaver.RemoteCallError\<close>,
  \<open>joinError\<close> is the value built by \<^verbatim>\<open>errors.Join\<close>, \<open>ErrorString\<close> is any other
  error, identified by its message.
\<close>

datatype error =
    RemoteCallError
  | DecodeError
  | ErrorString string
  | joinError "error list"

text \<open>
  A Go call either returns or panics. The panic values of this program are error values
  (\<^verbatim>\<open>fmt.Errorf\<close> in the generated marshalers, runtime errors of the language).
\<close>

datatype 'a go = Return 'a | Panic error

text \<open>\<^verbatim>\<open>errors.Join\<close>: nil arguments are discarded, nil when nothing is left.\<close>

definition errors_Join :: "error option list \<Rightarrow> error option" where
  "errors_Join errs =
     (case List.map_filter id errs of [] \<Rightarrow> None | e # es \<Rightarrow> Some (joinError (e # es)))"

text \<open>\<^verbatim>\<open>errors.Is\<close>: equality with the target, or with anything reached by unwrapping.\<close>

fun errors_Is :: "error \<Rightarrow> error \<Rightarrow> bool" where
  "errors_Is (joinError es) target =
     (joinError es = target \<or> list_ex (\<lambda>e. errors_Is e target) es)"
| "errors_Is e target = (e = target)"

text \<open>
  Modelled from the spec: the text of an error (\<^verbatim>\<open>err.Error()\<close>). The sentinel's text is
  the spec's "remote call failed"; \<^verbatim>\<open>errors.Join\<close> separates the texts by newlines.
\<close>

fun Error_msg :: "error \<Rightarrow> string" where
  "Error_msg RemoteCallError = ''remote call failed''"
| "Error_msg DecodeError = ''decode error''"
| "Error_msg (ErrorString s) = s"
| "Error_msg (joinError es) =
     (case es of [] \<Rightarrow> [] | e # es' \<Rightarrow>
        Error_msg e @ concat (map (\<lambda>x. CHR 0x0A # Error_msg x) es'))"

section \<open>The binary codec\<close>

text \<open>
  Modelled from the spec: \<^verbatim>\<open>codegen.Encoder\<close> and \<^verbatim>\<open>codegen.Decoder\<close> are not part of
  the sources at hand. The spec fixes the wire format: a length is a 4-byte signed integer
  (little-endian is the byte order chosen here), a string is its length followed by its
  bytes, an error slot is a presence byte followed by the message when present. A Go
  \<^verbatim>\<open>int\<close> is converted to 32 bits as Go's conversion does, keeping the low 32 bits.
\<close>

definition byte_of_char :: "char \<Rightarrow> byte" where
  "byte_of_char c = of_nat (of_char c)"

definition char_of_byte :: "byte \<Rightarrow> char" where
  "char_of_byte b = char_of (unat b)"

definition le32 :: "32 word \<Rightarrow> byte list" where
  "le32 w = [ucast w, ucast (drop_bit 8 w), ucast (drop_bit 16 w), ucast (drop_bit 24 w)]"

fun un32 :: "byte list \<Rightarrow> 32 word" where
  "un32 [b0, b1, b2, b3] =
     ucast b0 OR push_bit 8 (ucast b1) OR push_bit 16 (ucast b2) OR push_bit 24 (ucast b3)"
| "un32 _ = 0"

type_synonym Encoder = "byte list"

definition NewEncoder :: Encoder where
  "NewEncoder = []"

definition Encoder_Reset :: "Encoder \<Rightarrow> int \<Rightarrow> Encoder" where
  "Encoder_Reset enc n = []"

definition Encoder_Data :: "Encoder \<Rightarrow> byte list" where
  "Encoder_Data enc = enc"

definition Encoder_Len :: "Encoder \<Rightarrow> int \<Rightarrow> Encoder" where
  "Encoder_Len enc l = enc @ le32 (word_of_int l)"

definition Encoder_String :: "Encoder \<Rightarrow> string \<Rightarrow> Encoder" where
  "Encoder_String enc s = Encoder_Len enc (int (length s)) @ map byte_of_char s"

definition Encoder_Error :: "Encoder \<Rightarrow> error option \<Rightarrow> Encoder" where
  "Encoder_Error enc err =
     (case err of
        None \<Rightarrow> enc @ [0]
      | Some e \<Rightarrow> Encoder_String (enc @ [1]) (Error_msg e))"

text \<open>
  The decoder holds the unread bytes and its terminal error. A read that lacks bytes sets
  the error; once set it stays, and every later read returns the zero value.
\<close>

record Decoder =
  dec_data :: "byte list"
  dec_err :: "error option"

definition NewDecoder :: "byte list \<Rightarrow> Decoder" where
  "NewDecoder bs = \<lparr>dec_data = bs, dec_err = None\<rparr>"

definition Decoder_Int32 :: "Decoder \<Rightarrow> 32 word \<times> Decoder" where
  "Decoder_Int32 d =
     (if dec_err d \<noteq> None then (0, d)
      else if length (dec_data d) < 4 then (0, d\<lparr>dec_err := Some DecodeError\<rparr>)
      else (un32 (take 4 (dec_data d)), d\<lparr>dec_data := drop 4 (dec_data d)\<rparr>))"

definition Decoder_Len :: "Decoder \<Rightarrow> int \<times> Decoder" where
  "Decoder_Len d = (case Decoder_Int32 d of (x, d') \<Rightarrow> (sint x, d'))"

definition Decoder_String :: "Decoder \<Rightarrow> string \<times> Decoder" where
  "Decoder_String d =
     (case Decoder_Len d of (n, d1) \<Rightarrow>
        if dec_err d1 \<noteq> None then ([], d1)
        else if n = - 1 then ([], d1)
        else if n < 0 \<or> int (length (dec_data d1)) < n
          then ([], d1\<lparr>dec_err := Some DecodeError\<rparr>)
        else (map char_of_byte (take (nat n) (dec_data d1)),
              d1\<lparr>dec_data := drop (nat n) (dec_data d1)\<rparr>))"

definition Decoder_Error :: "Decoder \<Rightarrow> error option \<times> Decoder" where
  "Decoder_Error d =
     (if dec_err d \<noteq> None then (dec_err d, d)
      else case dec_data d of
        [] \<Rightarrow> (Some DecodeError, d\<lparr>dec_err := Some DecodeError\<rparr>)
      | b # bs \<Rightarrow>
          if b = 0 then (None, d\<lparr>dec_data := bs\<rparr>)
          else (case Decoder_String (d\<lparr>dec_data := bs\<rparr>) of (msg, d') \<Rightarrow>
                  (if dec_err d' \<noteq> None then dec_err d' else Some (ErrorString msg), d')))"

text \<open>
  Modelled from the spec: \<^verbatim>\<open>codegen.CatchPanics\<close> is not part of the sources at hand.
  It receives what \<^verbatim>\<open>recover()\<close> returned, nil when nothing panicked, and converts a
  fault into an error.
\<close>

definition CatchPanics :: "error option \<Rightarrow> error option" where
  "CatchPanics r = (case r of None \<Rightarrow> None | Some e \<Rightarrow> Some e)"

section \<open>Generated encoders and decoders of string slices\<close>

text \<open>
  A Go slice is nil or present: \<open>None\<close> is the nil slice, \<open>Some []\<close> the empty one.
  The loop of \<^verbatim>\<open>serviceweaver_enc_slice_string_4af10117\<close> writes the elements in order.
\<close>

fun enc_slice_string_loop :: "Encoder \<Rightarrow> string list \<Rightarrow> Encoder" where
  "enc_slice_string_loop enc [] = enc"
| "enc_slice_string_loop enc (s # ss) = enc_slice_string_loop (Encoder_String enc s) ss"

definition serviceweaver_enc_slice_string :: "Encoder \<Rightarrow> string list option \<Rightarrow> Encoder" where
  "serviceweaver_enc_slice_string enc arg =
     (case arg of
        None \<Rightarrow> Encoder_Len enc (- 1)
      | Some xs \<Rightarrow> enc_slice_string_loop (Encoder_Len enc (int (length xs))) xs)"

text \<open>
  The loop of \<^verbatim>\<open>serviceweaver_dec_slice_string_4af10117\<close> reads \<open>n\<close> strings.
  \<^verbatim>\<open>make([]string, n)\<close> panics when \<open>n\<close> is negative.
\<close>

fun dec_slice_string_loop :: "nat \<Rightarrow> Decoder \<Rightarrow> string list \<times> Decoder" where
  "dec_slice_string_loop 0 d = ([], d)"
| "dec_slice_string_loop (Suc k) d =
     (case Decoder_String d of (s, d1) \<Rightarrow>
        case dec_slice_string_loop k d1 of (ss, d2) \<Rightarrow> (s # ss, d2))"

definition makeslice_panic :: error where
  "makeslice_panic = ErrorString ''runtime error: makeslice: len out of range''"

definition serviceweaver_dec_slice_string :: "Decoder \<Rightarrow> (string list option \<times> Decoder) go" where
  "serviceweaver_dec_slice_string d =
     (case Decoder_Len d of (n, d1) \<Rightarrow>
        if n = - 1 then Return (None, d1)
        else if n < 0 then Panic makeslice_panic
        else (case dec_slice_string_loop (nat n) d1 of (res, d2) \<Rightarrow> Return (Some res, d2)))"

text \<open>The round trip of one value: encode into a fresh encoder, decode its data.\<close>

definition roundtrip_slice_string :: "string list option \<Rightarrow> bool" where
  "roundtrip_slice_string v =
     (case serviceweaver_dec_slice_string
             (NewDecoder (Encoder_Data (serviceweaver_enc_slice_string NewEncoder v))) of
        Return (r, d) \<Rightarrow> r = v
      | Panic e \<Rightarrow> False)"

text \<open>The lengths that a 4-byte signed header can hold.\<close>

definition fits_int32 :: "nat \<Rightarrow> bool" where
  "fits_int32 n = (n < 2 ^ 31)"

definition slice_string_fits :: "string list option \<Rightarrow> bool" where
  "slice_string_fits v =
     (case v of None \<Rightarrow> True
      | Some xs \<Rightarrow> fits_int32 (length xs) \<and> list_all (\<lambda>s. fits_int32 (length s)) xs)"

section \<open>The marshalable record \<^verbatim>\<open>Product\<close>\<close>

text \<open>
  \<^verbatim>\<open>money.T\<close> (the type of \<^verbatim>\<open>Product.PriceUSD\<close> and of the currency service's
  arguments) is not part of the sources at hand: its marshaler, its unmarshaler and its
  zero value are parameters. The marshaler returns the encoder it wrote to or panics;
  the unmarshaler returns the value stored through its receiver, and the decoder or a
  panic.
\<close>

record 'm money_codec =
  money_WeaverMarshal :: "'m \<Rightarrow> Encoder \<Rightarrow> Encoder go"
  money_WeaverUnmarshal :: "'m \<Rightarrow> Decoder \<Rightarrow> 'm \<times> Decoder go"
  money_zero :: 'm

record 'm Product =
  ID :: string
  Name :: string
  Description :: string
  Picture :: string
  PriceUSD :: 'm
  Categories :: "string list option"

definition Product_zero :: "'m money_codec \<Rightarrow> 'm Product" where
  "Product_zero mc =
     \<lparr>ID = [], Name = [], Description = [], Picture = [],
      PriceUSD = money_zero mc, Categories = None\<rparr>"

text \<open>A receiver is a pointer: \<open>None\<close> is nil, \<open>Some x\<close> points to the value \<open>x\<close>.\<close>

definition Product_WeaverMarshal ::
  "'m money_codec \<Rightarrow> 'm Product option \<Rightarrow> Encoder \<Rightarrow> Encoder go" where
  "Product_WeaverMarshal mc x enc =
     (case x of
        None \<Rightarrow> Panic (ErrorString ''Product.WeaverMarshal: nil receiver'')
      | Some p \<Rightarrow>
          (let enc1 = Encoder_String enc (ID p);
               enc2 = Encoder_String enc1 (Name p);
               enc3 = Encoder_String enc2 (Description p);
               enc4 = Encoder_String enc3 (Picture p)
           in case money_WeaverMarshal mc (PriceUSD p) enc4 of
                Panic e \<Rightarrow> Panic e
              | Return enc5 \<Rightarrow> Return (serviceweaver_enc_slice_string enc5 (Categories p))))"

text \<open>
  The unmarshaler assigns the fields one after the other, so a panic leaves the fields
  assigned so far in the receiver. The first component of the result is the receiver's
  content after the call.
\<close>

definition Product_WeaverUnmarshal ::
  "'m money_codec \<Rightarrow> 'm Product option \<Rightarrow> Decoder \<Rightarrow> 'm Product option \<times> Decoder go" where
  "Product_WeaverUnmarshal mc x dec =
     (case x of
        None \<Rightarrow> (None, Panic (ErrorString ''Product.WeaverUnmarshal: nil receiver''))
      | Some p \<Rightarrow>
          (let (v1, d1) = Decoder_String dec;
               (v2, d2) = Decoder_String d1;
               (v3, d3) = Decoder_String d2;
               (v4, d4) = Decoder_String d3;
               p4 = p\<lparr>ID := v1, Name := v2, Description := v3, Picture := v4\<rparr>;
               (m, r5) = money_WeaverUnmarshal mc (PriceUSD p4) d4;
               p5 = p4\<lparr>PriceUSD := m\<rparr>
           in case r5 of
                Panic e \<Rightarrow> (Some p5, Panic e)
              | Return d5 \<Rightarrow>
                  (case serviceweaver_dec_slice_string d5 of
                     Panic e \<Rightarrow> (Some p5, Panic e)
                   | Return (c, d6) \<Rightarrow> (Some (p5\<lparr>Categories := c\<rparr>), Return d6))))"

text \<open>The variable a pointer was taken from, after a call through the pointer.\<close>

definition pointee :: "'a option \<Rightarrow> 'a \<Rightarrow> 'a" where
  "pointee p old = (case p of None \<Rightarrow> old | Some v \<Rightarrow> v)"

fun enc_slice_Product_loop ::
  "'m money_codec \<Rightarrow> Encoder \<Rightarrow> 'm Product list \<Rightarrow> Encoder go" where
  "enc_slice_Product_loop mc enc [] = Return enc"
| "enc_slice_Product_loop mc enc (x # xs) =
     (case Product_WeaverMarshal mc (Some x) enc of
        Panic e \<Rightarrow> Panic e
      | Return enc1 \<Rightarrow> enc_slice_Product_loop mc enc1 xs)"

definition serviceweaver_enc_slice_Product ::
  "'m money_codec \<Rightarrow> Encoder \<Rightarrow> 'm Product list option \<Rightarrow> Encoder go" where
  "serviceweaver_enc_slice_Product mc enc arg =
     (case arg of
        None \<Rightarrow> Return (Encoder_Len enc (- 1))
      | Some xs \<Rightarrow> enc_slice_Product_loop mc (Encoder_Len enc (int (length xs))) xs)"

fun dec_slice_Product_loop ::
  "'m money_codec \<Rightarrow> nat \<Rightarrow> Decoder \<Rightarrow> ('m Product list \<times> Decoder) go" where
  "dec_slice_Product_loop mc 0 d = Return ([], d)"
| "dec_slice_Product_loop mc (Suc k) d =
     (let (p, r) = Product_WeaverUnmarshal mc (Some (Product_zero mc)) d
      in case r of
           Panic e \<Rightarrow> Panic e
         | Return d1 \<Rightarrow>
             (case dec_slice_Product_loop mc k d1 of
                Panic e \<Rightarrow> Panic e
              | Return (xs, d2) \<Rightarrow> Return (pointee p (Product_zero mc) # xs, d2)))"

definition serviceweaver_dec_slice_Product ::
  "'m money_codec \<Rightarrow> Decoder \<Rightarrow> ('m Product list option \<times> Decoder) go" where
  "serviceweaver_dec_slice_Product mc d =
     (case Decoder_Len d of (n, d1) \<Rightarrow>
        if n = - 1 then Return (None, d1)
        else if n < 0 then Panic makeslice_panic
        else (case dec_slice_Product_loop mc (nat n) d1 of
                Panic e \<Rightarrow> Panic e
              | Return (res, d2) \<Rightarrow> Return (Some res, d2)))"

text \<open>The round trip of one record: marshal into a fresh encoder, unmarshal its data.\<close>

definition roundtrip_Product :: "'m money_codec \<Rightarrow> 'm Product \<Rightarrow> bool" where
  "roundtrip_Product mc x =
     (case Product_WeaverMarshal mc (Some x) NewEncoder of
        Panic e \<Rightarrow> False
      | Return enc \<Rightarrow>
          (let (y, r) = Product_WeaverUnmarshal mc (Some (Product_zero mc))
                          (NewDecoder (Encoder_Data enc))
           in case r of Return d \<Rightarrow> y = Some x | Panic e \<Rightarrow> False))"

definition Product_fits :: "'m Product \<Rightarrow> bool" where
  "Product_fits x =
     (fits_int32 (length (ID x)) \<and> fits_int32 (length (Name x)) \<and>
      fits_int32 (length (Description x)) \<and> fits_int32 (length (Picture x)) \<and>
      slice_string_fits (Categories x))"

text \<open>
  The composition rule in the spec's words: the concatenation of the fields'
  serializations in declaration order, where \<open>mb\<close> is the serialization of the price.
\<close>

definition Product_fields_concat :: "byte list \<Rightarrow> 'm Product \<Rightarrow> byte list" where
  "Product_fields_concat mb x =
     Encoder_String [] (ID x) @ Encoder_String [] (Name x) @
     Encoder_String [] (Description x) @ Encoder_String [] (Picture x) @
     mb @ serviceweaver_enc_slice_string [] (Categories x)"

text \<open>
  Money types for concrete runs: one currency code, written as a string. The second one
  checks what it handles: its marshaler panics on an empty code, its unmarshaler on
  truncated bytes.
\<close>

definition code_money :: "string money_codec" where
  "code_money =
     \<lparr>money_WeaverMarshal = (\<lambda>m enc. Return (Encoder_String enc m)),
      money_WeaverUnmarshal = (\<lambda>m d. let (s, d') = Decoder_String d in (s, Return d')),
      money_zero = []\<rparr>"

definition checked_money :: "string money_codec" where
  "checked_money =
     \<lparr>money_WeaverMarshal =
        (\<lambda>m enc. if m = [] then Panic (ErrorString ''money: no currency code'')
                  else Return (Encoder_String enc m)),
      money_WeaverUnmarshal =
        (\<lambda>m d. let (s, d') = Decoder_String d
                in if dec_err d' \<noteq> None then (m, Panic (ErrorString ''money: truncated''))
                   else (s, Return d')),
      money_zero = []\<rparr>"

definition sunglasses :: "string Product" where
  "sunglasses =
     \<lparr>ID = ''OLJCESPC7Z'', Name = ''Sunglasses'', Description = ''Add a modern touch'',
      Picture = ''/static/img/products/sunglasses.jpg'', PriceUSD = ''USD'',
      Categories = Some [''accessories'']\<rparr>"

section \<open>Tracing and method metrics\<close>

text \<open>
  A span is the one a context arrived with (with the validity of its span context) or a
  child started by a stub. The tracing backend is outside the program: the world keeps
  the list of the operations the stubs perform on spans, in order.
\<close>

datatype SpanKind = SpanKindInternal | SpanKindClient

datatype Span = ContextSpan bool | ChildSpan string SpanKind

fun IsValid :: "Span \<Rightarrow> bool" where
  "IsValid (ContextSpan v) = v"
| "IsValid (ChildSpan name kind) = True"

record Context =
  ctx_span :: Span

definition trace_SpanFromContext :: "Context \<Rightarrow> Span" where
  "trace_SpanFromContext ctx = ctx_span ctx"

datatype span_op =
    OpStart Span
  | OpRecordError Span error
  | OpSetStatus Span string
  | OpEnd Span

text \<open>
  \<^verbatim>\<open>codegen.MethodMetrics\<close>: two counters and three distributions. A distribution is
  kept as the list of the samples put into it. The samples are integers converted to
  \<^verbatim>\<open>float64\<close>, kept here as the integers.
\<close>

record MethodMetrics =
  Count :: nat
  ErrorCount :: nat
  Latency :: "int list"
  BytesRequest :: "nat list"
  BytesReply :: "nat list"

definition MethodMetrics_zero :: MethodMetrics where
  "MethodMetrics_zero =
     \<lparr>Count = 0, ErrorCount = 0, Latency = [], BytesRequest = [], BytesReply = []\<rparr>"

text \<open>
  The metrics of a method are shared by all calls through a stub: the world maps the
  method label given at registration to its metrics.
\<close>

record world =
  metrics :: "string \<Rightarrow> MethodMetrics"
  trace :: "span_op list"

definition new_world :: world where
  "new_world = \<lparr>metrics = (\<lambda>k. MethodMetrics_zero), trace = []\<rparr>"

definition tracer_Start ::
  "Context \<Rightarrow> string \<Rightarrow> SpanKind \<Rightarrow> world \<Rightarrow> (Context \<times> Span) \<times> world" where
  "tracer_Start ctx name kind w =
     ((ctx\<lparr>ctx_span := ChildSpan name kind\<rparr>, ChildSpan name kind),
      w\<lparr>trace := trace w @ [OpStart (ChildSpan name kind)]\<rparr>)"

definition span_RecordError :: "Span \<Rightarrow> error \<Rightarrow> world \<Rightarrow> world" where
  "span_RecordError span e w = w\<lparr>trace := trace w @ [OpRecordError span e]\<rparr>"

definition span_SetStatus :: "Span \<Rightarrow> string \<Rightarrow> world \<Rightarrow> world" where
  "span_SetStatus span msg w = w\<lparr>trace := trace w @ [OpSetStatus span msg]\<rparr>"

definition span_End :: "Span \<Rightarrow> world \<Rightarrow> world" where
  "span_End span w = w\<lparr>trace := trace w @ [OpEnd span]\<rparr>"

definition Count_Add :: "string \<Rightarrow> nat \<Rightarrow> world \<Rightarrow> world" where
  "Count_Add k n w =
     w\<lparr>metrics := (metrics w)(k := (metrics w k)\<lparr>Count := Count (metrics w k) + n\<rparr>)\<rparr>"

definition ErrorCount_Add :: "string \<Rightarrow> nat \<Rightarrow> world \<Rightarrow> world" where
  "ErrorCount_Add k n w =
     w\<lparr>metrics := (metrics w)(k := (metrics w k)\<lparr>ErrorCount := ErrorCount (metrics w k) + n\<rparr>)\<rparr>"

definition Latency_Put :: "string \<Rightarrow> int \<Rightarrow> world \<Rightarrow> world" where
  "Latency_Put k v w =
     w\<lparr>metrics := (metrics w)(k := (metrics w k)\<lparr>Latency := Latency (metrics w k) @ [v]\<rparr>)\<rparr>"

definition BytesRequest_Put :: "string \<Rightarrow> nat \<Rightarrow> world \<Rightarrow> world" where
  "BytesRequest_Put k v w =
     w\<lparr>metrics :=
         (metrics w)(k := (metrics w k)\<lparr>BytesRequest := BytesRequest (metrics w k) @ [v]\<rparr>)\<rparr>"

definition BytesReply_Put :: "string \<Rightarrow> nat \<Rightarrow> world \<Rightarrow> world" where
  "BytesReply_Put k v w =
     w\<lparr>metrics :=
         (metrics w)(k := (metrics w k)\<lparr>BytesReply := BytesReply (metrics w k) @ [v]\<rparr>)\<rparr>"

fun is_OpStart :: "span_op \<Rightarrow> bool" where
  "is_OpStart (OpStart sp) = True"
| "is_OpStart opn = False"

fun is_OpEnd :: "span_op \<Rightarrow> bool" where
  "is_OpEnd (OpEnd sp) = True"
| "is_OpEnd opn = False"

definition span_starts :: "span_op list \<Rightarrow> nat" where
  "span_starts ops = length (filter is_OpStart ops)"

definition span_ends :: "span_op list \<Rightarrow> nat" where
  "span_ends ops = length (filter is_OpEnd ops)"

text \<open>The operations a call added to the trace of the world it started in.\<close>

definition new_ops :: "world \<Rightarrow> world \<Rightarrow> span_op list" where
  "new_ops w w' = drop (length (trace w)) (trace w')"

section \<open>The currency service: interface, local stub, client stub\<close>

text \<open>
  The implementation behind the interface \<^verbatim>\<open>T\<close> is a parameter: each method returns
  its results or panics. The transport behind \<^verbatim>\<open>codegen.Stub\<close> is a parameter too.
\<close>

record 'm CurrencyT =
  Convert :: "Context \<Rightarrow> 'm \<Rightarrow> string \<Rightarrow> ('m \<times> error option) go"
  GetSupportedCurrencies :: "Context \<Rightarrow> (string list option \<times> error option) go"

record Stub =
  Run :: "Context \<Rightarrow> nat \<Rightarrow> byte list \<Rightarrow> 64 word \<Rightarrow> (byte list \<times> error option) go"

text \<open>
  \<^verbatim>\<open>t_local_stub.Convert\<close>. The deferred function exists only when a child span was
  started; it runs when the implementation returns and when it panics, and in the second
  case the named result \<^verbatim>\<open>err\<close> is still nil.
\<close>

definition local_Convert ::
  "'m CurrencyT \<Rightarrow> Context \<Rightarrow> 'm \<Rightarrow> string \<Rightarrow> world \<Rightarrow> ('m \<times> error option) go \<times> world" where
  "local_Convert impl ctx a0 a1 w =
     (let span = trace_SpanFromContext ctx
      in if IsValid span then
           (let ((ctx1, span1), w1) =
                  tracer_Start ctx ''currencyservice.T.Convert'' SpanKindInternal w;
                res = Convert impl ctx1 a0 a1;
                err = (case res of Return (r0, err) \<Rightarrow> err | Panic e \<Rightarrow> None);
                w2 = (case err of
                        None \<Rightarrow> w1
                      | Some e \<Rightarrow> span_SetStatus span1 (Error_msg e) (span_RecordError span1 e w1));
                w3 = span_End span1 w2
            in (res, w3))
         else (Convert impl ctx a0 a1, w))"

text \<open>\<^verbatim>\<open>t_local_stub.GetSupportedCurrencies\<close>.\<close>

definition local_GetSupportedCurrencies ::
  "'m CurrencyT \<Rightarrow> Context \<Rightarrow> world \<Rightarrow> (string list option \<times> error option) go \<times> world" where
  "local_GetSupportedCurrencies impl ctx w =
     (let span = trace_SpanFromContext ctx
      in if IsValid span then
           (let ((ctx1, span1), w1) =
                  tracer_Start ctx ''currencyservice.T.GetSupportedCurrencies'' SpanKindInternal w;
                res = GetSupportedCurrencies impl ctx1;
                err = (case res of Return (r0, err) \<Rightarrow> err | Panic e \<Rightarrow> None);
                w2 = (case err of
                        None \<Rightarrow> w1
                      | Some e \<Rightarrow> span_SetStatus span1 (Error_msg e) (span_RecordError span1 e w1));
                w3 = span_End span1 w2
            in (res, w3))
         else (GetSupportedCurrencies impl ctx, w))"

text \<open>
  The deferred function of a client stub method, the same in every method but for the
  metrics it updates. It receives the state the body stopped in: the world, the named
  results \<^verbatim>\<open>r0\<close> and \<^verbatim>\<open>err\<close>, and the panic in flight if the body panicked.
  \<^verbatim>\<open>recover()\<close> is called only when \<^verbatim>\<open>err\<close> is nil, and stops the panic. The last
  argument before the state is what \<^verbatim>\<open>time.Since(start).Microseconds()\<close> reads.
\<close>

definition client_deferred ::
  "string \<Rightarrow> Span \<Rightarrow> int \<Rightarrow> world \<times> 'r \<times> error option \<times> error option
     \<Rightarrow> ('r \<times> error option) go \<times> world" where
  "client_deferred k span elapsed st =
     (case st of (w, r0, err, pan) \<Rightarrow>
        (let (err1, pan1) =
               (if err = None then
                  (case CatchPanics pan of
                     None \<Rightarrow> (None, None)
                   | Some e \<Rightarrow> (errors_Join [Some RemoteCallError, Some e], None))
                else (err, pan));
             w1 = (case err1 of
                     None \<Rightarrow> w
                   | Some e \<Rightarrow>
                       ErrorCount_Add k 1
                         (span_SetStatus span (Error_msg e) (span_RecordError span e w)));
             w2 = Latency_Put k elapsed (span_End span w1)
         in (case pan1 of None \<Rightarrow> Return (r0, err1) | Some p \<Rightarrow> Panic p, w2)))"

text \<open>The body of \<^verbatim>\<open>t_client_stub.Convert\<close>, from the encoding of the arguments on.\<close>

definition client_Convert_body ::
  "'m money_codec \<Rightarrow> Stub \<Rightarrow> Context \<Rightarrow> 'm \<Rightarrow> string \<Rightarrow> world
     \<Rightarrow> world \<times> 'm \<times> error option \<times> error option" where
  "client_Convert_body mc stub ctx a0 a1 w =
     (case money_WeaverMarshal mc a0 NewEncoder of
        Panic e \<Rightarrow> (w, money_zero mc, None, Some e)
      | Return enc1 \<Rightarrow>
          (let enc2 = Encoder_String enc1 a1;
               shardKey = 0;
               w1 = BytesRequest_Put ''Convert'' (length (Encoder_Data enc2)) w
           in case Run stub ctx 0 (Encoder_Data enc2) shardKey of
                Panic e \<Rightarrow> (w1, money_zero mc, None, Some e)
              | Return (results, Some e) \<Rightarrow>
                  (w1, money_zero mc, errors_Join [Some RemoteCallError, Some e], None)
              | Return (results, None) \<Rightarrow>
                  (let w2 = BytesReply_Put ''Convert'' (length results) w1;
                       (r0, r) = money_WeaverUnmarshal mc (money_zero mc) (NewDecoder results)
                   in case r of
                        Panic e \<Rightarrow> (w2, r0, None, Some e)
                      | Return d1 \<Rightarrow>
                          (let (err, d2) = Decoder_Error d1 in (w2, r0, err, None)))))"

definition client_Convert ::
  "'m money_codec \<Rightarrow> Stub \<Rightarrow> Context \<Rightarrow> 'm \<Rightarrow> string \<Rightarrow> int \<Rightarrow> world
     \<Rightarrow> ('m \<times> error option) go \<times> world" where
  "client_Convert mc stub ctx a0 a1 elapsed w =
     (let w0 = Count_Add ''Convert'' 1 w;
          span = trace_SpanFromContext ctx;
          ((ctx1, span1), w1) =
            (if IsValid span
             then tracer_Start ctx ''currencyservice.T.Convert'' SpanKindClient w0
             else ((ctx, span), w0))
      in client_deferred ''Convert'' span1 elapsed
           (client_Convert_body mc stub ctx1 a0 a1 w1))"

text \<open>
  The body of \<^verbatim>\<open>t_client_stub.GetSupportedCurrencies\<close>. The method has no argument:
  the request size put is 0 and the transport receives a nil buffer, here the empty one.
\<close>

definition client_GetSupportedCurrencies_body ::
  "Stub \<Rightarrow> Context \<Rightarrow> world \<Rightarrow> world \<times> string list option \<times> error option \<times> error option" where
  "client_GetSupportedCurrencies_body stub ctx w =
     (let shardKey = 0;
          w1 = BytesRequest_Put ''GetSupportedCurrencies'' 0 w
      in case Run stub ctx 1 [] shardKey of
           Panic e \<Rightarrow> (w1, None, None, Some e)
         | Return (results, Some e) \<Rightarrow>
             (w1, None, errors_Join [Some RemoteCallError, Some e], None)
         | Return (results, None) \<Rightarrow>
             (let w2 = BytesReply_Put ''GetSupportedCurrencies'' (length results) w1
              in case serviceweaver_dec_slice_string (NewDecoder results) of
                   Panic e \<Rightarrow> (w2, None, None, Some e)
                 | Return (r0, d1) \<Rightarrow>
                     (let (err, d2) = Decoder_Error d1 in (w2, r0, err, None))))"

definition client_GetSupportedCurrencies ::
  "Stub \<Rightarrow> Context \<Rightarrow> int \<Rightarrow> world \<Rightarrow> (string list option \<times> error option) go \<times> world" where
  "client_GetSupportedCurrencies stub ctx elapsed w =
     (let w0 = Count_Add ''GetSupportedCurrencies'' 1 w;
          span = trace_SpanFromContext ctx;
          ((ctx1, span1), w1) =
            (if IsValid span
             then tracer_Start ctx ''currencyservice.T.GetSupportedCurrencies'' SpanKindClient w0
             else ((ctx, span), w0))
      in client_deferred ''GetSupportedCurrencies'' span1 elapsed
           (client_GetSupportedCurrencies_body stub ctx1 w1))"

text \<open>
  What a stub hands on when it was called with the context \<open>ctx\<close>: the context with
  the child span when the span of \<open>ctx\<close> is valid, \<open>ctx\<close> itself otherwise; and the
  span its deferred function works on.
\<close>

definition call_context :: "string \<Rightarrow> SpanKind \<Rightarrow> Context \<Rightarrow> Context" where
  "call_context name kind ctx =
     (if IsValid (ctx_span ctx) then ctx\<lparr>ctx_span := ChildSpan name kind\<rparr> else ctx)"

definition call_span :: "string \<Rightarrow> SpanKind \<Rightarrow> Context \<Rightarrow> Span" where
  "call_span name kind ctx =
     (if IsValid (ctx_span ctx) then ChildSpan name kind else ctx_span ctx)"

text \<open>
  The world the body of a client stub method starts in: the call is counted, and the
  child span is started when the span of \<open>ctx\<close> is valid.
\<close>

definition client_entry :: "string \<Rightarrow> string \<Rightarrow> Context \<Rightarrow> world \<Rightarrow> world" where
  "client_entry k name ctx w =
     (if IsValid (ctx_span ctx)
      then snd (tracer_Start ctx name SpanKindClient (Count_Add k 1 w))
      else Count_Add k 1 w)"

text \<open>The operations a deferred function performs on its span, given the error returned.\<close>

definition closing_ops :: "Span \<Rightarrow> error option \<Rightarrow> span_op list" where
  "closing_ops span err =
     (case err of None \<Rightarrow> [] | Some e \<Rightarrow> [OpRecordError span e, OpSetStatus span (Error_msg e)])
     @ [OpEnd span]"

text \<open>
  The named result \<^verbatim>\<open>err\<close> when a call ended: the error returned, and nil when the
  call panicked before assigning it.
\<close>

fun returned_error :: "('r \<times> error option) go \<Rightarrow> error option" where
  "returned_error (Return (r, err)) = err"
| "returned_error (Panic p) = None"

text \<open>
  The life of a span in a call through a local stub. With a valid span in the context the
  call adds to the trace the start of one child span, of the internal kind, and the
  operations that close that child; otherwise it leaves the world as it was.
\<close>

definition local_span_lifecycle ::
  "string \<Rightarrow> Context \<Rightarrow> world \<Rightarrow> ('r \<times> error option) go \<times> world \<Rightarrow> bool" where
  "local_span_lifecycle name ctx w out =
     (case out of (res, w') \<Rightarrow>
        if IsValid (ctx_span ctx) then
          trace w' = trace w @ OpStart (ChildSpan name SpanKindInternal) #
                       closing_ops (ChildSpan name SpanKindInternal) (returned_error res) \<and>
          span_starts (new_ops w w') = 1 \<and> span_ends (new_ops w w') = 1
        else w' = w \<and> new_ops w w' = [])"

text \<open>
  The life of a span in a call through a client stub. With a valid span in the context the
  call adds to the trace the start of one child span, of the client kind, and the
  operations that close that child. Otherwise it starts no span, and the operations it
  adds close the span it took from the context.
\<close>

definition client_span_lifecycle ::
  "string \<Rightarrow> Context \<Rightarrow> world \<Rightarrow> ('r \<times> error option) go \<times> world \<Rightarrow> bool" where
  "client_span_lifecycle name ctx w out =
     (case out of (res, w') \<Rightarrow>
        if IsValid (ctx_span ctx) then
          trace w' = trace w @ OpStart (ChildSpan name SpanKindClient) #
                       closing_ops (ChildSpan name SpanKindClient) (returned_error res) \<and>
          span_starts (new_ops w w') = 1 \<and> span_ends (new_ops w w') = 1
        else
          trace w' = trace w @ closing_ops (ctx_span ctx) (returned_error res) \<and>
          span_starts (new_ops w w') = 0 \<and> span_ends (new_ops w w') = 1)"

text \<open>
  The outcome the spec asks of a client stub call whose transport failed with \<open>terr\<close>:
  the call returns the zero result and an error that wraps \<open>terr\<close> and the sentinel;
  the error counter of the method grew by one; the latency was recorded; no reply size
  was recorded; the last operation on the trace ends the call's span, and it is the only
  end the call performed.
\<close>

definition transport_failure_outcome ::
  "string \<Rightarrow> Span \<Rightarrow> int \<Rightarrow> error \<Rightarrow> 'r \<Rightarrow> world \<Rightarrow> ('r \<times> error option) go \<times> world \<Rightarrow> bool" where
  "transport_failure_outcome k span elapsed terr zero w out =
     (case out of (res, w') \<Rightarrow>
        res = Return (zero, Some (joinError [RemoteCallError, terr])) \<and>
        errors_Is (joinError [RemoteCallError, terr]) terr \<and>
        errors_Is (joinError [RemoteCallError, terr]) RemoteCallError \<and>
        ErrorCount (metrics w' k) = ErrorCount (metrics w k) + 1 \<and>
        Latency (metrics w' k) = Latency (metrics w k) @ [elapsed] \<and>
        BytesReply (metrics w' k) = BytesReply (metrics w k) \<and>
        last (trace w') = OpEnd span \<and>
        span_ends (new_ops w w') = 1)"

text \<open>Transports for concrete runs: one that fails, one that panics, one that replies.\<close>

definition error_stub :: "error \<Rightarrow> Stub" where
  "error_stub e = \<lparr>Run = (\<lambda>ctx method args shardKey. Return ([], Some e))\<rparr>"

definition panic_stub :: "error \<Rightarrow> Stub" where
  "panic_stub p = \<lparr>Run = (\<lambda>ctx method args shardKey. Panic p)\<rparr>"

definition reply_stub :: "byte list \<Rightarrow> Stub" where
  "reply_stub bs = \<lparr>Run = (\<lambda>ctx method args shardKey. Return (bs, None))\<rparr>"

text \<open>A reply whose product has empty fields and a category list of length -2.\<close>

definition bad_reply :: "byte list" where
  "bad_reply =
     Encoder_String [] [] @ Encoder_String [] [] @ Encoder_String [] [] @
     Encoder_String [] [] @ Encoder_String [] [] @ le32 (- 2)"

text \<open>A reply that holds a list of length -2.\<close>

definition short_reply :: "byte list" where
  "short_reply = le32 (- 2)"

text \<open>
  Implementations of the currency service for concrete runs: one that converts, one whose
  methods panic.
\<close>

definition fixed_rate :: "string CurrencyT" where
  "fixed_rate =
     \<lparr>Convert = (\<lambda>ctx m code.
        if code = [] then Return (m, Some (ErrorString ''unsupported currency''))
        else Return (code, None)),
      GetSupportedCurrencies = (\<lambda>ctx. Return (Some [''EUR'', ''USD''], None))\<rparr>"


text \<open>The reply of a successful conversion to EUR: the result and an absent error.\<close>

definition eur_reply :: "byte list" where
  "eur_reply = Encoder_Error (Encoder_String [] ''EUR'') None"

definition traced :: Context where
  "traced = \<lparr>ctx_span = ContextSpan True\<rparr>"

definition untraced :: Context where
  "untraced = \<lparr>ctx_span = ContextSpan False\<rparr>"

section \<open>The currency service: server stub\<close>

text \<open>
  The deferred function of a server stub handler. It receives the named results
  \<^verbatim>\<open>res\<close> and \<^verbatim>\<open>err\<close> and the panic in flight if the body panicked; the handler's
  body covers the decoding of the arguments, the call of the implementation and the
  encoding of the results, and the deferred function runs after a panic in any of them.
\<close>

type_synonym handler = "Context \<Rightarrow> byte list \<Rightarrow> (byte list option \<times> error option) go"

definition server_deferred ::
  "byte list option \<times> error option \<times> error option \<Rightarrow> (byte list option \<times> error option) go" where
  "server_deferred st =
     (case st of (res, err, pan) \<Rightarrow>
        if err = None then Return (res, CatchPanics pan)
        else (case pan of None \<Rightarrow> Return (res, err) | Some p \<Rightarrow> Panic p))"

definition server_convert :: "'m money_codec \<Rightarrow> 'm CurrencyT \<Rightarrow> handler" where
  "server_convert mc impl ctx args =
     server_deferred
       (let (a0, r) = money_WeaverUnmarshal mc (money_zero mc) (NewDecoder args)
        in case r of
             Panic e \<Rightarrow> (None, None, Some e)
           | Return d1 \<Rightarrow>
               (let (a1, d2) = Decoder_String d1
                in case Convert impl ctx a0 a1 of
                     Panic e \<Rightarrow> (None, None, Some e)
                   | Return (r0, appErr) \<Rightarrow>
                       (case money_WeaverMarshal mc r0 NewEncoder of
                          Panic e \<Rightarrow> (None, None, Some e)
                        | Return enc1 \<Rightarrow>
                            (Some (Encoder_Data (Encoder_Error enc1 appErr)), None, None))))"

definition server_getSupportedCurrencies :: "'m CurrencyT \<Rightarrow> handler" where
  "server_getSupportedCurrencies impl ctx args =
     server_deferred
       (case GetSupportedCurrencies impl ctx of
          Panic e \<Rightarrow> (None, None, Some e)
        | Return (r0, appErr) \<Rightarrow>
            (let enc1 = serviceweaver_enc_slice_string NewEncoder r0
             in (Some (Encoder_Data (Encoder_Error enc1 appErr)), None, None)))"

definition currency_GetStubFn ::
  "'m money_codec \<Rightarrow> 'm CurrencyT \<Rightarrow> string \<Rightarrow> handler option" where
  "currency_GetStubFn mc impl method =
     (if method = ''Convert'' then Some (server_convert mc impl)
      else if method = ''GetSupportedCurrencies'' then Some (server_getSupportedCurrencies impl)
      else None)"

section \<open>The product catalog service\<close>

record 'm CatalogT =
  GetProduct :: "Context \<Rightarrow> string \<Rightarrow> ('m Product \<times> error option) go"
  ListProducts :: "Context \<Rightarrow> ('m Product list option \<times> error option) go"
  SearchProducts :: "Context \<Rightarrow> string \<Rightarrow> ('m Product list option \<times> error option) go"

text \<open>The three methods of \<^verbatim>\<open>t_local_stub\<close>.\<close>

definition local_GetProduct ::
  "'m CatalogT \<Rightarrow> Context \<Rightarrow> string \<Rightarrow> world \<Rightarrow> ('m Product \<times> error option) go \<times> world" where
  "local_GetProduct impl ctx a0 w =
     (let span = trace_SpanFromContext ctx
      in if IsValid span then
           (let ((ctx1, span1), w1) =
                  tracer_Start ctx ''productcatalogservice.T.GetProduct'' SpanKindInternal w;
                res = GetProduct impl ctx1 a0;
                err = (case res of Return (r0, err) \<Rightarrow> err | Panic e \<Rightarrow> None);
                w2 = (case err of
                        None \<Rightarrow> w1
                      | Some e \<Rightarrow> span_SetStatus span1 (Error_msg e) (span_RecordError span1 e w1));
                w3 = span_End span1 w2
            in (res, w3))
         else (GetProduct impl ctx a0, w))"

definition local_ListProducts ::
  "'m CatalogT \<Rightarrow> Context \<Rightarrow> world \<Rightarrow> ('m Product list option \<times> error option) go \<times> world" where
  "local_ListProducts impl ctx w =
     (let span = trace_SpanFromContext ctx
      in if IsValid span then
           (let ((ctx1, span1), w1) =
                  tracer_Start ctx ''productcatalogservice.T.ListProducts'' SpanKindInternal w;
                res = ListProducts impl ctx1;
                err = (case res of Return (r0, err) \<Rightarrow> err | Panic e \<Rightarrow> None);
                w2 = (case err of
                        None \<Rightarrow> w1
                      | Some e \<Rightarrow> span_SetStatus span1 (Error_msg e) (span_RecordError span1 e w1));
                w3 = span_End span1 w2
            in (res, w3))
         else (ListProducts impl ctx, w))"

definition local_SearchProducts ::
  "'m CatalogT \<Rightarrow> Context \<Rightarrow> string \<Rightarrow> world
     \<Rightarrow> ('m Product list option \<times> error option) go \<times> world" where
  "local_SearchProducts impl ctx a0 w =
     (let span = trace_SpanFromContext ctx
      in if IsValid span then
           (let ((ctx1, span1), w1) =
                  tracer_Start ctx ''productcatalogservice.T.SearchProducts'' SpanKindInternal w;
                res = SearchProducts impl ctx1 a0;
                err = (case res of Return (r0, err) \<Rightarrow> err | Panic e \<Rightarrow> None);
                w2 = (case err of
                        None \<Rightarrow> w1
                      | Some e \<Rightarrow> span_SetStatus span1 (Error_msg e) (span_RecordError span1 e w1));
                w3 = span_End span1 w2
            in (res, w3))
         else (SearchProducts impl ctx a0, w))"

text \<open>The body of \<^verbatim>\<open>t_client_stub.GetProduct\<close>, from the sizing of the buffer on.\<close>

definition client_GetProduct_body ::
  "'m money_codec \<Rightarrow> Stub \<Rightarrow> Context \<Rightarrow> string \<Rightarrow> world
     \<Rightarrow> world \<times> 'm Product \<times> error option \<times> error option" where
  "client_GetProduct_body mc stub ctx a0 w =
     (let size = 0 + (4 + int (length a0));
          enc = Encoder_Reset NewEncoder size;
          enc1 = Encoder_String enc a0;
          shardKey = 0;
          w1 = BytesRequest_Put ''GetProduct'' (length (Encoder_Data enc1)) w
      in case Run stub ctx 0 (Encoder_Data enc1) shardKey of
           Panic e \<Rightarrow> (w1, Product_zero mc, None, Some e)
         | Return (results, Some e) \<Rightarrow>
             (w1, Product_zero mc, errors_Join [Some RemoteCallError, Some e], None)
         | Return (results, None) \<Rightarrow>
             (let w2 = BytesReply_Put ''GetProduct'' (length results) w1;
                  (p, r) = Product_WeaverUnmarshal mc (Some (Product_zero mc))
                             (NewDecoder results);
                  r0 = pointee p (Product_zero mc)
              in case r of
                   Panic e \<Rightarrow> (w2, r0, None, Some e)
                 | Return d1 \<Rightarrow>
                     (let (err, d2) = Decoder_Error d1 in (w2, r0, err, None))))"

definition client_GetProduct ::
  "'m money_codec \<Rightarrow> Stub \<Rightarrow> Context \<Rightarrow> string \<Rightarrow> int \<Rightarrow> world
     \<Rightarrow> ('m Product \<times> error option) go \<times> world" where
  "client_GetProduct mc stub ctx a0 elapsed w =
     (let w0 = Count_Add ''GetProduct'' 1 w;
          span = trace_SpanFromContext ctx;
          ((ctx1, span1), w1) =
            (if IsValid span
             then tracer_Start ctx ''productcatalogservice.T.GetProduct'' SpanKindClient w0
             else ((ctx, span), w0))
      in client_deferred ''GetProduct'' span1 elapsed
           (client_GetProduct_body mc stub ctx1 a0 w1))"

text \<open>
  The body of \<^verbatim>\<open>t_client_stub.ListProducts\<close>. The method has no argument: the request
  size put is 0 and the transport receives a nil buffer, here the empty one.
\<close>

definition client_ListProducts_body ::
  "'m money_codec \<Rightarrow> Stub \<Rightarrow> Context \<Rightarrow> world
     \<Rightarrow> world \<times> 'm Product list option \<times> error option \<times> error option" where
  "client_ListProducts_body mc stub ctx w =
     (let shardKey = 0;
          w1 = BytesRequest_Put ''ListProducts'' 0 w
      in case Run stub ctx 1 [] shardKey of
           Panic e \<Rightarrow> (w1, None, None, Some e)
         | Return (results, Some e) \<Rightarrow>
             (w1, None, errors_Join [Some RemoteCallError, Some e], None)
         | Return (results, None) \<Rightarrow>
             (let w2 = BytesReply_Put ''ListProducts'' (length results) w1
              in case serviceweaver_dec_slice_Product mc (NewDecoder results) of
                   Panic e \<Rightarrow> (w2, None, None, Some e)
                 | Return (r0, d1) \<Rightarrow>
                     (let (err, d2) = Decoder_Error d1 in (w2, r0, err, None))))"

definition client_ListProducts ::
  "'m money_codec \<Rightarrow> Stub \<Rightarrow> Context \<Rightarrow> int \<Rightarrow> world
     \<Rightarrow> ('m Product list option \<times> error option) go \<times> world" where
  "client_ListProducts mc stub ctx elapsed w =
     (let w0 = Count_Add ''ListProducts'' 1 w;
          span = trace_SpanFromContext ctx;
          ((ctx1, span1), w1) =
            (if IsValid span
             then tracer_Start ctx ''productcatalogservice.T.ListProducts'' SpanKindClient w0
             else ((ctx, span), w0))
      in client_deferred ''ListProducts'' span1 elapsed
           (client_ListProducts_body mc stub ctx1 w1))"

text \<open>The body of \<^verbatim>\<open>t_client_stub.SearchProducts\<close>, from the sizing of the buffer on.\<close>

definition client_SearchProducts_body ::
  "'m money_codec \<Rightarrow> Stub \<Rightarrow> Context \<Rightarrow> string \<Rightarrow> world
     \<Rightarrow> world \<times> 'm Product list option \<times> error option \<times> error option" where
  "client_SearchProducts_body mc stub ctx a0 w =
     (let size = 0 + (4 + int (length a0));
          enc = Encoder_Reset NewEncoder size;
          enc1 = Encoder_String enc a0;
          shardKey = 0;
          w1 = BytesRequest_Put ''SearchProducts'' (length (Encoder_Data enc1)) w
      in case Run stub ctx 2 (Encoder_Data enc1) shardKey of
           Panic e \<Rightarrow> (w1, None, None, Some e)
         | Return (results, Some e) \<Rightarrow>
             (w1, None, errors_Join [Some RemoteCallError, Some e], None)
         | Return (results, None) \<Rightarrow>
             (let w2 = BytesReply_Put ''SearchProducts'' (length results) w1
              in case serviceweaver_dec_slice_Product mc (NewDecoder results) of
                   Panic e \<Rightarrow> (w2, None, None, Some e)
                 | Return (r0, d1) \<Rightarrow>
                     (let (err, d2) = Decoder_Error d1 in (w2, r0, err, None))))"

definition client_SearchProducts ::
  "'m money_codec \<Rightarrow> Stub \<Rightarrow> Context \<Rightarrow> string \<Rightarrow> int \<Rightarrow> world
     \<Rightarrow> ('m Product list option \<times> error option) go \<times> world" where
  "client_SearchProducts mc stub ctx a0 elapsed w =
     (let w0 = Count_Add ''SearchProducts'' 1 w;
          span = trace_SpanFromContext ctx;
          ((ctx1, span1), w1) =
            (if IsValid span
             then tracer_Start ctx ''productcatalogservice.T.SearchProducts'' SpanKindClient w0
             else ((ctx, span), w0))
      in client_deferred ''SearchProducts'' span1 elapsed
           (client_SearchProducts_body mc stub ctx1 a0 w1))"

text \<open>The handlers of the server stub and its dispatch.\<close>

definition server_getProduct :: "'m money_codec \<Rightarrow> 'm CatalogT \<Rightarrow> handler" where
  "server_getProduct mc impl ctx args =
     server_deferred
       (let (a0, d1) = Decoder_String (NewDecoder args)
        in case GetProduct impl ctx a0 of
             Panic e \<Rightarrow> (None, None, Some e)
           | Return (r0, appErr) \<Rightarrow>
               (case Product_WeaverMarshal mc (Some r0) NewEncoder of
                  Panic e \<Rightarrow> (None, None, Some e)
                | Return enc1 \<Rightarrow>
                    (Some (Encoder_Data (Encoder_Error enc1 appErr)), None, None)))"

definition server_listProducts :: "'m money_codec \<Rightarrow> 'm CatalogT \<Rightarrow> handler" where
  "server_listProducts mc impl ctx args =
     server_deferred
       (case ListProducts impl ctx of
          Panic e \<Rightarrow> (None, None, Some e)
        | Return (r0, appErr) \<Rightarrow>
            (case serviceweaver_enc_slice_Product mc NewEncoder r0 of
               Panic e \<Rightarrow> (None, None, Some e)
             | Return enc1 \<Rightarrow>
                 (Some (Encoder_Data (Encoder_Error enc1 appErr)), None, None)))"

definition server_searchProducts :: "'m money_codec \<Rightarrow> 'm CatalogT \<Rightarrow> handler" where
  "server_searchProducts mc impl ctx args =
     server_deferred
       (let (a0, d1) = Decoder_String (NewDecoder args)
        in case SearchProducts impl ctx a0 of
             Panic e \<Rightarrow> (None, None, Some e)
           | Return (r0, appErr) \<Rightarrow>
               (case serviceweaver_enc_slice_Product mc NewEncoder r0 of
                  Panic e \<Rightarrow> (None, None, Some e)
                | Return enc1 \<Rightarrow>
                    (Some (Encoder_Data (Encoder_Error enc1 appErr)), None, None)))"

definition catalog_GetStubFn ::
  "'m money_codec \<Rightarrow> 'm CatalogT \<Rightarrow> string \<Rightarrow> handler option" where
  "catalog_GetStubFn mc impl method =
     (if method = ''GetProduct'' then Some (server_getProduct mc impl)
      else if method = ''ListProducts'' then Some (server_listProducts mc impl)
      else if method = ''SearchProducts'' then Some (server_searchProducts mc impl)
      else None)"

text \<open>
  Implementations of the catalog for concrete runs: one that serves the sunglasses and
  reports an error for any other product, one whose methods panic.
\<close>

definition shop :: "string CatalogT" where
  "shop =
     \<lparr>GetProduct = (\<lambda>ctx a.
        if a = ''OLJCESPC7Z'' then Return (sunglasses, None)
        else Return (Product_zero code_money, Some (ErrorString ''no such product''))),
      ListProducts = (\<lambda>ctx. Return (Some [sunglasses], None)),
      SearchProducts = (\<lambda>ctx a. Return (Some [], None))\<rparr>"

definition crashing_shop :: "string CatalogT" where
  "crashing_shop =
     \<lparr>GetProduct = (\<lambda>ctx a. Panic (ErrorString ''runtime error: index out of range'')),
      ListProducts = (\<lambda>ctx. Panic (ErrorString ''runtime error: index out of range'')),
      SearchProducts = (\<lambda>ctx a. Panic (ErrorString ''runtime error: index out of range''))\<rparr>"

text \<open>A call failed when it returned an error (a client stub call does not panic).\<close>

fun failed :: "('r \<times> error option) go \<Rightarrow> bool" where
  "failed (Return (r, err)) = (err \<noteq> None)"
| "failed (Panic e) = True"

text \<open>The samples a transport outcome adds to the reply sizes: the length of a reply.\<close>

fun reply_samples :: "(byte list \<times> error option) go \<Rightarrow> nat list" where
  "reply_samples (Return (results, None)) = [length results]"
| "reply_samples (Return (results, Some e)) = []"
| "reply_samples (Panic p) = []"

text \<open>
  A run of calls through the client stubs of the two services, in any mix: each call has
  its own transport behaviour, context, arguments and clock reading. The world is
  threaded through the run; for each call the run keeps whether it failed.
\<close>

datatype 'm client_call =
    GetProductCall Stub Context string int
  | ListProductsCall Stub Context int
  | SearchProductsCall Stub Context string int
  | ConvertCall Stub Context 'm string int
  | GetSupportedCurrenciesCall Stub Context int

fun perform :: "'m money_codec \<Rightarrow> 'm client_call \<Rightarrow> world \<Rightarrow> bool \<times> world" where
  "perform mc (GetProductCall stub ctx a0 elapsed) w =
     (let (r, w') = client_GetProduct mc stub ctx a0 elapsed w in (failed r, w'))"
| "perform mc (ListProductsCall stub ctx elapsed) w =
     (let (r, w') = client_ListProducts mc stub ctx elapsed w in (failed r, w'))"
| "perform mc (SearchProductsCall stub ctx a0 elapsed) w =
     (let (r, w') = client_SearchProducts mc stub ctx a0 elapsed w in (failed r, w'))"
| "perform mc (ConvertCall stub ctx a0 a1 elapsed) w =
     (let (r, w') = client_Convert mc stub ctx a0 a1 elapsed w in (failed r, w'))"
| "perform mc (GetSupportedCurrenciesCall stub ctx elapsed) w =
     (let (r, w') = client_GetSupportedCurrencies stub ctx elapsed w in (failed r, w'))"

fun client_calls :: "'m money_codec \<Rightarrow> 'm client_call list \<Rightarrow> world \<Rightarrow> bool list \<times> world" where
  "client_calls mc [] w = ([], w)"
| "client_calls mc (c # cs) w =
     (let (f, w1) = perform mc c w;
          (fs, w2) = client_calls mc cs w1
      in (f # fs, w2))"

text \<open>
  What the statement about a run needs of a call: the label of its method's metrics, its
  clock reading, the encoded argument buffer it hands to the transport (none when the
  encoding of the arguments panicked, which only the marshaler of \<^verbatim>\<open>money.T\<close> can),
  and what the transport answers.
\<close>

fun method_label :: "'m client_call \<Rightarrow> string" where
  "method_label (GetProductCall stub ctx a0 elapsed) = ''GetProduct''"
| "method_label (ListProductsCall stub ctx elapsed) = ''ListProducts''"
| "method_label (SearchProductsCall stub ctx a0 elapsed) = ''SearchProducts''"
| "method_label (ConvertCall stub ctx a0 a1 elapsed) = ''Convert''"
| "method_label (GetSupportedCurrenciesCall stub ctx elapsed) = ''GetSupportedCurrencies''"

fun call_elapsed :: "'m client_call \<Rightarrow> int" where
  "call_elapsed (GetProductCall stub ctx a0 elapsed) = elapsed"
| "call_elapsed (ListProductsCall stub ctx elapsed) = elapsed"
| "call_elapsed (SearchProductsCall stub ctx a0 elapsed) = elapsed"
| "call_elapsed (ConvertCall stub ctx a0 a1 elapsed) = elapsed"
| "call_elapsed (GetSupportedCurrenciesCall stub ctx elapsed) = elapsed"

fun argument_buffer :: "'m money_codec \<Rightarrow> 'm client_call \<Rightarrow> byte list option" where
  "argument_buffer mc (GetProductCall stub ctx a0 elapsed) = Some (Encoder_String [] a0)"
| "argument_buffer mc (ListProductsCall stub ctx elapsed) = Some []"
| "argument_buffer mc (SearchProductsCall stub ctx a0 elapsed) = Some (Encoder_String [] a0)"
| "argument_buffer mc (ConvertCall stub ctx a0 a1 elapsed) =
     (case money_WeaverMarshal mc a0 NewEncoder of
        Panic e \<Rightarrow> None
      | Return enc1 \<Rightarrow> Some (Encoder_String enc1 a1))"
| "argument_buffer mc (GetSupportedCurrenciesCall stub ctx elapsed) = Some []"

fun request_samples :: "byte list option \<Rightarrow> nat list" where
  "request_samples None = []"
| "request_samples (Some args) = [length args]"

fun transport_outcome ::
  "'m money_codec \<Rightarrow> 'm client_call \<Rightarrow> (byte list \<times> error option) go option" where
  "transport_outcome mc (GetProductCall stub ctx a0 elapsed) =
     Some (Run stub (call_context ''productcatalogservice.T.GetProduct'' SpanKindClient ctx) 0
             (Encoder_String [] a0) 0)"
| "transport_outcome mc (ListProductsCall stub ctx elapsed) =
     Some (Run stub (call_context ''productcatalogservice.T.ListProducts'' SpanKindClient ctx) 1
             [] 0)"
| "transport_outcome mc (SearchProductsCall stub ctx a0 elapsed) =
     Some (Run stub (call_context ''productcatalogservice.T.SearchProducts'' SpanKindClient ctx) 2
             (Encoder_String [] a0) 0)"
| "transport_outcome mc (ConvertCall stub ctx a0 a1 elapsed) =
     (case money_WeaverMarshal mc a0 NewEncoder of
        Panic e \<Rightarrow> None
      | Return enc1 \<Rightarrow>
          Some (Run stub (call_context ''currencyservice.T.Convert'' SpanKindClient ctx) 0
                  (Encoder_String enc1 a1) 0))"
| "transport_outcome mc (GetSupportedCurrenciesCall stub ctx elapsed) =
     Some (Run stub (call_context ''currencyservice.T.GetSupportedCurrencies'' SpanKindClient ctx)
             1 [] 0)"

fun call_reply_samples :: "(byte list \<times> error option) go option \<Rightarrow> nat list" where
  "call_reply_samples None = []"
| "call_reply_samples (Some out) = reply_samples out"

text \<open>The transport replied when it was reached and returned without an error.\<close>

fun transport_replied :: "(byte list \<times> error option) go option \<Rightarrow> bool" where
  "transport_replied (Some (Return (results, None))) = True"
| "transport_replied t = False"

text \<open>The calls of a run that went through the method labelled \<open>k\<close>, and those that failed.\<close>

definition calls_of :: "string \<Rightarrow> 'm client_call list \<Rightarrow> 'm client_call list" where
  "calls_of k cs = filter (\<lambda>c. method_label c = k) cs"

definition failures_of :: "string \<Rightarrow> 'm client_call list \<Rightarrow> bool list \<Rightarrow> nat" where
  "failures_of k cs fs = length (filter (\<lambda>cf. method_label (fst cf) = k \<and> snd cf) (zip cs fs))"

text \<open>
  Replies for concrete runs: one that holds the zero product and no error, and the one of
  a nil list and no error.
\<close>

definition zero_reply :: "byte list" where
  "zero_reply =
     Encoder_String [] [] @ Encoder_String [] [] @ Encoder_String [] [] @
     Encoder_String [] [] @ Encoder_String [] [] @ le32 (- 1) @ [0]"

definition nil_reply :: "byte list" where
  "nil_reply = le32 (- 1) @ [0]"

text \<open>A run for concrete checks: seven calls through the five methods.\<close>

definition sample_run :: "string client_call list" where
  "sample_run =
     [GetProductCall (reply_stub zero_reply) untraced ''OLJCESPC7Z'' 1200,
      GetProductCall (error_stub (ErrorString ''connection refused'')) traced ''OLJCESPC7Z'' 30,
      ListProductsCall (reply_stub nil_reply) untraced 700,
      GetProductCall (reply_stub bad_reply) traced ''OLJCESPC7Z'' 900,
      ConvertCall (reply_stub eur_reply) traced ''USD'' ''EUR'' 50,
      GetSupportedCurrenciesCall (panic_stub (ErrorString ''transport fault'')) traced 5,
      SearchProductsCall (error_stub (ErrorString ''connection refused'')) untraced ''sun'' 8]"

section \<open>The transaction history service\<close>

text \<open>
  \<^verbatim>\<open>TransactionCache\<close> is not part of the sources at hand; its field \<^verbatim>\<open>c\<close> is a
  loading cache. \<^verbatim>\<open>Get\<close> returns the value of a present key; for an absent key it calls
  the loader, a parameter, and stores and returns the loaded value, or returns the
  loader's error and stores nothing. \<^verbatim>\<open>Put\<close> stores a value. The transaction type is a
  parameter.
\<close>

record config =
  LocalRoutingNum :: string
  DataSourceURL :: string
  HistoryLimit :: int
  CacheSize :: int
  CacheMinutes :: int

record 't TransactionCache =
  cached :: "string \<rightharpoonup> 't list"
  loader :: "string \<Rightarrow> 't list \<times> error option"

definition cache_Get ::
  "'t TransactionCache \<Rightarrow> string \<Rightarrow> ('t list \<times> error option) \<times> 't TransactionCache" where
  "cache_Get c k =
     (case cached c k of
        Some v \<Rightarrow> ((v, None), c)
      | None \<Rightarrow>
          (case loader c k of
             (v, None) \<Rightarrow> ((v, None), c\<lparr>cached := (cached c)(k \<mapsto> v)\<rparr>)
           | (v, Some e) \<Rightarrow> (([], Some e), c)))"

definition cache_Put :: "'t TransactionCache \<Rightarrow> string \<Rightarrow> 't list \<Rightarrow> 't TransactionCache" where
  "cache_Put c k v = c\<lparr>cached := (cached c)(k \<mapsto> v)\<rparr>"

text \<open>
  \<^verbatim>\<open>impl.processTransactionForAcct\<close>. The slice expression \<^verbatim>\<open>txns[:HistoryLimit]\<close>
  panics when the limit is negative.
\<close>

definition processTransactionForAcct ::
  "config \<Rightarrow> 't TransactionCache \<Rightarrow> string \<Rightarrow> 't \<Rightarrow> 't TransactionCache go" where
  "processTransactionForAcct cfg cache accountID transaction =
     (case cache_Get cache accountID of
        ((got, Some err), c1) \<Rightarrow> Return c1
      | ((got, None), c1) \<Rightarrow>
          (let txns = transaction # got
           in if int (length txns) > HistoryLimit cfg then
                (if HistoryLimit cfg < 0
                 then Panic (ErrorString ''runtime error: slice bounds out of range'')
                 else Return (cache_Put c1 accountID (take (nat (HistoryLimit cfg)) txns)))
              else Return (cache_Put c1 accountID txns)))"

text \<open>
  For concrete runs: a configuration with a given history limit, and a cache that holds a
  given list for one account and whose loader fails for every other account.
\<close>

definition limit_cfg :: "int \<Rightarrow> config" where
  "limit_cfg n =
     \<lparr>LocalRoutingNum = ''883745000'', DataSourceURL = [], HistoryLimit = n, CacheSize = 1000,
      CacheMinutes = 60\<rparr>"

definition history_cache :: "string list \<Rightarrow> string TransactionCache" where
  "history_cache old =
     \<lparr>cached = [''1011226111'' \<mapsto> old],
      loader = (\<lambda>k. ([], Some (ErrorString ''ledger unreachable'')))\<rparr>"

text \<open>The list cached for an account after a call, none when the call panicked.\<close>

definition cached_after :: "'t TransactionCache go \<Rightarrow> string \<Rightarrow> 't list option" where
  "cached_after r k = (case r of Return c \<Rightarrow> cached c k | Panic e \<Rightarrow> None)"

section \<open>Codec lemmas and the round trip of string slices\<close>

lemma un32_le32: "un32 (le32 w) = w"
proof (rule bit_word_eqI)
  fix n assume n: "n < LENGTH(32)"
  consider "n < 8" | "8 \<le> n" "n < 16" | "16 \<le> n" "n < 24" | "24 \<le> n"
    by linarith
  then show "bit (un32 (le32 w)) n = bit w n"
  proof cases
    case 1
    with n show ?thesis by (auto simp: le32_def bit_simps)
  next
    case 2
    then have "8 + (n - 8) = n" by simp
    with 2 n show ?thesis by (auto simp: le32_def bit_simps)
  next
    case 3
    then have "16 + (n - 16) = n" by simp
    with 3 n show ?thesis by (auto simp: le32_def bit_simps)
  next
    case 4
    then have "24 + (n - 24) = n" by simp
    with 4 n show ?thesis by (auto simp: le32_def bit_simps)
  qed
qed

lemma length_le32: "length (le32 w) = 4"
  by (simp add: le32_def)

lemma char_of_byte_of_char: "char_of_byte (byte_of_char c) = c"
  by (simp add: char_of_byte_def byte_of_char_def unat_of_nat)

lemma Decoder_Len_le32:
  "Decoder_Len \<lparr>dec_data = le32 w @ rest, dec_err = None\<rparr>
     = (sint w, \<lparr>dec_data = rest, dec_err = None\<rparr>)"
  by (simp add: Decoder_Len_def Decoder_Int32_def length_le32 un32_le32)

lemma sint_fits: "fits_int32 n \<Longrightarrow> sint (word_of_nat n :: 32 word) = int n"
  by (simp add: fits_int32_def signed_of_nat signed_take_bit_int_eq_self)

lemma Decoder_String_Encoder_String:
  assumes "fits_int32 (length s)"
  shows "Decoder_String \<lparr>dec_data = Encoder_String [] s @ rest, dec_err = None\<rparr>
           = (s, \<lparr>dec_data = rest, dec_err = None\<rparr>)"
  using assms
  by (simp add: Decoder_String_def Encoder_String_def Encoder_Len_def
      Decoder_Len_le32 sint_fits comp_def char_of_byte_of_char)

lemma Encoder_String_append: "Encoder_String enc s = enc @ Encoder_String [] s"
  by (simp add: Encoder_String_def Encoder_Len_def)

lemma enc_slice_string_loop_append:
  "enc_slice_string_loop enc xs = enc @ concat (map (Encoder_String []) xs)"
proof (induction xs arbitrary: enc)
  case Nil
  show ?case by simp
next
  case (Cons s ss)
  have "enc_slice_string_loop enc (s # ss) = enc_slice_string_loop (Encoder_String enc s) ss"
    by simp
  also have "\<dots> = Encoder_String enc s @ concat (map (Encoder_String []) ss)"
    by (rule Cons.IH)
  also have "\<dots> = enc @ concat (map (Encoder_String []) (s # ss))"
    using Encoder_String_append [of enc s] by simp
  finally show ?case .
qed

lemma dec_slice_string_loop_roundtrip:
  "list_all (\<lambda>s. fits_int32 (length s)) xs \<Longrightarrow>
   dec_slice_string_loop (length xs)
       \<lparr>dec_data = concat (map (Encoder_String []) xs) @ rest, dec_err = None\<rparr>
     = (xs, \<lparr>dec_data = rest, dec_err = None\<rparr>)"
  by (induction xs) (simp_all add: Decoder_String_Encoder_String)

lemma slice_string_roundtrip_rest:
  assumes "slice_string_fits v"
  shows "serviceweaver_dec_slice_string
           \<lparr>dec_data = serviceweaver_enc_slice_string [] v @ rest, dec_err = None\<rparr>
         = Return (v, \<lparr>dec_data = rest, dec_err = None\<rparr>)"
proof (cases v)
  case None
  then show ?thesis
    by (simp add: serviceweaver_dec_slice_string_def serviceweaver_enc_slice_string_def
        Encoder_Len_def Decoder_Len_le32)
next
  case (Some xs)
  with assms have len: "fits_int32 (length xs)"
    and all: "list_all (\<lambda>s. fits_int32 (length s)) xs"
    by (simp_all add: slice_string_fits_def)
  show ?thesis
    using len
    by (simp add: Some serviceweaver_dec_slice_string_def serviceweaver_enc_slice_string_def
        Encoder_Len_def enc_slice_string_loop_append Decoder_Len_le32 sint_fits
        dec_slice_string_loop_roundtrip [OF all])
qed


lemma Decoder_String_too_long:
  assumes "length s = 2147483648"
  shows "Decoder_String \<lparr>dec_data = Encoder_String [] s @ rest, dec_err = None\<rparr>
           = ([], \<lparr>dec_data = map byte_of_char s @ rest, dec_err = Some DecodeError\<rparr>)"
  using assms
  by (simp add: Decoder_String_def Encoder_String_def Encoder_Len_def Decoder_Len_le32)

lemma Decoder_String_failed:
  "dec_err d = Some e \<Longrightarrow> Decoder_String d = ([], d)"
  by (simp add: Decoder_String_def Decoder_Len_def Decoder_Int32_def)

lemma dec_slice_string_failed:
  "dec_err d = Some e \<Longrightarrow> serviceweaver_dec_slice_string d = Return (Some [], d)"
  by (simp add: serviceweaver_dec_slice_string_def Decoder_Len_def Decoder_Int32_def)

lemma roundtrip_slice_string_too_long:
  assumes "length s = 2147483648"
  shows "\<not> roundtrip_slice_string (Some [s])"
proof -
  have ne: "s \<noteq> []" using assms by auto
  have one: "sint (1 :: 32 word) = 1" by simp
  have "serviceweaver_dec_slice_string
          \<lparr>dec_data = le32 1 @ Encoder_String [] s @ [], dec_err = None\<rparr>
        = Return (Some [[]], \<lparr>dec_data = map byte_of_char s @ [], dec_err = Some DecodeError\<rparr>)"
    using Decoder_String_too_long [OF assms, of "[]"]
    by (simp add: serviceweaver_dec_slice_string_def Decoder_Len_le32 one)
  then show ?thesis
    using ne
    by (simp add: roundtrip_slice_string_def serviceweaver_enc_slice_string_def NewDecoder_def
        NewEncoder_def Encoder_Data_def Encoder_Len_def Encoder_String_append [of "le32 1" s])
qed

text \<open>
  C1 (as amended). For every list of strings, nil and the empty list included, that has
  fewer than \<open>2 ^ 31\<close> elements, each shorter than \<open>2 ^ 31\<close> bytes: nil is encoded as
  the length -1, a present list as its length followed by its elements' encodings in
  order, and decoding the encoding gives the list back (nil as nil, empty as empty) and
  consumes all the bytes.
\<close>

theorem slice_string_roundtrip:
  assumes "slice_string_fits v"
  shows "serviceweaver_enc_slice_string NewEncoder None = le32 (- 1) \<and>
         (\<forall>xs. serviceweaver_enc_slice_string NewEncoder (Some xs)
                = le32 (word_of_int (int (length xs))) @ concat (map (Encoder_String []) xs)) \<and>
         serviceweaver_dec_slice_string
           (NewDecoder (Encoder_Data (serviceweaver_enc_slice_string NewEncoder v)))
         = Return (v, NewDecoder [])"
proof -
  have "serviceweaver_enc_slice_string NewEncoder None = le32 (- 1)"
    by (simp add: serviceweaver_enc_slice_string_def NewEncoder_def Encoder_Len_def)
  moreover have "serviceweaver_enc_slice_string NewEncoder (Some xs)
      = le32 (word_of_int (int (length xs))) @ concat (map (Encoder_String []) xs)" for xs
    by (simp add: serviceweaver_enc_slice_string_def NewEncoder_def Encoder_Len_def
        enc_slice_string_loop_append)
  moreover have "serviceweaver_dec_slice_string
           (NewDecoder (Encoder_Data (serviceweaver_enc_slice_string NewEncoder v)))
         = Return (v, NewDecoder [])"
    using slice_string_roundtrip_rest [OF assms, of "[]"]
    by (simp add: NewDecoder_def NewEncoder_def Encoder_Data_def)
  ultimately show ?thesis by blast
qed

theorem slice_string_roundtrip_witness:
  "slice_string_fits (Some [''a'', ''bb'']) \<and>
   serviceweaver_dec_slice_string
     (NewDecoder (Encoder_Data (serviceweaver_enc_slice_string NewEncoder (Some [''a'', ''bb'']))))
   = Return (Some [''a'', ''bb''], NewDecoder []) \<and>
   slice_string_fits None \<and>
   serviceweaver_dec_slice_string
     (NewDecoder (Encoder_Data (serviceweaver_enc_slice_string NewEncoder None)))
   = Return (None, NewDecoder []) \<and>
   slice_string_fits (Some []) \<and>
   serviceweaver_dec_slice_string
     (NewDecoder (Encoder_Data (serviceweaver_enc_slice_string NewEncoder (Some []))))
   = Return (Some [], NewDecoder [])"
proof -
  have a: "slice_string_fits (Some [''a'', ''bb''])"
    by (simp add: slice_string_fits_def fits_int32_def)
  have b: "slice_string_fits None"
    by (simp add: slice_string_fits_def)
  have c: "slice_string_fits (Some [])"
    by (simp add: slice_string_fits_def fits_int32_def)
  show ?thesis
    using a b c slice_string_roundtrip [OF a] slice_string_roundtrip [OF b]
      slice_string_roundtrip [OF c]
    by blast
qed

theorem slice_string_roundtrip_counterexample:
  "\<not> roundtrip_slice_string (Some [replicate 2147483648 (CHR ''a'')])"
  by (rule roundtrip_slice_string_too_long) (simp only: length_replicate)

section \<open>The record \<^verbatim>\<open>Product\<close> on the wire\<close>

lemma slice_string_append:
  "serviceweaver_enc_slice_string enc v = enc @ serviceweaver_enc_slice_string [] v"
  by (cases v)
     (simp_all add: serviceweaver_enc_slice_string_def Encoder_Len_def
        enc_slice_string_loop_append)

lemma Product_WeaverMarshal_concat:
  assumes m: "\<forall>enc. money_WeaverMarshal mc (PriceUSD x) enc = Return (enc @ mb)"
  shows "Product_WeaverMarshal mc (Some x) enc = Return (enc @ Product_fields_concat mb x)"
proof -
  have four: "Encoder_String (Encoder_String (Encoder_String (Encoder_String enc a) b) c) d
      = enc @ Encoder_String [] a @ Encoder_String [] b @ Encoder_String [] c @
        Encoder_String [] d" for a b c d
    by (simp add: Encoder_String_def Encoder_Len_def)
  show ?thesis
    unfolding Product_WeaverMarshal_def
    by (simp add: Let_def m four slice_string_append [of "_ @ _"] Product_fields_concat_def)
qed

lemma Product_WeaverUnmarshal_concat:
  assumes u: "\<forall>y rest. money_WeaverUnmarshal mc y \<lparr>dec_data = mb @ rest, dec_err = None\<rparr>
                = (PriceUSD x, Return \<lparr>dec_data = rest, dec_err = None\<rparr>)"
    and fits: "Product_fits x"
  shows "Product_WeaverUnmarshal mc (Some y)
           \<lparr>dec_data = Product_fields_concat mb x @ rest, dec_err = None\<rparr>
         = (Some x, Return \<lparr>dec_data = rest, dec_err = None\<rparr>)"
  using fits
  by (simp add: Product_WeaverUnmarshal_def Product_fits_def Decoder_String_Encoder_String
      u slice_string_roundtrip_rest Product_fields_concat_def)

lemma roundtrip_Product_too_long:
  assumes "length (ID x) = 2147483648"
  shows "\<not> roundtrip_Product code_money x"
proof -
  have ne: "ID x \<noteq> []" using assms by auto
  have m: "\<forall>enc. money_WeaverMarshal code_money (PriceUSD x) enc
             = Return (enc @ Encoder_String [] (PriceUSD x))"
    by (simp add: code_money_def Encoder_String_append [symmetric])
  have enc: "Product_WeaverMarshal code_money (Some x) NewEncoder
      = Return (Encoder_String [] (ID x) @
          (Encoder_String [] (Name x) @ Encoder_String [] (Description x) @
           Encoder_String [] (Picture x) @ Encoder_String [] (PriceUSD x) @
           serviceweaver_enc_slice_string [] (Categories x)))"
    using Product_WeaverMarshal_concat [OF m, of NewEncoder]
    by (simp add: NewEncoder_def Product_fields_concat_def)
  define bs where "bs = Encoder_String [] (ID x) @
          (Encoder_String [] (Name x) @ Encoder_String [] (Description x) @
           Encoder_String [] (Picture x) @ Encoder_String [] (PriceUSD x) @
           serviceweaver_enc_slice_string [] (Categories x))"
  define U where "U = Product_WeaverUnmarshal code_money (Some (Product_zero code_money))
          \<lparr>dec_data = bs, dec_err = None\<rparr>"
  have "fst U = Some \<lparr>ID = [], Name = [], Description = [], Picture = [], PriceUSD = [],
                Categories = Some []\<rparr>"
    unfolding U_def bs_def
    by (simp add: Product_WeaverUnmarshal_def Decoder_String_too_long [OF assms]
        Decoder_String_failed dec_slice_string_failed code_money_def Product_zero_def)
  with ne have "fst U \<noteq> Some x"
    by auto
  moreover have "roundtrip_Product code_money x
      = (case U of (y, r) \<Rightarrow> (case r of Return d \<Rightarrow> y = Some x | Panic e \<Rightarrow> False))"
    by (simp add: roundtrip_Product_def enc NewDecoder_def Encoder_Data_def U_def bs_def)
  ultimately show ?thesis
    by (cases U) (auto split: go.splits)
qed

text \<open>
  C9 (as amended). For a price type whose marshaler appends the bytes \<open>mb\<close>, the
  serialization of every \<open>Product\<close> is the concatenation of its fields' serializations
  in declaration order. For every \<open>Product\<close> whose strings are shorter than \<open>2 ^ 31\<close>
  bytes and whose category list has fewer than \<open>2 ^ 31\<close> elements, and a price type
  whose unmarshaler reads \<open>mb\<close> back, unmarshaling that concatenation reads the fields
  in the same order and gives an equal record, consuming exactly these bytes.
\<close>

theorem Product_marshal_roundtrip:
  "((\<forall>enc. money_WeaverMarshal mc (PriceUSD x) enc = Return (enc @ mb)) \<longrightarrow>
      Product_WeaverMarshal mc (Some x) enc0 = Return (enc0 @ Product_fields_concat mb x)) \<and>
   ((\<forall>y rest. money_WeaverUnmarshal mc y \<lparr>dec_data = mb @ rest, dec_err = None\<rparr>
                = (PriceUSD x, Return \<lparr>dec_data = rest, dec_err = None\<rparr>)) \<and>
    Product_fits x \<longrightarrow>
      Product_WeaverUnmarshal mc (Some y0)
        \<lparr>dec_data = Product_fields_concat mb x @ rest0, dec_err = None\<rparr>
      = (Some x, Return \<lparr>dec_data = rest0, dec_err = None\<rparr>)) \<and>
   ((\<forall>enc. money_WeaverMarshal mc (PriceUSD x) enc = Return (enc @ mb)) \<and>
    (\<forall>y rest. money_WeaverUnmarshal mc y \<lparr>dec_data = mb @ rest, dec_err = None\<rparr>
                = (PriceUSD x, Return \<lparr>dec_data = rest, dec_err = None\<rparr>)) \<and>
    Product_fits x \<longrightarrow>
      roundtrip_Product mc x)"
proof (intro conjI impI)
  assume m: "\<forall>enc. money_WeaverMarshal mc (PriceUSD x) enc = Return (enc @ mb)"
  show "Product_WeaverMarshal mc (Some x) enc0 = Return (enc0 @ Product_fields_concat mb x)"
    by (rule Product_WeaverMarshal_concat [OF m])
next
  assume "(\<forall>y rest. money_WeaverUnmarshal mc y \<lparr>dec_data = mb @ rest, dec_err = None\<rparr>
                = (PriceUSD x, Return \<lparr>dec_data = rest, dec_err = None\<rparr>)) \<and>
    Product_fits x"
  then show "Product_WeaverUnmarshal mc (Some y0)
        \<lparr>dec_data = Product_fields_concat mb x @ rest0, dec_err = None\<rparr>
      = (Some x, Return \<lparr>dec_data = rest0, dec_err = None\<rparr>)"
    using Product_WeaverUnmarshal_concat [of mc mb x y0 rest0] by blast
next
  assume a: "(\<forall>enc. money_WeaverMarshal mc (PriceUSD x) enc = Return (enc @ mb)) \<and>
    (\<forall>y rest. money_WeaverUnmarshal mc y \<lparr>dec_data = mb @ rest, dec_err = None\<rparr>
                = (PriceUSD x, Return \<lparr>dec_data = rest, dec_err = None\<rparr>)) \<and>
    Product_fits x"
  have e: "Product_WeaverMarshal mc (Some x) NewEncoder = Return (Product_fields_concat mb x)"
    using a Product_WeaverMarshal_concat [of mc x mb NewEncoder]
    by (simp add: NewEncoder_def)
  have d: "Product_WeaverUnmarshal mc (Some (Product_zero mc))
           (NewDecoder (Encoder_Data (Product_fields_concat mb x)))
         = (Some x, Return (NewDecoder []))"
    using a Product_WeaverUnmarshal_concat [of mc mb x "Product_zero mc" "[]"]
    by (simp add: NewDecoder_def Encoder_Data_def)
  show "roundtrip_Product mc x"
    by (simp add: roundtrip_Product_def e d)
qed

theorem Product_marshal_roundtrip_witness:
  "Product_WeaverMarshal code_money (Some sunglasses) NewEncoder
     = Return (NewEncoder @ Product_fields_concat (Encoder_String [] ''USD'') sunglasses) \<and>
   Product_WeaverMarshal code_money
     (Some \<lparr>ID = replicate 2147483648 (CHR ''a''), Name = [], Description = [], Picture = [],
            PriceUSD = [], Categories = None\<rparr>) NewEncoder
     = Return (NewEncoder @ Product_fields_concat (Encoder_String [] [])
         \<lparr>ID = replicate 2147483648 (CHR ''a''), Name = [], Description = [], Picture = [],
          PriceUSD = ([] :: string), Categories = None\<rparr>) \<and>
   Product_fits sunglasses \<and>
   Product_WeaverUnmarshal code_money (Some (Product_zero code_money))
     \<lparr>dec_data = Product_fields_concat (Encoder_String [] ''USD'') sunglasses @ [],
      dec_err = None\<rparr>
     = (Some sunglasses, Return \<lparr>dec_data = [], dec_err = None\<rparr>) \<and>
   roundtrip_Product code_money sunglasses"
proof -
  have p: "PriceUSD sunglasses = ''USD''"
    by (simp add: sunglasses_def)
  have m: "\<forall>enc. money_WeaverMarshal code_money (PriceUSD sunglasses) enc
             = Return (enc @ Encoder_String [] ''USD'')"
    by (simp add: code_money_def p Encoder_String_append [symmetric])
  have mbig: "\<forall>enc. money_WeaverMarshal code_money
             (PriceUSD \<lparr>ID = replicate 2147483648 (CHR ''a''), Name = [], Description = [],
                Picture = [], PriceUSD = [], Categories = None\<rparr>) enc
             = Return (enc @ Encoder_String [] [])"
    by (simp only: Product.simps) (simp add: code_money_def Encoder_String_append [symmetric])
  have f3: "fits_int32 (length ''USD'')"
    by (simp add: fits_int32_def)
  have u: "\<forall>y rest. money_WeaverUnmarshal code_money y
               \<lparr>dec_data = Encoder_String [] ''USD'' @ rest, dec_err = None\<rparr>
             = (PriceUSD sunglasses, Return \<lparr>dec_data = rest, dec_err = None\<rparr>)"
    by (simp add: code_money_def p Decoder_String_Encoder_String [OF f3])
  have f: "Product_fits sunglasses"
    by (simp add: Product_fits_def sunglasses_def slice_string_fits_def fits_int32_def)
  note t = Product_marshal_roundtrip
    [where mc = code_money and x = sunglasses and mb = "Encoder_String [] ''USD''"
       and ?enc0.0 = NewEncoder and ?y0.0 = "Product_zero code_money" and ?rest0.0 = "[]"]
  note tbig = Product_marshal_roundtrip
    [where mc = code_money and mb = "Encoder_String [] []" and ?enc0.0 = NewEncoder
       and x = "\<lparr>ID = replicate 2147483648 (CHR ''a''), Name = [], Description = [],
                Picture = [], PriceUSD = ([] :: string), Categories = None\<rparr>"]
  have 1: "Product_WeaverMarshal code_money (Some sunglasses) NewEncoder
     = Return (NewEncoder @ Product_fields_concat (Encoder_String [] ''USD'') sunglasses)"
    by (rule t [THEN conjunct1, THEN mp, OF m])
  have 2: "Product_WeaverMarshal code_money
     (Some \<lparr>ID = replicate 2147483648 (CHR ''a''), Name = [], Description = [], Picture = [],
            PriceUSD = [], Categories = None\<rparr>) NewEncoder
     = Return (NewEncoder @ Product_fields_concat (Encoder_String [] [])
         \<lparr>ID = replicate 2147483648 (CHR ''a''), Name = [], Description = [], Picture = [],
          PriceUSD = ([] :: string), Categories = None\<rparr>)"
    by (rule tbig [THEN conjunct1, THEN mp, OF mbig])
  have 3: "Product_WeaverUnmarshal code_money (Some (Product_zero code_money))
     \<lparr>dec_data = Product_fields_concat (Encoder_String [] ''USD'') sunglasses @ [],
      dec_err = None\<rparr>
     = (Some sunglasses, Return \<lparr>dec_data = [], dec_err = None\<rparr>)"
    by (rule t [THEN conjunct2, THEN conjunct1, THEN mp, OF conjI [OF u f]])
  have 4: "roundtrip_Product code_money sunglasses"
    by (rule t [THEN conjunct2, THEN conjunct2, THEN mp, OF conjI [OF m conjI [OF u f]]])
  from 1 2 f 3 4 show ?thesis by (intro conjI)
qed

theorem Product_marshal_roundtrip_counterexample:
  "\<not> roundtrip_Product code_money
       \<lparr>ID = replicate 2147483648 (CHR ''a''), Name = [], Description = [], Picture = [],
        PriceUSD = [], Categories = None\<rparr>"
  by (rule roundtrip_Product_too_long) (simp only: Product.simps length_replicate)

section \<open>Client stubs: the deferred function and the bodies\<close>

lemmas world_defs = Count_Add_def ErrorCount_Add_def Latency_Put_def BytesRequest_Put_def
  BytesReply_Put_def span_End_def span_SetStatus_def span_RecordError_def tracer_Start_def

lemma errors_Is_refl: "errors_Is e e"
  by (cases e) simp_all

lemma errors_Join_two: "errors_Join [Some a, Some b] = Some (joinError [a, b])"
  by (simp add: errors_Join_def List.map_filter_def)

lemma client_deferred_err:
  "client_deferred k span elapsed (w, r0, Some e, None) =
     (Return (r0, Some e),
      Latency_Put k elapsed (span_End span (ErrorCount_Add k 1
        (span_SetStatus span (Error_msg e) (span_RecordError span e w)))))"
  by (simp add: client_deferred_def)

lemma client_deferred_ok:
  "client_deferred k span elapsed (w, r0, None, None) =
     (Return (r0, None), Latency_Put k elapsed (span_End span w))"
  by (simp add: client_deferred_def CatchPanics_def)

lemma client_deferred_panic:
  "client_deferred k span elapsed (w, r0, None, Some p) =
     (Return (r0, Some (joinError [RemoteCallError, p])),
      Latency_Put k elapsed (span_End span (ErrorCount_Add k 1
        (span_SetStatus span (Error_msg (joinError [RemoteCallError, p]))
          (span_RecordError span (joinError [RemoteCallError, p]) w)))))"
  by (simp add: client_deferred_def CatchPanics_def errors_Join_two)

lemma client_deferred_cases:
  assumes "pan = None \<or> err = None"
  shows "client_deferred k span elapsed (w, r0, err, pan) =
     (let err1 = (case pan of None \<Rightarrow> err | Some p \<Rightarrow> Some (joinError [RemoteCallError, p]))
      in (Return (r0, err1),
          Latency_Put k elapsed (span_End span
            (case err1 of None \<Rightarrow> w
             | Some e \<Rightarrow> ErrorCount_Add k 1
                 (span_SetStatus span (Error_msg e) (span_RecordError span e w))))))"
  using assms
  by (cases pan; cases err)
     (simp_all add: client_deferred_ok client_deferred_err client_deferred_panic)

text \<open>
  What the deferred function does to any state a body can stop in: a state in which a
  panic is in flight only while the named error is nil.
\<close>

lemma client_deferred_returns:
  assumes "case st of (w', r0, err, pan) \<Rightarrow> pan = None \<or> err = None"
  shows "\<exists>r e. fst (client_deferred k span elapsed st) = Return (r, e)"
proof -
  obtain w' r0 err pan where st: "st = (w', r0, err, pan)"
    using prod_cases4 by blast
  with assms have "pan = None \<or> err = None" by simp
  then show ?thesis
    by (simp add: st client_deferred_cases Let_def)
qed

lemma client_deferred_trace:
  assumes "case st of (w', r0, err, pan) \<Rightarrow> pan = None \<or> err = None"
  shows "trace (snd (client_deferred k span elapsed st)) =
           trace (fst st) @
           closing_ops span (returned_error (fst (client_deferred k span elapsed st)))"
proof -
  obtain w' r0 err pan where st: "st = (w', r0, err, pan)"
    using prod_cases4 by blast
  with assms have "pan = None \<or> err = None" by simp
  then show ?thesis
    unfolding st
    by (cases pan; cases err)
       (simp_all add: client_deferred_ok client_deferred_err client_deferred_panic world_defs
          closing_ops_def)
qed

lemma client_deferred_metrics:
  assumes "case st of (w', r0, err, pan) \<Rightarrow> pan = None \<or> err = None"
  shows "metrics (snd (client_deferred k span elapsed st)) =
           (metrics (fst st))
             (k := (metrics (fst st) k)
                \<lparr>ErrorCount := ErrorCount (metrics (fst st) k) +
                   (if failed (fst (client_deferred k span elapsed st)) then 1 else 0),
                 Latency := Latency (metrics (fst st) k) @ [elapsed]\<rparr>)"
proof -
  obtain w' r0 err pan where st: "st = (w', r0, err, pan)"
    using prod_cases4 by blast
  with assms have "pan = None \<or> err = None" by simp
  then show ?thesis
    unfolding st
    by (cases pan; cases err)
       (simp_all add: client_deferred_ok client_deferred_err client_deferred_panic world_defs)
qed

lemma client_entry_trace:
  "trace (client_entry k name ctx w) =
     trace w @ (if IsValid (ctx_span ctx) then [OpStart (ChildSpan name SpanKindClient)] else [])"
  by (simp add: client_entry_def world_defs)

lemma client_entry_metrics:
  "metrics (client_entry k name ctx w) = (metrics w)(k := (metrics w k)\<lparr>Count := Count (metrics w k) + 1\<rparr>)"
  by (simp add: client_entry_def world_defs)

lemma new_ops_append: "trace w' = trace w @ ops \<Longrightarrow> new_ops w w' = ops"
  by (simp add: new_ops_def)

lemma span_counts_closing:
  "span_starts (closing_ops span err) = 0" "span_ends (closing_ops span err) = 1"
  by (cases err; simp add: closing_ops_def span_starts_def span_ends_def)+

lemma span_counts_started:
  "span_starts (OpStart sp # closing_ops span err) = 1"
  "span_ends (OpStart sp # closing_ops span err) = 1"
  by (cases err; simp add: closing_ops_def span_starts_def span_ends_def)+

text \<open>
  The frame of a client stub method around a body that leaves the trace alone: the span
  lifecycle, and the return of the call.
\<close>

lemma client_frame_lifecycle:
  assumes ok: "case st of (w', r0, err, pan) \<Rightarrow> pan = None \<or> err = None"
    and tr: "trace (fst st) = trace (client_entry k name ctx w)"
  shows "client_span_lifecycle name ctx w
           (client_deferred k (call_span name SpanKindClient ctx) elapsed st)"
proof -
  let ?out = "client_deferred k (call_span name SpanKindClient ctx) elapsed st"
  have t: "trace (snd ?out) =
      trace w @ (if IsValid (ctx_span ctx) then [OpStart (ChildSpan name SpanKindClient)] else []) @
      closing_ops (call_span name SpanKindClient ctx) (returned_error (fst ?out))"
    by (simp only: client_deferred_trace [OF ok] tr client_entry_trace append_assoc)
  show ?thesis
  proof (cases "IsValid (ctx_span ctx)")
    case True
    with t have t': "trace (snd ?out) = trace w @ OpStart (ChildSpan name SpanKindClient) #
        closing_ops (ChildSpan name SpanKindClient) (returned_error (fst ?out))"
      by (simp add: call_span_def)
    have n: "new_ops w (snd ?out) = OpStart (ChildSpan name SpanKindClient) #
        closing_ops (ChildSpan name SpanKindClient) (returned_error (fst ?out))"
      by (rule new_ops_append [OF t'])
    show ?thesis
      using True t'
      by (simp add: client_span_lifecycle_def case_prod_beta n span_counts_started)
  next
    case False
    with t have t': "trace (snd ?out) = trace w @
        closing_ops (ctx_span ctx) (returned_error (fst ?out))"
      by (simp add: call_span_def)
    have n: "new_ops w (snd ?out) = closing_ops (ctx_span ctx) (returned_error (fst ?out))"
      by (rule new_ops_append [OF t'])
    show ?thesis
      using False t'
      by (simp add: client_span_lifecycle_def case_prod_beta n span_counts_closing)
  qed
qed

text \<open>The five methods of the two client stubs.\<close>

lemma client_Convert_unfold:
  "client_Convert mc stub ctx a0 a1 elapsed w =
     client_deferred ''Convert'' (call_span ''currencyservice.T.Convert'' SpanKindClient ctx) elapsed
       (client_Convert_body mc stub (call_context ''currencyservice.T.Convert'' SpanKindClient ctx) a0 a1
          (client_entry ''Convert'' ''currencyservice.T.Convert'' ctx w))"
  by (simp add: client_Convert_def call_span_def call_context_def client_entry_def
      trace_SpanFromContext_def tracer_Start_def Let_def)

lemma client_Convert_body_ok:
  "case client_Convert_body mc stub ctx a0 a1 w of (w', r0, err, pan) \<Rightarrow> pan = None \<or> err = None"
  by (simp add: client_Convert_body_def Let_def split: go.splits option.splits prod.splits)

lemma client_Convert_body_trace:
  "trace (fst (client_Convert_body mc stub ctx a0 a1 w)) = trace w"
  by (simp add: client_Convert_body_def Let_def world_defs
      split: go.splits option.splits prod.splits)

lemma client_Convert_body_metrics:
  "metrics (fst (client_Convert_body mc stub ctx a0 a1 w)) =
     (metrics w)
       (''Convert'' := (metrics w ''Convert'')
          \<lparr>BytesRequest := BytesRequest (metrics w ''Convert'') @
             request_samples (case money_WeaverMarshal mc a0 NewEncoder of Panic e \<Rightarrow> None | Return enc1 \<Rightarrow> Some (Encoder_String enc1 a1)),
           BytesReply := BytesReply (metrics w ''Convert'') @
             call_reply_samples (case money_WeaverMarshal mc a0 NewEncoder of Panic e \<Rightarrow> None | Return enc1 \<Rightarrow> Some (Run stub ctx 0 (Encoder_String enc1 a1) 0))\<rparr>)"
  by (simp add: client_Convert_body_def Let_def world_defs Encoder_Data_def 
      split: go.splits option.splits prod.splits)

lemma client_Convert_returns:
  "\<exists>r e. fst (client_Convert mc stub ctx a0 a1 elapsed w) = Return (r, e)"
  by (simp only: client_Convert_unfold) (rule client_deferred_returns [OF client_Convert_body_ok])

lemma client_Convert_lifecycle:
  "client_span_lifecycle ''currencyservice.T.Convert'' ctx w (client_Convert mc stub ctx a0 a1 elapsed w)"
  by (simp only: client_Convert_unfold)
     (rule client_frame_lifecycle [OF client_Convert_body_ok client_Convert_body_trace])

lemma client_GetSupportedCurrencies_unfold:
  "client_GetSupportedCurrencies stub ctx elapsed w =
     client_deferred ''GetSupportedCurrencies'' (call_span ''currencyservice.T.GetSupportedCurrencies'' SpanKindClient ctx) elapsed
       (client_GetSupportedCurrencies_body stub (call_context ''currencyservice.T.GetSupportedCurrencies'' SpanKindClient ctx)
          (client_entry ''GetSupportedCurrencies'' ''currencyservice.T.GetSupportedCurrencies'' ctx w))"
  by (simp add: client_GetSupportedCurrencies_def call_span_def call_context_def client_entry_def
      trace_SpanFromContext_def tracer_Start_def Let_def)

lemma client_GetSupportedCurrencies_body_ok:
  "case client_GetSupportedCurrencies_body stub ctx w of (w', r0, err, pan) \<Rightarrow> pan = None \<or> err = None"
  by (simp add: client_GetSupportedCurrencies_body_def Let_def split: go.splits option.splits prod.splits)

lemma client_GetSupportedCurrencies_body_trace:
  "trace (fst (client_GetSupportedCurrencies_body stub ctx w)) = trace w"
  by (simp add: client_GetSupportedCurrencies_body_def Let_def world_defs
      split: go.splits option.splits prod.splits)

lemma client_GetSupportedCurrencies_body_metrics:
  "metrics (fst (client_GetSupportedCurrencies_body stub ctx w)) =
     (metrics w)
       (''GetSupportedCurrencies'' := (metrics w ''GetSupportedCurrencies'')
          \<lparr>BytesRequest := BytesRequest (metrics w ''GetSupportedCurrencies'') @
             [0],
           BytesReply := BytesReply (metrics w ''GetSupportedCurrencies'') @
             reply_samples (Run stub ctx 1 [] 0)\<rparr>)"
  by (simp add: client_GetSupportedCurrencies_body_def Let_def world_defs Encoder_Data_def 
      split: go.splits option.splits prod.splits)

lemma client_GetSupportedCurrencies_returns:
  "\<exists>r e. fst (client_GetSupportedCurrencies stub ctx elapsed w) = Return (r, e)"
  by (simp only: client_GetSupportedCurrencies_unfold) (rule client_deferred_returns [OF client_GetSupportedCurrencies_body_ok])

lemma client_GetSupportedCurrencies_lifecycle:
  "client_span_lifecycle ''currencyservice.T.GetSupportedCurrencies'' ctx w (client_GetSupportedCurrencies stub ctx elapsed w)"
  by (simp only: client_GetSupportedCurrencies_unfold)
     (rule client_frame_lifecycle [OF client_GetSupportedCurrencies_body_ok client_GetSupportedCurrencies_body_trace])

lemma client_GetProduct_unfold:
  "client_GetProduct mc stub ctx a0 elapsed w =
     client_deferred ''GetProduct'' (call_span ''productcatalogservice.T.GetProduct'' SpanKindClient ctx) elapsed
       (client_GetProduct_body mc stub (call_context ''productcatalogservice.T.GetProduct'' SpanKindClient ctx) a0
          (client_entry ''GetProduct'' ''productcatalogservice.T.GetProduct'' ctx w))"
  by (simp add: client_GetProduct_def call_span_def call_context_def client_entry_def
      trace_SpanFromContext_def tracer_Start_def Let_def)

lemma client_GetProduct_body_ok:
  "case client_GetProduct_body mc stub ctx a0 w of (w', r0, err, pan) \<Rightarrow> pan = None \<or> err = None"
  by (simp add: client_GetProduct_body_def Let_def split: go.splits option.splits prod.splits)

lemma client_GetProduct_body_trace:
  "trace (fst (client_GetProduct_body mc stub ctx a0 w)) = trace w"
  by (simp add: client_GetProduct_body_def Let_def world_defs
      split: go.splits option.splits prod.splits)

lemma client_GetProduct_body_metrics:
  "metrics (fst (client_GetProduct_body mc stub ctx a0 w)) =
     (metrics w)
       (''GetProduct'' := (metrics w ''GetProduct'')
          \<lparr>BytesRequest := BytesRequest (metrics w ''GetProduct'') @
             [length (Encoder_String [] a0)],
           BytesReply := BytesReply (metrics w ''GetProduct'') @
             reply_samples (Run stub ctx 0 (Encoder_String [] a0) 0)\<rparr>)"
  by (simp add: client_GetProduct_body_def Let_def world_defs Encoder_Data_def Encoder_Reset_def NewEncoder_def
      split: go.splits option.splits prod.splits)

lemma client_GetProduct_returns:
  "\<exists>r e. fst (client_GetProduct mc stub ctx a0 elapsed w) = Return (r, e)"
  by (simp only: client_GetProduct_unfold) (rule client_deferred_returns [OF client_GetProduct_body_ok])

lemma client_GetProduct_lifecycle:
  "client_span_lifecycle ''productcatalogservice.T.GetProduct'' ctx w (client_GetProduct mc stub ctx a0 elapsed w)"
  by (simp only: client_GetProduct_unfold)
     (rule client_frame_lifecycle [OF client_GetProduct_body_ok client_GetProduct_body_trace])

lemma client_ListProducts_unfold:
  "client_ListProducts mc stub ctx elapsed w =
     client_deferred ''ListProducts'' (call_span ''productcatalogservice.T.ListProducts'' SpanKindClient ctx) elapsed
       (client_ListProducts_body mc stub (call_context ''productcatalogservice.T.ListProducts'' SpanKindClient ctx)
          (client_entry ''ListProducts'' ''productcatalogservice.T.ListProducts'' ctx w))"
  by (simp add: client_ListProducts_def call_span_def call_context_def client_entry_def
      trace_SpanFromContext_def tracer_Start_def Let_def)

lemma client_ListProducts_body_ok:
  "case client_ListProducts_body mc stub ctx w of (w', r0, err, pan) \<Rightarrow> pan = None \<or> err = None"
  by (simp add: client_ListProducts_body_def Let_def split: go.splits option.splits prod.splits)

lemma client_ListProducts_body_trace:
  "trace (fst (client_ListProducts_body mc stub ctx w)) = trace w"
  by (simp add: client_ListProducts_body_def Let_def world_defs
      split: go.splits option.splits prod.splits)

lemma client_ListProducts_body_metrics:
  "metrics (fst (client_ListProducts_body mc stub ctx w)) =
     (metrics w)
       (''ListProducts'' := (metrics w ''ListProducts'')
          \<lparr>BytesRequest := BytesRequest (metrics w ''ListProducts'') @
             [0],
           BytesReply := BytesReply (metrics w ''ListProducts'') @
             reply_samples (Run stub ctx 1 [] 0)\<rparr>)"
  by (simp add: client_ListProducts_body_def Let_def world_defs Encoder_Data_def 
      split: go.splits option.splits prod.splits)

lemma client_ListProducts_returns:
  "\<exists>r e. fst (client_ListProducts mc stub ctx elapsed w) = Return (r, e)"
  by (simp only: client_ListProducts_unfold) (rule client_deferred_returns [OF client_ListProducts_body_ok])

lemma client_ListProducts_lifecycle:
  "client_span_lifecycle ''productcatalogservice.T.ListProducts'' ctx w (client_ListProducts mc stub ctx elapsed w)"
  by (simp only: client_ListProducts_unfold)
     (rule client_frame_lifecycle [OF client_ListProducts_body_ok client_ListProducts_body_trace])

lemma client_SearchProducts_unfold:
  "client_SearchProducts mc stub ctx a0 elapsed w =
     client_deferred ''SearchProducts'' (call_span ''productcatalogservice.T.SearchProducts'' SpanKindClient ctx) elapsed
       (client_SearchProducts_body mc stub (call_context ''productcatalogservice.T.SearchProducts'' SpanKindClient ctx) a0
          (client_entry ''SearchProducts'' ''productcatalogservice.T.SearchProducts'' ctx w))"
  by (simp add: client_SearchProducts_def call_span_def call_context_def client_entry_def
      trace_SpanFromContext_def tracer_Start_def Let_def)

lemma client_SearchProducts_body_ok:
  "case client_SearchProducts_body mc stub ctx a0 w of (w', r0, err, pan) \<Rightarrow> pan = None \<or> err = None"
  by (simp add: client_SearchProducts_body_def Let_def split: go.splits option.splits prod.splits)

lemma client_SearchProducts_body_trace:
  "trace (fst (client_SearchProducts_body mc stub ctx a0 w)) = trace w"
  by (simp add: client_SearchProducts_body_def Let_def world_defs
      split: go.splits option.splits prod.splits)

lemma client_SearchProducts_body_metrics:
  "metrics (fst (client_SearchProducts_body mc stub ctx a0 w)) =
     (metrics w)
       (''SearchProducts'' := (metrics w ''SearchProducts'')
          \<lparr>BytesRequest := BytesRequest (metrics w ''SearchProducts'') @
             [length (Encoder_String [] a0)],
           BytesReply := BytesReply (metrics w ''SearchProducts'') @
             reply_samples (Run stub ctx 2 (Encoder_String [] a0) 0)\<rparr>)"
  by (simp add: client_SearchProducts_body_def Let_def world_defs Encoder_Data_def Encoder_Reset_def NewEncoder_def
      split: go.splits option.splits prod.splits)

lemma client_SearchProducts_returns:
  "\<exists>r e. fst (client_SearchProducts mc stub ctx a0 elapsed w) = Return (r, e)"
  by (simp only: client_SearchProducts_unfold) (rule client_deferred_returns [OF client_SearchProducts_body_ok])

lemma client_SearchProducts_lifecycle:
  "client_span_lifecycle ''productcatalogservice.T.SearchProducts'' ctx w (client_SearchProducts mc stub ctx a0 elapsed w)"
  by (simp only: client_SearchProducts_unfold)
     (rule client_frame_lifecycle [OF client_SearchProducts_body_ok client_SearchProducts_body_trace])

section \<open>Client stubs: a transport that fails\<close>

lemma client_GetProduct_body_transport_error:
  assumes "Run stub ctx 0 (Encoder_String [] a0) 0 = Return (results, Some terr)"
  shows "client_GetProduct_body mc stub ctx a0 w =
           (BytesRequest_Put ''GetProduct'' (length (Encoder_String [] a0)) w, (Product_zero mc),
            Some (joinError [RemoteCallError, terr]), None)"
  using assms
  by (simp add: client_GetProduct_body_def Let_def Encoder_Data_def errors_Join_two Encoder_Reset_def NewEncoder_def)

lemma client_ListProducts_body_transport_error:
  assumes "Run stub ctx 1 [] 0 = Return (results, Some terr)"
  shows "client_ListProducts_body mc stub ctx w =
           (BytesRequest_Put ''ListProducts'' (0) w, None,
            Some (joinError [RemoteCallError, terr]), None)"
  using assms
  by (simp add: client_ListProducts_body_def Let_def Encoder_Data_def errors_Join_two )

lemma client_SearchProducts_body_transport_error:
  assumes "Run stub ctx 2 (Encoder_String [] a0) 0 = Return (results, Some terr)"
  shows "client_SearchProducts_body mc stub ctx a0 w =
           (BytesRequest_Put ''SearchProducts'' (length (Encoder_String [] a0)) w, None,
            Some (joinError [RemoteCallError, terr]), None)"
  using assms
  by (simp add: client_SearchProducts_body_def Let_def Encoder_Data_def errors_Join_two Encoder_Reset_def NewEncoder_def)

lemma client_GetSupportedCurrencies_body_transport_error:
  assumes "Run stub ctx 1 [] 0 = Return (results, Some terr)"
  shows "client_GetSupportedCurrencies_body stub ctx w =
           (BytesRequest_Put ''GetSupportedCurrencies'' (0) w, None,
            Some (joinError [RemoteCallError, terr]), None)"
  using assms
  by (simp add: client_GetSupportedCurrencies_body_def Let_def Encoder_Data_def errors_Join_two )

lemma client_Convert_body_transport_error:
  assumes "money_WeaverMarshal mc a0 NewEncoder = Return enc1"
    and "Run stub ctx 0 (Encoder_String enc1 a1) 0 = Return (results, Some terr)"
  shows "client_Convert_body mc stub ctx a0 a1 w =
           (BytesRequest_Put ''Convert'' (length (Encoder_String enc1 a1)) w, money_zero mc,
            Some (joinError [RemoteCallError, terr]), None)"
  using assms
  by (simp add: client_Convert_body_def Let_def Encoder_Data_def errors_Join_two)

lemma transport_failure_outcomeI:
  "transport_failure_outcome k (call_span name SpanKindClient ctx) elapsed terr zero w
     (client_deferred k (call_span name SpanKindClient ctx) elapsed
        (BytesRequest_Put k n (client_entry k name ctx w), zero,
         Some (joinError [RemoteCallError, terr]), None))"
  by (simp add: transport_failure_outcome_def client_deferred_err world_defs errors_Is_refl
      new_ops_def span_ends_def client_entry_def)

text \<open>
  C2. For a call through any of the five client stub methods whose transport invocation
  returns an error (for \<open>Convert\<close>, once its arguments are encoded): the call returns an
  error that joins the sentinel \<open>RemoteCallError\<close> and the transport's error, so that
  \<open>errors.Is\<close> finds both; the error counter grows by exactly one; the span is ended;
  the latency is recorded; the result is the zero value and no reply size is recorded.
\<close>

theorem client_stub_transport_error:
  "(Run stub (call_context ''productcatalogservice.T.GetProduct'' SpanKindClient ctx) 0
        (Encoder_String [] a0) 0 = Return (results, Some terr) \<longrightarrow>
    transport_failure_outcome ''GetProduct''
      (call_span ''productcatalogservice.T.GetProduct'' SpanKindClient ctx) elapsed terr
      (Product_zero mc) w (client_GetProduct mc stub ctx a0 elapsed w)) \<and>
   (money_WeaverMarshal mc m0 NewEncoder = Return enc1 \<and>
    Run stub (call_context ''currencyservice.T.Convert'' SpanKindClient ctx) 0
        (Encoder_String enc1 a1) 0 = Return (results, Some terr) \<longrightarrow>
    transport_failure_outcome ''Convert''
      (call_span ''currencyservice.T.Convert'' SpanKindClient ctx) elapsed terr
      (money_zero mc) w (client_Convert mc stub ctx m0 a1 elapsed w)) \<and>
   (Run stub (call_context ''productcatalogservice.T.ListProducts'' SpanKindClient ctx) 1
        [] 0 = Return (results, Some terr) \<longrightarrow>
    transport_failure_outcome ''ListProducts''
      (call_span ''productcatalogservice.T.ListProducts'' SpanKindClient ctx) elapsed terr
      None w (client_ListProducts mc stub ctx elapsed w)) \<and>
   (Run stub (call_context ''productcatalogservice.T.SearchProducts'' SpanKindClient ctx) 2
        (Encoder_String [] a0) 0 = Return (results, Some terr) \<longrightarrow>
    transport_failure_outcome ''SearchProducts''
      (call_span ''productcatalogservice.T.SearchProducts'' SpanKindClient ctx) elapsed terr
      None w (client_SearchProducts mc stub ctx a0 elapsed w)) \<and>
   (Run stub (call_context ''currencyservice.T.GetSupportedCurrencies'' SpanKindClient ctx) 1
        [] 0 = Return (results, Some terr) \<longrightarrow>
    transport_failure_outcome ''GetSupportedCurrencies''
      (call_span ''currencyservice.T.GetSupportedCurrencies'' SpanKindClient ctx) elapsed terr
      None w (client_GetSupportedCurrencies stub ctx elapsed w))"
  by (simp add: client_GetProduct_unfold client_Convert_unfold client_ListProducts_unfold
      client_SearchProducts_unfold client_GetSupportedCurrencies_unfold
      client_GetProduct_body_transport_error client_Convert_body_transport_error
      client_ListProducts_body_transport_error client_SearchProducts_body_transport_error
      client_GetSupportedCurrencies_body_transport_error
      transport_failure_outcomeI)

theorem client_stub_transport_error_witness:
  "transport_failure_outcome ''GetProduct''
     (ChildSpan ''productcatalogservice.T.GetProduct'' SpanKindClient) 1500
     (ErrorString ''connection refused'') (Product_zero code_money) new_world
     (client_GetProduct code_money (error_stub (ErrorString ''connection refused'')) traced
        ''OLJCESPC7Z'' 1500 new_world) \<and>
   transport_failure_outcome ''Convert'' (ContextSpan False) 1500
     (ErrorString ''connection refused'') [] new_world
     (client_Convert code_money (error_stub (ErrorString ''connection refused'')) untraced
        ''USD'' ''EUR'' 1500 new_world) \<and>
   transport_failure_outcome ''ListProducts''
     (ChildSpan ''productcatalogservice.T.ListProducts'' SpanKindClient) 1500
     (ErrorString ''connection refused'') None new_world
     (client_ListProducts code_money (error_stub (ErrorString ''connection refused'')) traced
        1500 new_world) \<and>
   transport_failure_outcome ''SearchProducts'' (ContextSpan False) 1500
     (ErrorString ''connection refused'') None new_world
     (client_SearchProducts code_money (error_stub (ErrorString ''connection refused''))
        untraced ''sun'' 1500 new_world) \<and>
   transport_failure_outcome ''GetSupportedCurrencies''
     (ChildSpan ''currencyservice.T.GetSupportedCurrencies'' SpanKindClient) 1500
     (ErrorString ''connection refused'') None new_world
     (client_GetSupportedCurrencies (error_stub (ErrorString ''connection refused'')) traced
        1500 new_world)"
proof -
  have r: "Run (error_stub (ErrorString ''connection refused'')) c n args 0
             = Return ([], Some (ErrorString ''connection refused''))" for c n args
    by (simp add: error_stub_def)
  have b: "money_WeaverMarshal code_money ''USD'' NewEncoder
             = Return (Encoder_String NewEncoder ''USD'')"
    by (simp add: code_money_def)
  have s1: "call_span name SpanKindClient traced = ChildSpan name SpanKindClient" for name
    by (simp add: call_span_def traced_def)
  have s2: "call_span name SpanKindClient untraced = ContextSpan False" for name
    by (simp add: call_span_def untraced_def)
  have z: "money_zero code_money = []"
    by (simp add: code_money_def)
  note t = client_stub_transport_error
    [where stub = "error_stub (ErrorString ''connection refused'')" and ctx = traced
       and results = "[]" and terr = "ErrorString ''connection refused''" and elapsed = 1500
       and mc = code_money and w = new_world and ?a0.0 = "''OLJCESPC7Z''"]
  note u = client_stub_transport_error
    [where stub = "error_stub (ErrorString ''connection refused'')" and ctx = untraced
       and results = "[]" and terr = "ErrorString ''connection refused''" and elapsed = 1500
       and mc = code_money and w = new_world and ?a0.0 = "''sun''" and ?m0.0 = "''USD''"
       and ?enc1.0 = "Encoder_String NewEncoder ''USD''" and ?a1.0 = "''EUR''"]
  have 1: "transport_failure_outcome ''GetProduct''
     (ChildSpan ''productcatalogservice.T.GetProduct'' SpanKindClient) 1500
     (ErrorString ''connection refused'') (Product_zero code_money) new_world
     (client_GetProduct code_money (error_stub (ErrorString ''connection refused'')) traced
        ''OLJCESPC7Z'' 1500 new_world)"
    using t [THEN conjunct1, THEN mp, OF r] by (simp only: s1)
  have 2: "transport_failure_outcome ''Convert'' (ContextSpan False) 1500
     (ErrorString ''connection refused'') [] new_world
     (client_Convert code_money (error_stub (ErrorString ''connection refused'')) untraced
        ''USD'' ''EUR'' 1500 new_world)"
    using u [THEN conjunct2, THEN conjunct1, THEN mp, OF conjI [OF b r]] by (simp only: s2 z)
  have 3: "transport_failure_outcome ''ListProducts''
     (ChildSpan ''productcatalogservice.T.ListProducts'' SpanKindClient) 1500
     (ErrorString ''connection refused'') None new_world
     (client_ListProducts code_money (error_stub (ErrorString ''connection refused'')) traced
        1500 new_world)"
    using t [THEN conjunct2, THEN conjunct2, THEN conjunct1, THEN mp, OF r] by (simp only: s1)
  have 4: "transport_failure_outcome ''SearchProducts'' (ContextSpan False) 1500
     (ErrorString ''connection refused'') None new_world
     (client_SearchProducts code_money (error_stub (ErrorString ''connection refused''))
        untraced ''sun'' 1500 new_world)"
    using u [THEN conjunct2, THEN conjunct2, THEN conjunct2, THEN conjunct1, THEN mp, OF r]
    by (simp only: s2)
  have 5: "transport_failure_outcome ''GetSupportedCurrencies''
     (ChildSpan ''currencyservice.T.GetSupportedCurrencies'' SpanKindClient) 1500
     (ErrorString ''connection refused'') None new_world
     (client_GetSupportedCurrencies (error_stub (ErrorString ''connection refused'')) traced
        1500 new_world)"
    using t [THEN conjunct2, THEN conjunct2, THEN conjunct2, THEN conjunct2, THEN mp, OF r]
    by (simp only: s1)
  from 1 2 3 4 5 show ?thesis by (intro conjI)
qed

section \<open>Client stubs: faults\<close>

lemma client_Convert_encode_fault:
  assumes "money_WeaverMarshal mc m0 NewEncoder = Panic p"
  shows "fst (client_Convert mc stub ctx m0 a1 elapsed w)
           = Return (money_zero mc, Some (joinError [RemoteCallError, p]))"
  using assms
  by (simp add: client_Convert_unfold client_Convert_body_def client_deferred_panic)

lemma client_Convert_transport_fault:
  assumes "money_WeaverMarshal mc m0 NewEncoder = Return enc1"
    and "Run stub (call_context ''currencyservice.T.Convert'' SpanKindClient ctx) 0
           (Encoder_String enc1 a1) 0 = Panic p"
  shows "fst (client_Convert mc stub ctx m0 a1 elapsed w)
           = Return (money_zero mc, Some (joinError [RemoteCallError, p]))"
  using assms
  by (simp add: client_Convert_unfold client_Convert_body_def client_deferred_panic Let_def
      Encoder_Data_def)

lemma client_Convert_decode_fault:
  assumes "money_WeaverMarshal mc m0 NewEncoder = Return enc1"
    and "Run stub (call_context ''currencyservice.T.Convert'' SpanKindClient ctx) 0
           (Encoder_String enc1 a1) 0 = Return (results, None)"
    and "money_WeaverUnmarshal mc (money_zero mc) (NewDecoder results) = (r0, Panic p)"
  shows "fst (client_Convert mc stub ctx m0 a1 elapsed w)
           = Return (r0, Some (joinError [RemoteCallError, p]))"
  using assms
  by (simp add: client_Convert_unfold client_Convert_body_def client_deferred_panic Let_def
      Encoder_Data_def)

lemma client_GetProduct_transport_fault:
  assumes "Run stub (call_context ''productcatalogservice.T.GetProduct'' SpanKindClient ctx) 0
           (Encoder_String [] a0) 0 = Panic p"
  shows "fst (client_GetProduct mc stub ctx a0 elapsed w)
           = Return (Product_zero mc, Some (joinError [RemoteCallError, p]))"
  using assms
  by (simp add: client_GetProduct_unfold client_GetProduct_body_def client_deferred_panic Let_def
      Encoder_Data_def Encoder_Reset_def NewEncoder_def)

lemma client_GetProduct_decode_fault:
  assumes "Run stub (call_context ''productcatalogservice.T.GetProduct'' SpanKindClient ctx) 0
           (Encoder_String [] a0) 0 = Return (results, None)"
    and "Product_WeaverUnmarshal mc (Some (Product_zero mc)) (NewDecoder results) = (q, Panic p)"
  shows "fst (client_GetProduct mc stub ctx a0 elapsed w)
           = Return (pointee q (Product_zero mc), Some (joinError [RemoteCallError, p]))"
  using assms
  by (simp add: client_GetProduct_unfold client_GetProduct_body_def client_deferred_panic Let_def
      Encoder_Data_def Encoder_Reset_def NewEncoder_def)

lemma client_ListProducts_transport_fault:
  assumes "Run stub (call_context ''productcatalogservice.T.ListProducts'' SpanKindClient ctx) 1
           [] 0 = Panic p"
  shows "fst (client_ListProducts mc stub ctx elapsed w)
           = Return (None, Some (joinError [RemoteCallError, p]))"
  using assms
  by (simp add: client_ListProducts_unfold client_ListProducts_body_def client_deferred_panic
      Let_def)

lemma client_ListProducts_decode_fault:
  assumes "Run stub (call_context ''productcatalogservice.T.ListProducts'' SpanKindClient ctx) 1
           [] 0 = Return (results, None)"
    and "serviceweaver_dec_slice_Product mc (NewDecoder results) = Panic p"
  shows "fst (client_ListProducts mc stub ctx elapsed w)
           = Return (None, Some (joinError [RemoteCallError, p]))"
  using assms
  by (simp add: client_ListProducts_unfold client_ListProducts_body_def client_deferred_panic
      Let_def)

lemma client_SearchProducts_transport_fault:
  assumes "Run stub (call_context ''productcatalogservice.T.SearchProducts'' SpanKindClient ctx) 2
           (Encoder_String [] a0) 0 = Panic p"
  shows "fst (client_SearchProducts mc stub ctx a0 elapsed w)
           = Return (None, Some (joinError [RemoteCallError, p]))"
  using assms
  by (simp add: client_SearchProducts_unfold client_SearchProducts_body_def client_deferred_panic
      Let_def Encoder_Data_def Encoder_Reset_def NewEncoder_def)

lemma client_SearchProducts_decode_fault:
  assumes "Run stub (call_context ''productcatalogservice.T.SearchProducts'' SpanKindClient ctx) 2
           (Encoder_String [] a0) 0 = Return (results, None)"
    and "serviceweaver_dec_slice_Product mc (NewDecoder results) = Panic p"
  shows "fst (client_SearchProducts mc stub ctx a0 elapsed w)
           = Return (None, Some (joinError [RemoteCallError, p]))"
  using assms
  by (simp add: client_SearchProducts_unfold client_SearchProducts_body_def client_deferred_panic
      Let_def Encoder_Data_def Encoder_Reset_def NewEncoder_def)

lemma client_GetSupportedCurrencies_transport_fault:
  assumes "Run stub (call_context ''currencyservice.T.GetSupportedCurrencies'' SpanKindClient ctx)
           1 [] 0 = Panic p"
  shows "fst (client_GetSupportedCurrencies stub ctx elapsed w)
           = Return (None, Some (joinError [RemoteCallError, p]))"
  using assms
  by (simp add: client_GetSupportedCurrencies_unfold client_GetSupportedCurrencies_body_def
      client_deferred_panic Let_def)

lemma client_GetSupportedCurrencies_decode_fault:
  assumes "Run stub (call_context ''currencyservice.T.GetSupportedCurrencies'' SpanKindClient ctx)
           1 [] 0 = Return (results, None)"
    and "serviceweaver_dec_slice_string (NewDecoder results) = Panic p"
  shows "fst (client_GetSupportedCurrencies stub ctx elapsed w)
           = Return (None, Some (joinError [RemoteCallError, p]))"
  using assms
  by (simp add: client_GetSupportedCurrencies_unfold client_GetSupportedCurrencies_body_def
      client_deferred_panic Let_def)

text \<open>
  C3. A call through any of the five client stub methods always returns; no panic
  leaves it. When a fault \<open>p\<close> is raised while the arguments are encoded, in the
  transport call or while the results are decoded (the named error is nil at each of
  these points), the call returns the error that joins the sentinel
  \<open>RemoteCallError\<close> and \<open>p\<close>.
\<close>

theorem client_stub_fault_recovered:
  "(\<exists>r e. fst (client_Convert mc stub ctx m0 a1 elapsed w) = Return (r, e)) \<and>
   (\<exists>r e. fst (client_GetSupportedCurrencies stub ctx elapsed w) = Return (r, e)) \<and>
   (\<exists>r e. fst (client_GetProduct mc stub ctx a0 elapsed w) = Return (r, e)) \<and>
   (\<exists>r e. fst (client_ListProducts mc stub ctx elapsed w) = Return (r, e)) \<and>
   (\<exists>r e. fst (client_SearchProducts mc stub ctx a0 elapsed w) = Return (r, e)) \<and>
   errors_Is (joinError [RemoteCallError, p]) RemoteCallError \<and>
   (money_WeaverMarshal mc m0 NewEncoder = Panic p \<longrightarrow>
      fst (client_Convert mc stub ctx m0 a1 elapsed w)
        = Return (money_zero mc, Some (joinError [RemoteCallError, p]))) \<and>
   (money_WeaverMarshal mc m0 NewEncoder = Return enc1 \<and>
    Run stub (call_context ''currencyservice.T.Convert'' SpanKindClient ctx) 0
      (Encoder_String enc1 a1) 0 = Panic p \<longrightarrow>
      fst (client_Convert mc stub ctx m0 a1 elapsed w)
        = Return (money_zero mc, Some (joinError [RemoteCallError, p]))) \<and>
   (money_WeaverMarshal mc m0 NewEncoder = Return enc1 \<and>
    Run stub (call_context ''currencyservice.T.Convert'' SpanKindClient ctx) 0
      (Encoder_String enc1 a1) 0 = Return (results, None) \<and>
    money_WeaverUnmarshal mc (money_zero mc) (NewDecoder results) = (r0, Panic p) \<longrightarrow>
      fst (client_Convert mc stub ctx m0 a1 elapsed w)
        = Return (r0, Some (joinError [RemoteCallError, p]))) \<and>
   (Run stub (call_context ''currencyservice.T.GetSupportedCurrencies'' SpanKindClient ctx) 1
      [] 0 = Panic p \<longrightarrow>
      fst (client_GetSupportedCurrencies stub ctx elapsed w)
        = Return (None, Some (joinError [RemoteCallError, p]))) \<and>
   (Run stub (call_context ''currencyservice.T.GetSupportedCurrencies'' SpanKindClient ctx) 1
      [] 0 = Return (results, None) \<and>
    serviceweaver_dec_slice_string (NewDecoder results) = Panic p \<longrightarrow>
      fst (client_GetSupportedCurrencies stub ctx elapsed w)
        = Return (None, Some (joinError [RemoteCallError, p]))) \<and>
   (Run stub (call_context ''productcatalogservice.T.GetProduct'' SpanKindClient ctx) 0
      (Encoder_String [] a0) 0 = Panic p \<longrightarrow>
      fst (client_GetProduct mc stub ctx a0 elapsed w)
        = Return (Product_zero mc, Some (joinError [RemoteCallError, p]))) \<and>
   (Run stub (call_context ''productcatalogservice.T.GetProduct'' SpanKindClient ctx) 0
      (Encoder_String [] a0) 0 = Return (results, None) \<and>
    Product_WeaverUnmarshal mc (Some (Product_zero mc)) (NewDecoder results) = (q, Panic p) \<longrightarrow>
      fst (client_GetProduct mc stub ctx a0 elapsed w)
        = Return (pointee q (Product_zero mc), Some (joinError [RemoteCallError, p]))) \<and>
   (Run stub (call_context ''productcatalogservice.T.ListProducts'' SpanKindClient ctx) 1
      [] 0 = Panic p \<longrightarrow>
      fst (client_ListProducts mc stub ctx elapsed w)
        = Return (None, Some (joinError [RemoteCallError, p]))) \<and>
   (Run stub (call_context ''productcatalogservice.T.ListProducts'' SpanKindClient ctx) 1
      [] 0 = Return (results, None) \<and>
    serviceweaver_dec_slice_Product mc (NewDecoder results) = Panic p \<longrightarrow>
      fst (client_ListProducts mc stub ctx elapsed w)
        = Return (None, Some (joinError [RemoteCallError, p]))) \<and>
   (Run stub (call_context ''productcatalogservice.T.SearchProducts'' SpanKindClient ctx) 2
      (Encoder_String [] a0) 0 = Panic p \<longrightarrow>
      fst (client_SearchProducts mc stub ctx a0 elapsed w)
        = Return (None, Some (joinError [RemoteCallError, p]))) \<and>
   (Run stub (call_context ''productcatalogservice.T.SearchProducts'' SpanKindClient ctx) 2
      (Encoder_String [] a0) 0 = Return (results, None) \<and>
    serviceweaver_dec_slice_Product mc (NewDecoder results) = Panic p \<longrightarrow>
      fst (client_SearchProducts mc stub ctx a0 elapsed w)
        = Return (None, Some (joinError [RemoteCallError, p])))"
  apply (intro conjI impI)
  subgoal by (rule client_Convert_returns)
  subgoal by (rule client_GetSupportedCurrencies_returns)
  subgoal by (rule client_GetProduct_returns)
  subgoal by (rule client_ListProducts_returns)
  subgoal by (rule client_SearchProducts_returns)
  subgoal by (simp add: errors_Is_refl)
  subgoal by (erule client_Convert_encode_fault)
  subgoal by (elim conjE) (rule client_Convert_transport_fault; assumption)
  subgoal by (elim conjE) (rule client_Convert_decode_fault; assumption)
  subgoal by (erule client_GetSupportedCurrencies_transport_fault)
  subgoal by (elim conjE) (rule client_GetSupportedCurrencies_decode_fault; assumption)
  subgoal by (erule client_GetProduct_transport_fault)
  subgoal by (elim conjE) (rule client_GetProduct_decode_fault; assumption)
  subgoal by (erule client_ListProducts_transport_fault)
  subgoal by (elim conjE) (rule client_ListProducts_decode_fault; assumption)
  subgoal by (erule client_SearchProducts_transport_fault)
  subgoal by (elim conjE) (rule client_SearchProducts_decode_fault; assumption)
  done

lemma fits_0: "fits_int32 (length ([] :: string))"
  by (simp add: fits_int32_def)

lemma Decoder_Len_minus_2:
  "Decoder_Len (NewDecoder (le32 (- 2) @ rest)) = (- 2, NewDecoder rest)"
proof -
  have m2: "sint (- 2 :: 32 word) = - 2" by simp
  show ?thesis
    using Decoder_Len_le32 [of "- 2" rest] by (simp add: m2 NewDecoder_def)
qed

lemma Decoder_Len_minus_1:
  "Decoder_Len (NewDecoder (le32 (- 1) @ rest)) = (- 1, NewDecoder rest)"
proof -
  have m1: "sint (- 1 :: 32 word) = - 1" by simp
  show ?thesis
    using Decoder_Len_le32 [of "- 1" rest] by (simp add: m1 NewDecoder_def)
qed

lemma bad_reply_unmarshal:
  "Product_WeaverUnmarshal code_money (Some (Product_zero code_money)) (NewDecoder bad_reply)
     = (Some (Product_zero code_money), Panic makeslice_panic)"
  using Decoder_Len_minus_2 [of "[]"]
  by (simp add: Product_WeaverUnmarshal_def bad_reply_def NewDecoder_def
      Decoder_String_Encoder_String [OF fits_0] code_money_def Product_zero_def
      serviceweaver_dec_slice_string_def)

lemma short_reply_strings:
  "serviceweaver_dec_slice_string (NewDecoder short_reply) = Panic makeslice_panic"
  using Decoder_Len_minus_2 [of "[]"]
  by (simp add: serviceweaver_dec_slice_string_def short_reply_def)

lemma short_reply_Products:
  "serviceweaver_dec_slice_Product mc (NewDecoder short_reply) = Panic makeslice_panic"
  using Decoder_Len_minus_2 [of "[]"]
  by (simp add: serviceweaver_dec_slice_Product_def short_reply_def)

theorem client_stub_fault_recovered_witness:
  "fst (client_Convert checked_money (reply_stub []) traced [] ''EUR'' 10 new_world)
     = Return ([], Some (joinError [RemoteCallError, ErrorString ''money: no currency code''])) \<and>
   fst (client_Convert checked_money (panic_stub (ErrorString ''transport fault'')) traced
          ''USD'' ''EUR'' 10 new_world)
     = Return ([], Some (joinError [RemoteCallError, ErrorString ''transport fault''])) \<and>
   fst (client_Convert checked_money (reply_stub []) traced ''USD'' ''EUR'' 10 new_world)
     = Return ([], Some (joinError [RemoteCallError, ErrorString ''money: truncated''])) \<and>
   fst (client_GetSupportedCurrencies (panic_stub (ErrorString ''transport fault'')) traced 10
          new_world)
     = Return (None, Some (joinError [RemoteCallError, ErrorString ''transport fault''])) \<and>
   fst (client_GetSupportedCurrencies (reply_stub short_reply) traced 10 new_world)
     = Return (None, Some (joinError [RemoteCallError, makeslice_panic])) \<and>
   fst (client_GetProduct code_money (panic_stub (ErrorString ''transport fault'')) traced
          ''OLJCESPC7Z'' 10 new_world)
     = Return (Product_zero code_money,
               Some (joinError [RemoteCallError, ErrorString ''transport fault''])) \<and>
   fst (client_GetProduct code_money (reply_stub bad_reply) traced ''OLJCESPC7Z'' 10 new_world)
     = Return (Product_zero code_money, Some (joinError [RemoteCallError, makeslice_panic])) \<and>
   fst (client_ListProducts code_money (panic_stub (ErrorString ''transport fault'')) traced 10
          new_world)
     = Return (None, Some (joinError [RemoteCallError, ErrorString ''transport fault''])) \<and>
   fst (client_ListProducts code_money (reply_stub short_reply) traced 10 new_world)
     = Return (None, Some (joinError [RemoteCallError, makeslice_panic])) \<and>
   fst (client_SearchProducts code_money (panic_stub (ErrorString ''transport fault'')) traced
          ''sun'' 10 new_world)
     = Return (None, Some (joinError [RemoteCallError, ErrorString ''transport fault''])) \<and>
   fst (client_SearchProducts code_money (reply_stub short_reply) traced ''sun'' 10 new_world)
     = Return (None, Some (joinError [RemoteCallError, makeslice_panic]))"
proof -
  have z: "money_zero checked_money = []"
    by (simp add: checked_money_def)
  have enc: "money_WeaverMarshal checked_money ''USD'' NewEncoder
               = Return (Encoder_String NewEncoder ''USD'')"
    by (simp add: checked_money_def)
  have a: "money_WeaverMarshal checked_money [] NewEncoder
             = Panic (ErrorString ''money: no currency code'')"
    by (simp add: checked_money_def)
  have c: "money_WeaverUnmarshal checked_money (money_zero checked_money) (NewDecoder [])
             = ([], Panic (ErrorString ''money: truncated''))"
    by (simp add: checked_money_def NewDecoder_def Decoder_String_def Decoder_Len_def
        Decoder_Int32_def)
  have rp: "Run (panic_stub e) cx n args 0 = Panic e" for e cx n args
    by (simp add: panic_stub_def)
  have rr: "Run (reply_stub bs) cx n args 0 = Return (bs, None)" for bs cx n args
    by (simp add: reply_stub_def)
  have 1: "fst (client_Convert checked_money (reply_stub []) traced [] ''EUR'' 10 new_world)
     = Return ([], Some (joinError [RemoteCallError, ErrorString ''money: no currency code'']))"
    using client_stub_fault_recovered
      [where mc = "checked_money"
         and stub = "reply_stub []"
         and ctx = "traced"
         and ?m0.0 = "[]"
         and ?a1.0 = "''EUR''"
         and elapsed = "10"
         and w = "new_world"
         and ?a0.0 = "''sun''"
         and p = "ErrorString ''money: no currency code''"
         and ?enc1.0 = "Encoder_String NewEncoder ''USD''"
         and results = "[]"
         and ?r0.0 = "[]"
         and q = "Some (Product_zero checked_money)"]
      a
    by (simp add: z)
  have 2: "fst (client_Convert checked_money (panic_stub (ErrorString ''transport fault'')) traced
          ''USD'' ''EUR'' 10 new_world)
     = Return ([], Some (joinError [RemoteCallError, ErrorString ''transport fault'']))"
    using client_stub_fault_recovered
      [where mc = "checked_money"
         and stub = "panic_stub (ErrorString ''transport fault'')"
         and ctx = "traced"
         and ?m0.0 = "''USD''"
         and ?a1.0 = "''EUR''"
         and elapsed = "10"
         and w = "new_world"
         and ?a0.0 = "''sun''"
         and p = "ErrorString ''transport fault''"
         and ?enc1.0 = "Encoder_String NewEncoder ''USD''"
         and results = "[]"
         and ?r0.0 = "[]"
         and q = "Some (Product_zero checked_money)"]
      enc
    by (simp add: z rp)
  have 3: "fst (client_Convert checked_money (reply_stub []) traced ''USD'' ''EUR'' 10 new_world)
     = Return ([], Some (joinError [RemoteCallError, ErrorString ''money: truncated'']))"
    using client_stub_fault_recovered
      [where mc = "checked_money"
         and stub = "reply_stub []"
         and ctx = "traced"
         and ?m0.0 = "''USD''"
         and ?a1.0 = "''EUR''"
         and elapsed = "10"
         and w = "new_world"
         and ?a0.0 = "''sun''"
         and p = "ErrorString ''money: truncated''"
         and ?enc1.0 = "Encoder_String NewEncoder ''USD''"
         and results = "[]"
         and ?r0.0 = "[]"
         and q = "Some (Product_zero checked_money)"]
      enc c
    by (simp add: rr)
  have 4: "fst (client_GetSupportedCurrencies (panic_stub (ErrorString ''transport fault''))
          traced 10 new_world)
     = Return (None, Some (joinError [RemoteCallError, ErrorString ''transport fault'']))"
    using client_stub_fault_recovered
      [where mc = "code_money"
         and stub = "panic_stub (ErrorString ''transport fault'')"
         and ctx = "traced"
         and ?m0.0 = "''USD''"
         and ?a1.0 = "''EUR''"
         and elapsed = "10"
         and w = "new_world"
         and ?a0.0 = "''sun''"
         and p = "ErrorString ''transport fault''"
         and ?enc1.0 = "Encoder_String NewEncoder ''USD''"
         and results = "[]"
         and ?r0.0 = "[]"
         and q = "Some (Product_zero code_money)"]
      
    by (simp add: rp)
  have 5: "fst (client_GetSupportedCurrencies (reply_stub short_reply) traced 10 new_world)
     = Return (None, Some (joinError [RemoteCallError, makeslice_panic]))"
    using client_stub_fault_recovered
      [where mc = "code_money"
         and stub = "reply_stub short_reply"
         and ctx = "traced"
         and ?m0.0 = "''USD''"
         and ?a1.0 = "''EUR''"
         and elapsed = "10"
         and w = "new_world"
         and ?a0.0 = "''sun''"
         and p = "makeslice_panic"
         and ?enc1.0 = "Encoder_String NewEncoder ''USD''"
         and results = "short_reply"
         and ?r0.0 = "[]"
         and q = "Some (Product_zero code_money)"]
      short_reply_strings
    by (simp add: rr)
  have 6: "fst (client_GetProduct code_money (panic_stub (ErrorString ''transport fault'')) traced
          ''OLJCESPC7Z'' 10 new_world)
     = Return (Product_zero code_money,
               Some (joinError [RemoteCallError, ErrorString ''transport fault'']))"
    using client_stub_fault_recovered
      [where mc = "code_money"
         and stub = "panic_stub (ErrorString ''transport fault'')"
         and ctx = "traced"
         and ?m0.0 = "''USD''"
         and ?a1.0 = "''EUR''"
         and elapsed = "10"
         and w = "new_world"
         and ?a0.0 = "''OLJCESPC7Z''"
         and p = "ErrorString ''transport fault''"
         and ?enc1.0 = "Encoder_String NewEncoder ''USD''"
         and results = "[]"
         and ?r0.0 = "[]"
         and q = "Some (Product_zero code_money)"]
      
    by (simp add: rp)
  have 7: "fst (client_GetProduct code_money (reply_stub bad_reply) traced ''OLJCESPC7Z'' 10
             new_world)
     = Return (Product_zero code_money, Some (joinError [RemoteCallError, makeslice_panic]))"
    using client_stub_fault_recovered
      [where mc = "code_money"
         and stub = "reply_stub bad_reply"
         and ctx = "traced"
         and ?m0.0 = "''USD''"
         and ?a1.0 = "''EUR''"
         and elapsed = "10"
         and w = "new_world"
         and ?a0.0 = "''OLJCESPC7Z''"
         and p = "makeslice_panic"
         and ?enc1.0 = "Encoder_String NewEncoder ''USD''"
         and results = "bad_reply"
         and ?r0.0 = "[]"
         and q = "Some (Product_zero code_money)"]
      bad_reply_unmarshal
    by (simp add: rr pointee_def)
  have 8: "fst (client_ListProducts code_money (panic_stub (ErrorString ''transport fault''))
          traced 10 new_world)
     = Return (None, Some (joinError [RemoteCallError, ErrorString ''transport fault'']))"
    using client_stub_fault_recovered
      [where mc = "code_money"
         and stub = "panic_stub (ErrorString ''transport fault'')"
         and ctx = "traced"
         and ?m0.0 = "''USD''"
         and ?a1.0 = "''EUR''"
         and elapsed = "10"
         and w = "new_world"
         and ?a0.0 = "''sun''"
         and p = "ErrorString ''transport fault''"
         and ?enc1.0 = "Encoder_String NewEncoder ''USD''"
         and results = "[]"
         and ?r0.0 = "[]"
         and q = "Some (Product_zero code_money)"]
      
    by (simp add: rp)
  have 9: "fst (client_ListProducts code_money (reply_stub short_reply) traced 10 new_world)
     = Return (None, Some (joinError [RemoteCallError, makeslice_panic]))"
    using client_stub_fault_recovered
      [where mc = "code_money"
         and stub = "reply_stub short_reply"
         and ctx = "traced"
         and ?m0.0 = "''USD''"
         and ?a1.0 = "''EUR''"
         and elapsed = "10"
         and w = "new_world"
         and ?a0.0 = "''sun''"
         and p = "makeslice_panic"
         and ?enc1.0 = "Encoder_String NewEncoder ''USD''"
         and results = "short_reply"
         and ?r0.0 = "[]"
         and q = "Some (Product_zero code_money)"]
      short_reply_Products [of code_money]
    by (simp add: rr)
  have 10: "fst (client_SearchProducts code_money (panic_stub (ErrorString ''transport fault''))
          traced ''sun'' 10 new_world)
     = Return (None, Some (joinError [RemoteCallError, ErrorString ''transport fault'']))"
    using client_stub_fault_recovered
      [where mc = "code_money"
         and stub = "panic_stub (ErrorString ''transport fault'')"
         and ctx = "traced"
         and ?m0.0 = "''USD''"
         and ?a1.0 = "''EUR''"
         and elapsed = "10"
         and w = "new_world"
         and ?a0.0 = "''sun''"
         and p = "ErrorString ''transport fault''"
         and ?enc1.0 = "Encoder_String NewEncoder ''USD''"
         and results = "[]"
         and ?r0.0 = "[]"
         and q = "Some (Product_zero code_money)"]
      
    by (simp add: rp)
  have 11: "fst (client_SearchProducts code_money (reply_stub short_reply) traced ''sun'' 10
          new_world)
     = Return (None, Some (joinError [RemoteCallError, makeslice_panic]))"
    using client_stub_fault_recovered
      [where mc = "code_money"
         and stub = "reply_stub short_reply"
         and ctx = "traced"
         and ?m0.0 = "''USD''"
         and ?a1.0 = "''EUR''"
         and elapsed = "10"
         and w = "new_world"
         and ?a0.0 = "''sun''"
         and p = "makeslice_panic"
         and ?enc1.0 = "Encoder_String NewEncoder ''USD''"
         and results = "short_reply"
         and ?r0.0 = "[]"
         and q = "Some (Product_zero code_money)"]
      short_reply_Products [of code_money]
    by (simp add: rr)
  from 1 2 3 4 5 6 7 8 9 10 11 show ?thesis by (intro conjI)
qed

section \<open>Spans\<close>

lemma local_Convert_lifecycle:
  "local_span_lifecycle ''currencyservice.T.Convert'' ctx w (local_Convert cimpl ctx m0 a1 w)"
  by (cases "IsValid (ctx_span ctx)")
     (simp_all add: local_span_lifecycle_def local_Convert_def trace_SpanFromContext_def Let_def
        world_defs closing_ops_def new_ops_def span_starts_def span_ends_def
        split: go.splits option.splits prod.splits)

lemma local_GetSupportedCurrencies_lifecycle:
  "local_span_lifecycle ''currencyservice.T.GetSupportedCurrencies'' ctx w (local_GetSupportedCurrencies cimpl ctx w)"
  by (cases "IsValid (ctx_span ctx)")
     (simp_all add: local_span_lifecycle_def local_GetSupportedCurrencies_def trace_SpanFromContext_def Let_def
        world_defs closing_ops_def new_ops_def span_starts_def span_ends_def
        split: go.splits option.splits prod.splits)

lemma local_GetProduct_lifecycle:
  "local_span_lifecycle ''productcatalogservice.T.GetProduct'' ctx w (local_GetProduct impl ctx a0 w)"
  by (cases "IsValid (ctx_span ctx)")
     (simp_all add: local_span_lifecycle_def local_GetProduct_def trace_SpanFromContext_def Let_def
        world_defs closing_ops_def new_ops_def span_starts_def span_ends_def
        split: go.splits option.splits prod.splits)

lemma local_ListProducts_lifecycle:
  "local_span_lifecycle ''productcatalogservice.T.ListProducts'' ctx w (local_ListProducts impl ctx w)"
  by (cases "IsValid (ctx_span ctx)")
     (simp_all add: local_span_lifecycle_def local_ListProducts_def trace_SpanFromContext_def Let_def
        world_defs closing_ops_def new_ops_def span_starts_def span_ends_def
        split: go.splits option.splits prod.splits)

lemma local_SearchProducts_lifecycle:
  "local_span_lifecycle ''productcatalogservice.T.SearchProducts'' ctx w (local_SearchProducts impl ctx a0 w)"
  by (cases "IsValid (ctx_span ctx)")
     (simp_all add: local_span_lifecycle_def local_SearchProducts_def trace_SpanFromContext_def Let_def
        world_defs closing_ops_def new_ops_def span_starts_def span_ends_def
        split: go.splits option.splits prod.splits)

text \<open>
  C8 (as amended). With a valid parent span in the context, a call through any method of
  the local stubs or of the client stubs starts exactly one span and ends exactly that
  span once, whatever the outcome, a panic of the implementation included. Without one,
  no span is started; a local stub performs no span operation at all; a client stub
  still ends the span it took from the context, once, after recording the error on it
  when the call failed.
\<close>

theorem stub_span_lifecycle:
  "local_span_lifecycle ''currencyservice.T.Convert'' ctx w
     (local_Convert cimpl ctx m0 a1 w) \<and>
   local_span_lifecycle ''currencyservice.T.GetSupportedCurrencies'' ctx w
     (local_GetSupportedCurrencies cimpl ctx w) \<and>
   local_span_lifecycle ''productcatalogservice.T.GetProduct'' ctx w
     (local_GetProduct impl ctx a0 w) \<and>
   local_span_lifecycle ''productcatalogservice.T.ListProducts'' ctx w
     (local_ListProducts impl ctx w) \<and>
   local_span_lifecycle ''productcatalogservice.T.SearchProducts'' ctx w
     (local_SearchProducts impl ctx a0 w) \<and>
   client_span_lifecycle ''currencyservice.T.Convert'' ctx w
     (client_Convert mc stub ctx m0 a1 elapsed w) \<and>
   client_span_lifecycle ''currencyservice.T.GetSupportedCurrencies'' ctx w
     (client_GetSupportedCurrencies stub ctx elapsed w) \<and>
   client_span_lifecycle ''productcatalogservice.T.GetProduct'' ctx w
     (client_GetProduct mc stub ctx a0 elapsed w) \<and>
   client_span_lifecycle ''productcatalogservice.T.ListProducts'' ctx w
     (client_ListProducts mc stub ctx elapsed w) \<and>
   client_span_lifecycle ''productcatalogservice.T.SearchProducts'' ctx w
     (client_SearchProducts mc stub ctx a0 elapsed w)"
  by (intro conjI)
     (rule local_Convert_lifecycle
        local_GetSupportedCurrencies_lifecycle
        local_GetProduct_lifecycle
        local_ListProducts_lifecycle
        local_SearchProducts_lifecycle
        client_Convert_lifecycle
        client_GetSupportedCurrencies_lifecycle
        client_GetProduct_lifecycle
        client_ListProducts_lifecycle
        client_SearchProducts_lifecycle)+

theorem stub_span_lifecycle_witness:
  "span_starts (new_ops new_world (snd (local_Convert fixed_rate traced ''USD'' ''EUR'' new_world))) = 1 \<and>
   span_ends (new_ops new_world (snd (local_Convert fixed_rate traced ''USD'' ''EUR'' new_world))) = 1 \<and>
   span_starts (new_ops new_world (snd (local_GetSupportedCurrencies fixed_rate traced new_world))) = 1 \<and>
   span_ends (new_ops new_world (snd (local_GetSupportedCurrencies fixed_rate traced new_world))) = 1 \<and>
   span_starts (new_ops new_world (snd (local_GetProduct shop traced ''OLJCESPC7Z'' new_world))) = 1 \<and>
   span_ends (new_ops new_world (snd (local_GetProduct shop traced ''OLJCESPC7Z'' new_world))) = 1 \<and>
   span_starts (new_ops new_world (snd (local_ListProducts crashing_shop traced new_world))) = 1 \<and>
   span_ends (new_ops new_world (snd (local_ListProducts crashing_shop traced new_world))) = 1 \<and>
   span_starts (new_ops new_world (snd (local_SearchProducts shop traced ''sun'' new_world))) = 1 \<and>
   span_ends (new_ops new_world (snd (local_SearchProducts shop traced ''sun'' new_world))) = 1 \<and>
   span_starts (new_ops new_world
     (snd (client_Convert code_money (reply_stub eur_reply) traced ''USD'' ''EUR'' 10 new_world))) = 1 \<and>
   span_ends (new_ops new_world
     (snd (client_Convert code_money (reply_stub eur_reply) traced ''USD'' ''EUR'' 10 new_world))) = 1 \<and>
   span_starts (new_ops new_world
     (snd (client_GetSupportedCurrencies (reply_stub short_reply) traced 10 new_world))) = 1 \<and>
   span_ends (new_ops new_world
     (snd (client_GetSupportedCurrencies (reply_stub short_reply) traced 10 new_world))) = 1 \<and>
   span_starts (new_ops new_world
     (snd (client_GetProduct code_money (reply_stub zero_reply) traced ''OLJCESPC7Z'' 10 new_world))) = 1 \<and>
   span_ends (new_ops new_world
     (snd (client_GetProduct code_money (reply_stub zero_reply) traced ''OLJCESPC7Z'' 10 new_world))) = 1 \<and>
   span_starts (new_ops new_world
     (snd (client_ListProducts code_money (error_stub (ErrorString ''connection refused'')) traced 10 new_world))) = 1 \<and>
   span_ends (new_ops new_world
     (snd (client_ListProducts code_money (error_stub (ErrorString ''connection refused'')) traced 10 new_world))) = 1 \<and>
   span_starts (new_ops new_world
     (snd (client_SearchProducts code_money (panic_stub (ErrorString ''transport fault'')) traced ''sun'' 10 new_world))) = 1 \<and>
   span_ends (new_ops new_world
     (snd (client_SearchProducts code_money (panic_stub (ErrorString ''transport fault'')) traced ''sun'' 10 new_world))) = 1 \<and>
   new_ops new_world (snd (local_Convert fixed_rate untraced ''USD'' ''EUR'' new_world)) = [] \<and>
   new_ops new_world (snd (local_GetSupportedCurrencies fixed_rate untraced new_world)) = [] \<and>
   new_ops new_world (snd (local_GetProduct shop untraced ''OLJCESPC7Z'' new_world)) = [] \<and>
   new_ops new_world (snd (local_ListProducts crashing_shop untraced new_world)) = [] \<and>
   new_ops new_world (snd (local_SearchProducts shop untraced ''sun'' new_world)) = [] \<and>
   span_starts (new_ops new_world
     (snd (client_Convert code_money (reply_stub eur_reply) untraced ''USD'' ''EUR'' 10 new_world))) = 0 \<and>
   span_ends (new_ops new_world
     (snd (client_Convert code_money (reply_stub eur_reply) untraced ''USD'' ''EUR'' 10 new_world))) = 1 \<and>
   span_starts (new_ops new_world
     (snd (client_GetSupportedCurrencies (reply_stub short_reply) untraced 10 new_world))) = 0 \<and>
   span_ends (new_ops new_world
     (snd (client_GetSupportedCurrencies (reply_stub short_reply) untraced 10 new_world))) = 1 \<and>
   span_starts (new_ops new_world
     (snd (client_GetProduct code_money (reply_stub zero_reply) untraced ''OLJCESPC7Z'' 10 new_world))) = 0 \<and>
   span_ends (new_ops new_world
     (snd (client_GetProduct code_money (reply_stub zero_reply) untraced ''OLJCESPC7Z'' 10 new_world))) = 1 \<and>
   span_starts (new_ops new_world
     (snd (client_ListProducts code_money (error_stub (ErrorString ''connection refused'')) untraced 10 new_world))) = 0 \<and>
   span_ends (new_ops new_world
     (snd (client_ListProducts code_money (error_stub (ErrorString ''connection refused'')) untraced 10 new_world))) = 1 \<and>
   span_starts (new_ops new_world
     (snd (client_SearchProducts code_money (panic_stub (ErrorString ''transport fault'')) untraced ''sun'' 10 new_world))) = 0 \<and>
   span_ends (new_ops new_world
     (snd (client_SearchProducts code_money (panic_stub (ErrorString ''transport fault'')) untraced ''sun'' 10 new_world))) = 1"
proof -
  have v: "IsValid (ctx_span traced)" by (simp add: traced_def)
  have n: "\<not> IsValid (ctx_span untraced)" by (simp add: untraced_def)
  note t = stub_span_lifecycle
    [where ctx = traced and w = new_world and cimpl = fixed_rate and ?m0.0 = "''USD''"
       and ?a1.0 = "''EUR''" and mc = code_money and elapsed = 10,
     unfolded local_span_lifecycle_def client_span_lifecycle_def case_prod_beta if_P [OF v]]
  note u = stub_span_lifecycle
    [where ctx = untraced and w = new_world and cimpl = fixed_rate and ?m0.0 = "''USD''"
       and ?a1.0 = "''EUR''" and mc = code_money and elapsed = 10,
     unfolded local_span_lifecycle_def client_span_lifecycle_def case_prod_beta if_not_P [OF n]]
  show ?thesis
    using t [where impl = shop and ?a0.0 = "''OLJCESPC7Z''" and stub = "reply_stub eur_reply"]
      t [where impl = shop and ?a0.0 = "''OLJCESPC7Z''" and stub = "reply_stub short_reply"]
      t [where impl = shop and ?a0.0 = "''OLJCESPC7Z''" and stub = "reply_stub zero_reply"]
      t [where impl = crashing_shop and ?a0.0 = "''sun''"
           and stub = "error_stub (ErrorString ''connection refused'')"]
      t [where impl = shop and ?a0.0 = "''sun''"
           and stub = "panic_stub (ErrorString ''transport fault'')"]
      u [where impl = shop and ?a0.0 = "''OLJCESPC7Z''" and stub = "reply_stub eur_reply"]
      u [where impl = shop and ?a0.0 = "''OLJCESPC7Z''" and stub = "reply_stub short_reply"]
      u [where impl = shop and ?a0.0 = "''OLJCESPC7Z''" and stub = "reply_stub zero_reply"]
      u [where impl = crashing_shop and ?a0.0 = "''sun''"
           and stub = "error_stub (ErrorString ''connection refused'')"]
      u [where impl = shop and ?a0.0 = "''sun''"
           and stub = "panic_stub (ErrorString ''transport fault'')"]
    by blast
qed

lemma Decoder_Error_absent:
  "Decoder_Error \<lparr>dec_data = 0 # rest, dec_err = None\<rparr>
     = (None, \<lparr>dec_data = rest, dec_err = None\<rparr>)"
  by (simp add: Decoder_Error_def)

lemma client_Convert_eur:
  "fst (client_Convert code_money (reply_stub eur_reply) ctx ''USD'' ''EUR'' elapsed w)
     = Return (''EUR'', None)"
proof -
  have f: "fits_int32 (length ''EUR'')" by (simp add: fits_int32_def)
  show ?thesis
    using Decoder_String_Encoder_String [OF f, of "[0]"]
    by (simp add: client_Convert_unfold client_Convert_body_def code_money_def reply_stub_def
        eur_reply_def Encoder_Error_def NewDecoder_def Let_def Decoder_Error_absent
        client_deferred_ok)
qed

lemma client_GetProduct_refused:
  "fst (client_GetProduct mc (error_stub e) ctx a0 elapsed w)
     = Return (Product_zero mc, Some (joinError [RemoteCallError, e]))"
  by (simp add: client_GetProduct_unfold client_GetProduct_body_def error_stub_def Let_def
      client_deferred_err errors_Join_two)

theorem stub_span_lifecycle_counterexample:
  "new_ops new_world
     (snd (client_Convert code_money (reply_stub eur_reply) untraced ''USD'' ''EUR'' 10 new_world))
   = [OpEnd (ContextSpan False)] \<and>
   new_ops new_world
     (snd (client_GetProduct code_money (error_stub (ErrorString ''connection refused''))
             untraced ''OLJCESPC7Z'' 10 new_world))
   = [OpRecordError (ContextSpan False)
        (joinError [RemoteCallError, ErrorString ''connection refused'']),
      OpSetStatus (ContextSpan False)
        (Error_msg (joinError [RemoteCallError, ErrorString ''connection refused''])),
      OpEnd (ContextSpan False)]"
proof -
  have n: "\<not> IsValid (ctx_span untraced)" by (simp add: untraced_def)
  have s: "ctx_span untraced = ContextSpan False" by (simp add: untraced_def)
  have a: "trace (snd (client_Convert code_money (reply_stub eur_reply) untraced ''USD'' ''EUR''
              10 new_world))
      = trace new_world @ closing_ops (ContextSpan False) None"
    using client_Convert_lifecycle
      [of untraced new_world code_money "reply_stub eur_reply" "''USD''" "''EUR''" 10]
    by (simp add: client_span_lifecycle_def case_prod_beta n s client_Convert_eur)
  have b: "trace (snd (client_GetProduct code_money (error_stub (ErrorString ''connection refused''))
              untraced ''OLJCESPC7Z'' 10 new_world))
      = trace new_world @ closing_ops (ContextSpan False)
          (Some (joinError [RemoteCallError, ErrorString ''connection refused'']))"
    using client_GetProduct_lifecycle
      [of untraced new_world code_money "error_stub (ErrorString ''connection refused'')"
          "''OLJCESPC7Z''" 10]
    by (simp add: client_span_lifecycle_def case_prod_beta n s client_GetProduct_refused)
  show ?thesis
    using new_ops_append [OF a] new_ops_append [OF b]
    by (simp add: closing_ops_def)
qed

section \<open>Method metrics\<close>

lemma client_Convert_metrics:
  "metrics (snd (client_Convert mc stub ctx a0 a1 elapsed w)) =
     (metrics w)
       (''Convert'' := (metrics w ''Convert'')
          \<lparr>Count := Count (metrics w ''Convert'') + 1,
           ErrorCount := ErrorCount (metrics w ''Convert'') +
             (if failed (fst (client_Convert mc stub ctx a0 a1 elapsed w)) then 1 else 0),
           Latency := Latency (metrics w ''Convert'') @ [elapsed],
           BytesRequest := BytesRequest (metrics w ''Convert'') @
             request_samples (argument_buffer mc (ConvertCall stub ctx a0 a1 elapsed)),
           BytesReply := BytesReply (metrics w ''Convert'') @
             call_reply_samples (transport_outcome mc (ConvertCall stub ctx a0 a1 elapsed))\<rparr>)"
  by (simp only: client_Convert_unfold client_deferred_metrics [OF client_Convert_body_ok]
        client_Convert_body_metrics client_entry_metrics)
     (auto simp: fun_eq_iff intro!: MethodMetrics.equality split: go.splits option.splits)

lemma client_GetSupportedCurrencies_metrics:
  "metrics (snd (client_GetSupportedCurrencies stub ctx elapsed w)) =
     (metrics w)
       (''GetSupportedCurrencies'' := (metrics w ''GetSupportedCurrencies'')
          \<lparr>Count := Count (metrics w ''GetSupportedCurrencies'') + 1,
           ErrorCount := ErrorCount (metrics w ''GetSupportedCurrencies'') +
             (if failed (fst (client_GetSupportedCurrencies stub ctx elapsed w)) then 1 else 0),
           Latency := Latency (metrics w ''GetSupportedCurrencies'') @ [elapsed],
           BytesRequest := BytesRequest (metrics w ''GetSupportedCurrencies'') @
             request_samples (argument_buffer mc (GetSupportedCurrenciesCall stub ctx elapsed)),
           BytesReply := BytesReply (metrics w ''GetSupportedCurrencies'') @
             call_reply_samples (transport_outcome mc (GetSupportedCurrenciesCall stub ctx elapsed))\<rparr>)"
  by (simp only: client_GetSupportedCurrencies_unfold client_deferred_metrics [OF client_GetSupportedCurrencies_body_ok]
        client_GetSupportedCurrencies_body_metrics client_entry_metrics)
     (auto simp: fun_eq_iff intro!: MethodMetrics.equality split: go.splits option.splits)

lemma client_GetProduct_metrics:
  "metrics (snd (client_GetProduct mc stub ctx a0 elapsed w)) =
     (metrics w)
       (''GetProduct'' := (metrics w ''GetProduct'')
          \<lparr>Count := Count (metrics w ''GetProduct'') + 1,
           ErrorCount := ErrorCount (metrics w ''GetProduct'') +
             (if failed (fst (client_GetProduct mc stub ctx a0 elapsed w)) then 1 else 0),
           Latency := Latency (metrics w ''GetProduct'') @ [elapsed],
           BytesRequest := BytesRequest (metrics w ''GetProduct'') @
             request_samples (argument_buffer mc (GetProductCall stub ctx a0 elapsed)),
           BytesReply := BytesReply (metrics w ''GetProduct'') @
             call_reply_samples (transport_outcome mc (GetProductCall stub ctx a0 elapsed))\<rparr>)"
  by (simp only: client_GetProduct_unfold client_deferred_metrics [OF client_GetProduct_body_ok]
        client_GetProduct_body_metrics client_entry_metrics)
     (auto simp: fun_eq_iff intro!: MethodMetrics.equality split: go.splits option.splits)

lemma client_ListProducts_metrics:
  "metrics (snd (client_ListProducts mc stub ctx elapsed w)) =
     (metrics w)
       (''ListProducts'' := (metrics w ''ListProducts'')
          \<lparr>Count := Count (metrics w ''ListProducts'') + 1,
           ErrorCount := ErrorCount (metrics w ''ListProducts'') +
             (if failed (fst (client_ListProducts mc stub ctx elapsed w)) then 1 else 0),
           Latency := Latency (metrics w ''ListProducts'') @ [elapsed],
           BytesRequest := BytesRequest (metrics w ''ListProducts'') @
             request_samples (argument_buffer mc (ListProductsCall stub ctx elapsed)),
           BytesReply := BytesReply (metrics w ''ListProducts'') @
             call_reply_samples (transport_outcome mc (ListProductsCall stub ctx elapsed))\<rparr>)"
  by (simp only: client_ListProducts_unfold client_deferred_metrics [OF client_ListProducts_body_ok]
        client_ListProducts_body_metrics client_entry_metrics)
     (auto simp: fun_eq_iff intro!: MethodMetrics.equality split: go.splits option.splits)

lemma client_SearchProducts_metrics:
  "metrics (snd (client_SearchProducts mc stub ctx a0 elapsed w)) =
     (metrics w)
       (''SearchProducts'' := (metrics w ''SearchProducts'')
          \<lparr>Count := Count (metrics w ''SearchProducts'') + 1,
           ErrorCount := ErrorCount (metrics w ''SearchProducts'') +
             (if failed (fst (client_SearchProducts mc stub ctx a0 elapsed w)) then 1 else 0),
           Latency := Latency (metrics w ''SearchProducts'') @ [elapsed],
           BytesRequest := BytesRequest (metrics w ''SearchProducts'') @
             request_samples (argument_buffer mc (SearchProductsCall stub ctx a0 elapsed)),
           BytesReply := BytesReply (metrics w ''SearchProducts'') @
             call_reply_samples (transport_outcome mc (SearchProductsCall stub ctx a0 elapsed))\<rparr>)"
  by (simp only: client_SearchProducts_unfold client_deferred_metrics [OF client_SearchProducts_body_ok]
        client_SearchProducts_body_metrics client_entry_metrics)
     (auto simp: fun_eq_iff intro!: MethodMetrics.equality split: go.splits option.splits)

lemma perform_metrics:
  "metrics (snd (perform mc c w)) =
     (metrics w)
       (method_label c := (metrics w (method_label c))
          \<lparr>Count := Count (metrics w (method_label c)) + 1,
           ErrorCount := ErrorCount (metrics w (method_label c)) +
             (if fst (perform mc c w) then 1 else 0),
           Latency := Latency (metrics w (method_label c)) @ [call_elapsed c],
           BytesRequest := BytesRequest (metrics w (method_label c)) @
             request_samples (argument_buffer mc c),
           BytesReply := BytesReply (metrics w (method_label c)) @
             call_reply_samples (transport_outcome mc c)\<rparr>)"
proof (cases c)
  case (GetProductCall stub ctx a0 elapsed)
  show ?thesis
    unfolding GetProductCall
    by (simp only: perform.simps method_label.simps call_elapsed.simps Let_def case_prod_beta
        fst_conv snd_conv client_GetProduct_metrics [where mc = mc])
next
  case (ListProductsCall stub ctx elapsed)
  show ?thesis
    unfolding ListProductsCall
    by (simp only: perform.simps method_label.simps call_elapsed.simps Let_def case_prod_beta
        fst_conv snd_conv client_ListProducts_metrics [where mc = mc])
next
  case (SearchProductsCall stub ctx a0 elapsed)
  show ?thesis
    unfolding SearchProductsCall
    by (simp only: perform.simps method_label.simps call_elapsed.simps Let_def case_prod_beta
        fst_conv snd_conv client_SearchProducts_metrics [where mc = mc])
next
  case (ConvertCall stub ctx a0 a1 elapsed)
  show ?thesis
    unfolding ConvertCall
    by (simp only: perform.simps method_label.simps call_elapsed.simps Let_def case_prod_beta
        fst_conv snd_conv client_Convert_metrics [where mc = mc])
next
  case (GetSupportedCurrenciesCall stub ctx elapsed)
  show ?thesis
    unfolding GetSupportedCurrenciesCall
    by (simp only: perform.simps method_label.simps call_elapsed.simps Let_def case_prod_beta
        fst_conv snd_conv client_GetSupportedCurrencies_metrics [where mc = mc])
qed

lemma client_calls_metrics:
  "case client_calls mc cs w of (fs, w') \<Rightarrow>
     length fs = length cs \<and>
     metrics w' k =
       (metrics w k)
         \<lparr>Count := Count (metrics w k) + length (calls_of k cs),
          ErrorCount := ErrorCount (metrics w k) + failures_of k cs fs,
          Latency := Latency (metrics w k) @ map call_elapsed (calls_of k cs),
          BytesRequest := BytesRequest (metrics w k) @
            concat (map (\<lambda>c. request_samples (argument_buffer mc c)) (calls_of k cs)),
          BytesReply := BytesReply (metrics w k) @
            concat (map (\<lambda>c. call_reply_samples (transport_outcome mc c)) (calls_of k cs))\<rparr>"
proof (induction cs arbitrary: w)
  case Nil
  show ?case by (simp add: calls_of_def failures_of_def)
next
  case (Cons c cs)
  obtain f w1 where 1: "perform mc c w = (f, w1)"
    by (cases "perform mc c w")
  obtain fs w2 where 2: "client_calls mc cs w1 = (fs, w2)"
    by (cases "client_calls mc cs w1")
  have m1: "metrics w1 =
     (metrics w)
       (method_label c := (metrics w (method_label c))
          \<lparr>Count := Count (metrics w (method_label c)) + 1,
           ErrorCount := ErrorCount (metrics w (method_label c)) + (if f then 1 else 0),
           Latency := Latency (metrics w (method_label c)) @ [call_elapsed c],
           BytesRequest := BytesRequest (metrics w (method_label c)) @
             request_samples (argument_buffer mc c),
           BytesReply := BytesReply (metrics w (method_label c)) @
             call_reply_samples (transport_outcome mc c)\<rparr>)"
    using perform_metrics [of mc c w] 1 by simp
  from Cons.IH [of w1] 2 have
    l: "length fs = length cs" and
    m2: "metrics w2 k =
       (metrics w1 k)
         \<lparr>Count := Count (metrics w1 k) + length (calls_of k cs),
          ErrorCount := ErrorCount (metrics w1 k) + failures_of k cs fs,
          Latency := Latency (metrics w1 k) @ map call_elapsed (calls_of k cs),
          BytesRequest := BytesRequest (metrics w1 k) @
            concat (map (\<lambda>c. request_samples (argument_buffer mc c)) (calls_of k cs)),
          BytesReply := BytesReply (metrics w1 k) @
            concat (map (\<lambda>c. call_reply_samples (transport_outcome mc c)) (calls_of k cs))\<rparr>"
    by simp_all
  show ?case
  proof (cases "method_label c = k")
    case True
    then show ?thesis
      by (simp add: 1 2 l m2 m1 calls_of_def failures_of_def)
  next
    case False
    then show ?thesis
      by (simp add: 1 2 l m2 m1 calls_of_def failures_of_def)
  qed
qed

lemma length_call_reply_samples:
  "length (call_reply_samples t) = (if transport_replied t then 1 else 0)"
  by (cases t rule: transport_replied.cases) simp_all

lemma length_concat_call_reply_samples:
  "length (concat (map (\<lambda>c. call_reply_samples (f c)) cs))
     = length (filter (\<lambda>c. transport_replied (f c)) cs)"
  by (induction cs) (simp_all add: length_call_reply_samples)

lemma length_concat_request_samples:
  "\<forall>c \<in> set cs. f c \<noteq> None \<Longrightarrow>
   length (concat (map (\<lambda>c. request_samples (f c)) cs)) = length cs"
  by (induction cs) auto

lemma argument_buffer_Some:
  "method_label c \<noteq> ''Convert'' \<Longrightarrow> argument_buffer mc c \<noteq> None"
  by (cases c) simp_all

lemma length_Encoder_String: "length (Encoder_String [] s) = 4 + length s"
  by (simp add: Encoder_String_def Encoder_Len_def length_le32)

text \<open>
  C7 (as amended). After any run of calls through the client stubs, in any mix of methods
  and outcomes, and for each method \<open>k\<close> with its N calls in the run: the invocation
  counter of \<open>k\<close> has grown by N, its error counter by the number of those calls that
  returned an error, its latency by N samples. Its request sizes have grown by the length
  of the encoded argument buffer of each call, which is 0 for a method without arguments:
  N samples, for \<open>Convert\<close> provided the marshaler of \<^verbatim>\<open>money.T\<close> returned in each call.
  Its reply sizes have grown by one sample for each call whose transport returned a reply
  without an error, and by none for the other calls.
\<close>

theorem client_metrics_after_calls:
  "case client_calls mc cs w of (fs, w') \<Rightarrow>
     length fs = length cs \<and>
     Count (metrics w' k) = Count (metrics w k) + length (calls_of k cs) \<and>
     ErrorCount (metrics w' k) = ErrorCount (metrics w k) + failures_of k cs fs \<and>
     length (Latency (metrics w' k)) = length (Latency (metrics w k)) + length (calls_of k cs) \<and>
     BytesRequest (metrics w' k) =
       BytesRequest (metrics w k) @
       concat (map (\<lambda>c. request_samples (argument_buffer mc c)) (calls_of k cs)) \<and>
     (k \<noteq> ''Convert'' \<or> (\<forall>c \<in> set cs. argument_buffer mc c \<noteq> None) \<longrightarrow>
        length (BytesRequest (metrics w' k)) =
          length (BytesRequest (metrics w k)) + length (calls_of k cs)) \<and>
     length (BytesReply (metrics w' k)) =
       length (BytesReply (metrics w k)) +
       length (filter (\<lambda>c. transport_replied (transport_outcome mc c)) (calls_of k cs))"
proof -
  obtain fs w' where r: "client_calls mc cs w = (fs, w')"
    by (cases "client_calls mc cs w")
  from client_calls_metrics [where mc = mc and cs = cs and w = w and k = k] r have
    l: "length fs = length cs" and
    m: "metrics w' k =
       (metrics w k)
         \<lparr>Count := Count (metrics w k) + length (calls_of k cs),
          ErrorCount := ErrorCount (metrics w k) + failures_of k cs fs,
          Latency := Latency (metrics w k) @ map call_elapsed (calls_of k cs),
          BytesRequest := BytesRequest (metrics w k) @
            concat (map (\<lambda>c. request_samples (argument_buffer mc c)) (calls_of k cs)),
          BytesReply := BytesReply (metrics w k) @
            concat (map (\<lambda>c. call_reply_samples (transport_outcome mc c)) (calls_of k cs))\<rparr>"
    by simp_all
  have q: "length (concat (map (\<lambda>c. request_samples (argument_buffer mc c)) (calls_of k cs)))
             = length (calls_of k cs)"
    if "k \<noteq> ''Convert'' \<or> (\<forall>c \<in> set cs. argument_buffer mc c \<noteq> None)"
  proof (rule length_concat_request_samples, rule ballI)
    fix c assume "c \<in> set (calls_of k cs)"
    then have "c \<in> set cs" and "method_label c = k"
      by (simp_all add: calls_of_def)
    with that show "argument_buffer mc c \<noteq> None"
      using argument_buffer_Some [of c mc] by blast
  qed
  show ?thesis
    using q by (simp add: r l m length_concat_call_reply_samples)
qed

lemma zero_reply_unmarshal:
  "Product_WeaverUnmarshal code_money (Some (Product_zero code_money)) (NewDecoder zero_reply)
     = (Some (Product_zero code_money), Return \<lparr>dec_data = [0], dec_err = None\<rparr>)"
  using Decoder_Len_minus_1 [of "[0]"]
  by (simp add: Product_WeaverUnmarshal_def zero_reply_def NewDecoder_def
      Decoder_String_Encoder_String [OF fits_0] code_money_def Product_zero_def
      serviceweaver_dec_slice_string_def)

lemma client_GetProduct_served:
  "fst (client_GetProduct code_money (reply_stub zero_reply) ctx a0 elapsed w)
     = Return (Product_zero code_money, None)"
  by (simp add: client_GetProduct_unfold client_GetProduct_body_def reply_stub_def Let_def
      zero_reply_unmarshal Decoder_Error_absent client_deferred_ok pointee_def)

lemma client_GetProduct_garbled:
  "fst (client_GetProduct code_money (reply_stub bad_reply) ctx a0 elapsed w)
     = Return (Product_zero code_money, Some (joinError [RemoteCallError, makeslice_panic]))"
  using client_GetProduct_decode_fault
    [of "reply_stub bad_reply" ctx a0 bad_reply code_money "Some (Product_zero code_money)"
        makeslice_panic elapsed w] bad_reply_unmarshal
  by (simp add: reply_stub_def pointee_def)

lemma client_ListProducts_nil:
  "fst (client_ListProducts mc (reply_stub nil_reply) ctx elapsed w) = Return (None, None)"
  using Decoder_Len_minus_1 [of "[0]"]
  by (simp add: client_ListProducts_unfold client_ListProducts_body_def reply_stub_def Let_def
      serviceweaver_dec_slice_Product_def NewDecoder_def nil_reply_def Decoder_Error_absent
      client_deferred_ok)

lemma client_SearchProducts_refused:
  "fst (client_SearchProducts mc (error_stub e) ctx a0 elapsed w)
     = Return (None, Some (joinError [RemoteCallError, e]))"
  by (simp add: client_SearchProducts_unfold client_SearchProducts_body_def error_stub_def Let_def
      client_deferred_err errors_Join_two)

lemma client_GetSupportedCurrencies_crashed:
  "fst (client_GetSupportedCurrencies (panic_stub e) ctx elapsed w)
     = Return (None, Some (joinError [RemoteCallError, e]))"
  by (rule client_GetSupportedCurrencies_transport_fault) (simp add: panic_stub_def)

lemma sample_run_failures:
  "fst (client_calls code_money sample_run w) = [False, True, False, True, False, True, True]"
  by (simp add: sample_run_def case_prod_beta client_GetProduct_served client_GetProduct_refused
      client_ListProducts_nil client_GetProduct_garbled client_Convert_eur
      client_GetSupportedCurrencies_crashed client_SearchProducts_refused)

theorem client_metrics_after_calls_witness:
  "Count (metrics (snd (client_calls code_money sample_run new_world)) ''GetProduct'') = 3 \<and>
   ErrorCount (metrics (snd (client_calls code_money sample_run new_world)) ''GetProduct'') = 2 \<and>
   length (Latency (metrics (snd (client_calls code_money sample_run new_world)) ''GetProduct''))
     = 3 \<and>
   BytesRequest (metrics (snd (client_calls code_money sample_run new_world)) ''GetProduct'')
     = [14, 14, 14] \<and>
   length (BytesReply (metrics (snd (client_calls code_money sample_run new_world))
     ''GetProduct'')) = 2 \<and>
   Count (metrics (snd (client_calls code_money sample_run new_world)) ''ListProducts'') = 1 \<and>
   ErrorCount (metrics (snd (client_calls code_money sample_run new_world)) ''ListProducts'')
     = 0 \<and>
   BytesRequest (metrics (snd (client_calls code_money sample_run new_world)) ''ListProducts'')
     = [0] \<and>
   length (BytesReply (metrics (snd (client_calls code_money sample_run new_world))
     ''ListProducts'')) = 1 \<and>
   Count (metrics (snd (client_calls code_money sample_run new_world)) ''Convert'') = 1 \<and>
   length (BytesRequest (metrics (snd (client_calls code_money sample_run new_world))
     ''Convert'')) = 1"
proof -
  have mm: "money_WeaverMarshal code_money ''USD'' NewEncoder
              = Return (Encoder_String NewEncoder ''USD'')"
    by (simp add: code_money_def)
  have a: "\<forall>c \<in> set sample_run. argument_buffer code_money c \<noteq> None"
    by (simp add: sample_run_def code_money_def)
  have g: "calls_of ''GetProduct'' sample_run =
      [GetProductCall (reply_stub zero_reply) untraced ''OLJCESPC7Z'' 1200,
       GetProductCall (error_stub (ErrorString ''connection refused'')) traced ''OLJCESPC7Z'' 30,
       GetProductCall (reply_stub bad_reply) traced ''OLJCESPC7Z'' 900]"
    by (simp add: calls_of_def sample_run_def)
  have l: "calls_of ''ListProducts'' sample_run = [ListProductsCall (reply_stub nil_reply) untraced 700]"
    by (simp add: calls_of_def sample_run_def)
  have c: "calls_of ''Convert'' sample_run
      = [ConvertCall (reply_stub eur_reply) traced ''USD'' ''EUR'' 50]"
    by (simp add: calls_of_def sample_run_def)
  have fg: "failures_of ''GetProduct'' sample_run [False, True, False, True, False, True, True] = 2"
    by (simp add: failures_of_def sample_run_def)
  have fl: "failures_of ''ListProducts'' sample_run [False, True, False, True, False, True, True] = 0"
    by (simp add: failures_of_def sample_run_def)
  note t = client_metrics_after_calls
    [where mc = code_money and cs = sample_run and w = new_world,
     unfolded case_prod_beta sample_run_failures]
  have 1: "Count (metrics (snd (client_calls code_money sample_run new_world)) ''GetProduct'') = 3"
    and 2: "ErrorCount (metrics (snd (client_calls code_money sample_run new_world)) ''GetProduct'') = 2"
    and 3: "length (Latency (metrics (snd (client_calls code_money sample_run new_world)) ''GetProduct''))
     = 3"
    and 4: "BytesRequest (metrics (snd (client_calls code_money sample_run new_world)) ''GetProduct'')
     = [14, 14, 14]"
    and 5: "length (BytesReply (metrics (snd (client_calls code_money sample_run new_world))
     ''GetProduct'')) = 2"
    using t [where k = "''GetProduct''"]
    by (simp_all add: g fg new_world_def MethodMetrics_zero_def length_Encoder_String
        reply_stub_def error_stub_def)
  have 6: "Count (metrics (snd (client_calls code_money sample_run new_world)) ''ListProducts'') = 1"
    and 7: "ErrorCount (metrics (snd (client_calls code_money sample_run new_world)) ''ListProducts'')
     = 0"
    and 8: "BytesRequest (metrics (snd (client_calls code_money sample_run new_world)) ''ListProducts'')
     = [0]"
    and 9: "length (BytesReply (metrics (snd (client_calls code_money sample_run new_world))
     ''ListProducts'')) = 1"
    using t [where k = "''ListProducts''"]
    by (simp_all add: l fl new_world_def MethodMetrics_zero_def reply_stub_def)
  have 10: "Count (metrics (snd (client_calls code_money sample_run new_world)) ''Convert'') = 1"
    and 11: "length (BytesRequest (metrics (snd (client_calls code_money sample_run new_world))
     ''Convert'')) = 1"
    using t [where k = "''Convert''"] a
    by (simp_all add: c mm new_world_def MethodMetrics_zero_def)
  from 1 2 3 4 5 6 7 8 9 10 11 show ?thesis by (intro conjI)
qed

theorem client_metrics_after_calls_counterexample:
  "Count (metrics (snd (client_calls code_money
      [GetProductCall (error_stub (ErrorString ''connection refused'')) traced ''OLJCESPC7Z'' 30]
      new_world)) ''GetProduct'') = 1 \<and>
   length (BytesReply (metrics (snd (client_calls code_money
      [GetProductCall (error_stub (ErrorString ''connection refused'')) traced ''OLJCESPC7Z'' 30]
      new_world)) ''GetProduct'')) = 0"
  using client_calls_metrics
    [where mc = code_money and w = new_world and k = "''GetProduct''" and
       cs = "[GetProductCall (error_stub (ErrorString ''connection refused'')) traced
                ''OLJCESPC7Z'' 30]"]
  by (simp add: case_prod_beta calls_of_def new_world_def MethodMetrics_zero_def error_stub_def)

section \<open>Server stubs\<close>

lemma Encoder_Error_append: "Encoder_Error enc err = enc @ Encoder_Error [] err"
  by (cases err) (simp_all add: Encoder_Error_def Encoder_String_def Encoder_Len_def)

lemma Decoder_String_data:
  assumes "fits_int32 (length s)"
  shows "Decoder_String (NewDecoder (Encoder_String [] s @ rest)) = (s, NewDecoder rest)"
  using Decoder_String_Encoder_String [OF assms, of rest] by (simp add: NewDecoder_def)

lemma server_deferred_returned:
  "server_deferred (Some bs, None, None) = Return (Some bs, None)"
  by (simp add: server_deferred_def CatchPanics_def)


text \<open>
  C4. When a handler of a server stub has reached the call of the implementation and the
  implementation has returned, with an error or without, and the result is encoded, the
  handler returns the reply buffer and a nil error; the reply is the encoding of the
  result followed by the error slot: the presence byte 0, or the presence byte 1 and the
  error's message.
\<close>

theorem server_reply_both_slots:
  "(GetProduct impl ctx (fst (Decoder_String (NewDecoder args))) = Return (r0, appErr) \<and>
    Product_WeaverMarshal mc (Some r0) NewEncoder = Return enc1 \<longrightarrow>
      server_getProduct mc impl ctx args = Return (Some (enc1 @ Encoder_Error [] appErr), None)) \<and>
   (ListProducts impl ctx = Return (rs, appErr) \<and>
    serviceweaver_enc_slice_Product mc NewEncoder rs = Return enc1 \<longrightarrow>
      server_listProducts mc impl ctx args
        = Return (Some (enc1 @ Encoder_Error [] appErr), None)) \<and>
   (SearchProducts impl ctx (fst (Decoder_String (NewDecoder args))) = Return (rs, appErr) \<and>
    serviceweaver_enc_slice_Product mc NewEncoder rs = Return enc1 \<longrightarrow>
      server_searchProducts mc impl ctx args
        = Return (Some (enc1 @ Encoder_Error [] appErr), None)) \<and>
   (money_WeaverUnmarshal mc (money_zero mc) (NewDecoder args) = (m0, Return d1) \<and>
    Convert cimpl ctx m0 (fst (Decoder_String d1)) = Return (m1, appErr) \<and>
    money_WeaverMarshal mc m1 NewEncoder = Return enc1 \<longrightarrow>
      server_convert mc cimpl ctx args = Return (Some (enc1 @ Encoder_Error [] appErr), None)) \<and>
   (GetSupportedCurrencies cimpl ctx = Return (codes, appErr) \<longrightarrow>
      server_getSupportedCurrencies cimpl ctx args
        = Return (Some (serviceweaver_enc_slice_string NewEncoder codes @
                        Encoder_Error [] appErr), None)) \<and>
   Encoder_Error [] None = [0] \<and>
   Encoder_Error [] (Some e) = 1 # Encoder_String [] (Error_msg e)"
  apply (intro conjI impI)
  subgoal
    by (simp add: server_getProduct_def server_deferred_returned Encoder_Data_def
        Encoder_Error_append [of enc1] case_prod_beta)
  subgoal
    by (simp add: server_listProducts_def server_deferred_returned Encoder_Data_def
        Encoder_Error_append [of enc1])
  subgoal
    by (simp add: server_searchProducts_def server_deferred_returned Encoder_Data_def
        Encoder_Error_append [of enc1] case_prod_beta)
  subgoal
    by (simp add: server_convert_def server_deferred_returned Encoder_Data_def
        Encoder_Error_append [of enc1] case_prod_beta)
  subgoal
    by (simp add: server_getSupportedCurrencies_def server_deferred_returned Encoder_Data_def
        Encoder_Error_append [of "serviceweaver_enc_slice_string NewEncoder codes"])
  subgoal
    by (simp add: Encoder_Error_def)
  subgoal
    by (simp add: Encoder_Error_def Encoder_String_def Encoder_Len_def)
  done

lemma code_money_marshal:
  "\<forall>enc. money_WeaverMarshal code_money m enc = Return (enc @ Encoder_String [] m)"
  by (simp add: code_money_def Encoder_String_append [symmetric])

lemma code_money_Product_marshal:
  "Product_WeaverMarshal code_money (Some x) enc
     = Return (enc @ Product_fields_concat (Encoder_String [] (PriceUSD x)) x)"
  by (rule Product_WeaverMarshal_concat [OF code_money_marshal])

theorem server_reply_both_slots_witness:
  "server_getProduct code_money shop traced (Encoder_String [] ''OLJCESPC7Z'')
     = Return (Some (Product_fields_concat (Encoder_String [] ''USD'') sunglasses @ [0]), None) \<and>
   server_getProduct code_money shop traced (Encoder_String [] ''nope'')
     = Return (Some (Product_fields_concat (Encoder_String [] []) (Product_zero code_money) @
                     1 # Encoder_String [] ''no such product''), None) \<and>
   server_listProducts code_money shop traced []
     = Return (Some ((Encoder_Len [] 1 @
                      Product_fields_concat (Encoder_String [] ''USD'') sunglasses) @ [0]), None) \<and>
   server_searchProducts code_money shop traced (Encoder_String [] ''sun'')
     = Return (Some (Encoder_Len [] 0 @ [0]), None) \<and>
   server_convert code_money fixed_rate traced (Encoder_String [] ''USD'' @ Encoder_String [] ''EUR'')
     = Return (Some (Encoder_String [] ''EUR'' @ [0]), None) \<and>
   server_convert code_money fixed_rate traced (Encoder_String [] ''USD'' @ Encoder_String [] [])
     = Return (Some (Encoder_String [] ''USD'' @
                     1 # Encoder_String [] ''unsupported currency''), None) \<and>
   server_getSupportedCurrencies fixed_rate traced []
     = Return (Some (serviceweaver_enc_slice_string NewEncoder (Some [''EUR'', ''USD'']) @ [0]),
               None)"
proof -
  have f: "fits_int32 (length ''OLJCESPC7Z'')" "fits_int32 (length ''nope'')"
    "fits_int32 (length ''sun'')" "fits_int32 (length ''USD'')" "fits_int32 (length ''EUR'')"
    by (simp_all add: fits_int32_def)
  have d1: "fst (Decoder_String (NewDecoder (Encoder_String [] ''OLJCESPC7Z''))) = ''OLJCESPC7Z''"
    using Decoder_String_data [OF f(1), of "[]"] by simp
  have d2: "fst (Decoder_String (NewDecoder (Encoder_String [] ''nope''))) = ''nope''"
    using Decoder_String_data [OF f(2), of "[]"] by simp
  have d3: "fst (Decoder_String (NewDecoder (Encoder_String [] ''sun''))) = ''sun''"
    using Decoder_String_data [OF f(3), of "[]"] by simp
  have p: "PriceUSD sunglasses = ''USD''" "PriceUSD (Product_zero code_money) = []"
    by (simp_all add: sunglasses_def Product_zero_def code_money_def)
  have e0: "Encoder_Error [] None = [0]"
    by (simp add: Encoder_Error_def)
  have e1: "Encoder_Error [] (Some (ErrorString s)) = 1 # Encoder_String [] s" for s
    by (simp add: Encoder_Error_def Encoder_String_def Encoder_Len_def)
  have m1: "Product_WeaverMarshal code_money (Some sunglasses) NewEncoder
      = Return (Product_fields_concat (Encoder_String [] ''USD'') sunglasses)"
    using code_money_Product_marshal [of sunglasses NewEncoder] by (simp add: p NewEncoder_def)
  have m2: "Product_WeaverMarshal code_money (Some (Product_zero code_money)) NewEncoder
      = Return (Product_fields_concat (Encoder_String [] []) (Product_zero code_money))"
    using code_money_Product_marshal [of "Product_zero code_money" NewEncoder]
    by (simp add: p NewEncoder_def)
  have m3: "serviceweaver_enc_slice_Product code_money NewEncoder (Some [sunglasses])
      = Return (Encoder_Len [] 1 @ Product_fields_concat (Encoder_String [] ''USD'') sunglasses)"
    by (simp add: serviceweaver_enc_slice_Product_def code_money_Product_marshal p NewEncoder_def)
  have m4: "serviceweaver_enc_slice_Product code_money NewEncoder (Some []) = Return (Encoder_Len [] 0)"
    by (simp add: serviceweaver_enc_slice_Product_def NewEncoder_def)
  have u: "money_WeaverUnmarshal code_money (money_zero code_money)
             (NewDecoder (Encoder_String [] ''USD'' @ rest)) = (''USD'', Return (NewDecoder rest))"
    for rest
    using Decoder_String_data [OF f(4), of rest] by (simp add: code_money_def)
  have d5: "fst (Decoder_String (NewDecoder (Encoder_String [] ''EUR''))) = ''EUR''"
    using Decoder_String_data [OF f(5), of "[]"] by simp
  have d6: "fst (Decoder_String (NewDecoder (Encoder_String [] ([] :: string)))) = []"
    using Decoder_String_data [OF fits_0, of "[]"] by simp
  have m5: "money_WeaverMarshal code_money m NewEncoder = Return (Encoder_String [] m)" for m
    by (simp add: code_money_def NewEncoder_def)
  note t = server_reply_both_slots
    [where mc = code_money and impl = shop and cimpl = fixed_rate and ctx = traced]
  have 1: "server_getProduct code_money shop traced (Encoder_String [] ''OLJCESPC7Z'')
     = Return (Some (Product_fields_concat (Encoder_String [] ''USD'') sunglasses @ [0]), None)"
    using t [where args = "Encoder_String [] ''OLJCESPC7Z''" and ?r0.0 = sunglasses
          and appErr = None
          and ?enc1.0 = "Product_fields_concat (Encoder_String [] ''USD'') sunglasses",
          THEN conjunct1] m1
    by (simp add: d1 shop_def e0)
  have 2: "server_getProduct code_money shop traced (Encoder_String [] ''nope'')
     = Return (Some (Product_fields_concat (Encoder_String [] []) (Product_zero code_money) @
                     1 # Encoder_String [] ''no such product''), None)"
    using t [where args = "Encoder_String [] ''nope''" and ?r0.0 = "Product_zero code_money"
          and appErr = "Some (ErrorString ''no such product'')"
          and ?enc1.0 = "Product_fields_concat (Encoder_String [] []) (Product_zero code_money)",
          THEN conjunct1] m2
    by (simp add: d2 shop_def e1)
  have 3: "server_listProducts code_money shop traced []
     = Return (Some ((Encoder_Len [] 1 @
                      Product_fields_concat (Encoder_String [] ''USD'') sunglasses) @ [0]), None)"
    using t [where args = "[]" and rs = "Some [sunglasses]" and appErr = None
          and ?enc1.0 = "Encoder_Len [] 1 @
                         Product_fields_concat (Encoder_String [] ''USD'') sunglasses",
          THEN conjunct2, THEN conjunct1] m3
    by (simp add: shop_def e0)
  have 4: "server_searchProducts code_money shop traced (Encoder_String [] ''sun'')
     = Return (Some (Encoder_Len [] 0 @ [0]), None)"
    using t [where args = "Encoder_String [] ''sun''" and rs = "Some []" and appErr = None
          and ?enc1.0 = "Encoder_Len [] 0",
          THEN conjunct2, THEN conjunct2, THEN conjunct1] m4
    by (simp add: shop_def e0 d3)
  have 5: "server_convert code_money fixed_rate traced
             (Encoder_String [] ''USD'' @ Encoder_String [] ''EUR'')
     = Return (Some (Encoder_String [] ''EUR'' @ [0]), None)"
    using t [where args = "Encoder_String [] ''USD'' @ Encoder_String [] ''EUR''"
          and ?m0.0 = "''USD''" and ?d1.0 = "NewDecoder (Encoder_String [] ''EUR'')"
          and ?m1.0 = "''EUR''" and appErr = None and ?enc1.0 = "Encoder_String [] ''EUR''",
          THEN conjunct2, THEN conjunct2, THEN conjunct2, THEN conjunct1]
      u [of "Encoder_String [] ''EUR''"] m5 [of "''EUR''"]
    by (simp add: fixed_rate_def e0 d5)
  have 6: "server_convert code_money fixed_rate traced
             (Encoder_String [] ''USD'' @ Encoder_String [] [])
     = Return (Some (Encoder_String [] ''USD'' @
                     1 # Encoder_String [] ''unsupported currency''), None)"
    using t [where args = "Encoder_String [] ''USD'' @ Encoder_String [] []"
          and ?m0.0 = "''USD''" and ?d1.0 = "NewDecoder (Encoder_String [] [])"
          and ?m1.0 = "''USD''" and appErr = "Some (ErrorString ''unsupported currency'')"
          and ?enc1.0 = "Encoder_String [] ''USD''",
          THEN conjunct2, THEN conjunct2, THEN conjunct2, THEN conjunct1]
      u [of "Encoder_String [] []"] m5 [of "''USD''"]
    by (simp add: fixed_rate_def e1 d6)
  have 7: "server_getSupportedCurrencies fixed_rate traced []
     = Return (Some (serviceweaver_enc_slice_string NewEncoder (Some [''EUR'', ''USD'']) @ [0]),
               None)"
    using t [where args = "[]" and codes = "Some [''EUR'', ''USD'']" and appErr = None,
          THEN conjunct2, THEN conjunct2, THEN conjunct2, THEN conjunct2, THEN conjunct1]
    by (simp add: fixed_rate_def e0)
  from 1 2 3 4 5 6 7 show ?thesis by (intro conjI)
qed


text \<open>
  C6. The dispatch of each server stub returns the handler of every declared method name
  and no handler for any other string.
\<close>

theorem GetStubFn_lookup:
  "catalog_GetStubFn mc impl ''GetProduct'' = Some (server_getProduct mc impl) \<and>
   catalog_GetStubFn mc impl ''ListProducts'' = Some (server_listProducts mc impl) \<and>
   catalog_GetStubFn mc impl ''SearchProducts'' = Some (server_searchProducts mc impl) \<and>
   (name \<notin> {''GetProduct'', ''ListProducts'', ''SearchProducts''} \<longrightarrow>
      catalog_GetStubFn mc impl name = None) \<and>
   currency_GetStubFn mc cimpl ''Convert'' = Some (server_convert mc cimpl) \<and>
   currency_GetStubFn mc cimpl ''GetSupportedCurrencies''
     = Some (server_getSupportedCurrencies cimpl) \<and>
   (name \<notin> {''Convert'', ''GetSupportedCurrencies''} \<longrightarrow>
      currency_GetStubFn mc cimpl name = None)"
  by (simp add: catalog_GetStubFn_def currency_GetStubFn_def)

theorem GetStubFn_lookup_witness:
  "catalog_GetStubFn code_money shop ''Checkout'' = None \<and>
   catalog_GetStubFn code_money shop ''getProduct'' = None \<and>
   catalog_GetStubFn code_money shop [] = None \<and>
   currency_GetStubFn code_money fixed_rate ''GetProduct'' = None \<and>
   currency_GetStubFn code_money fixed_rate ''convert'' = None \<and>
   catalog_GetStubFn code_money shop ''SearchProducts''
     = Some (server_searchProducts code_money shop) \<and>
   currency_GetStubFn code_money fixed_rate ''Convert''
     = Some (server_convert code_money fixed_rate)"
  using GetStubFn_lookup [where mc = code_money and impl = shop and cimpl = fixed_rate
      and name = "''Checkout''"]
    GetStubFn_lookup [where mc = code_money and impl = shop and cimpl = fixed_rate
      and name = "''getProduct''"]
    GetStubFn_lookup [where mc = code_money and impl = shop and cimpl = fixed_rate
      and name = "[]"]
    GetStubFn_lookup [where mc = code_money and impl = shop and cimpl = fixed_rate
      and name = "''GetProduct''"]
    GetStubFn_lookup [where mc = code_money and impl = shop and cimpl = fixed_rate
      and name = "''convert''"]
  by simp

section \<open>The transaction cache\<close>

lemma cache_Get_present:
  "cached cache k = Some old \<Longrightarrow> cache_Get cache k = ((old, None), cache)"
  by (simp add: cache_Get_def)

lemma processTransactionForAcct_present:
  assumes "cached cache accountID = Some old" and "0 \<le> HistoryLimit cfg"
  shows "processTransactionForAcct cfg cache accountID t =
           Return (cache_Put cache accountID (take (nat (HistoryLimit cfg)) (t # old)))"
  using assms
  by (simp add: processTransactionForAcct_def cache_Get_present Let_def)

lemma processTransactionForAcct_failed:
  assumes "snd (fst (cache_Get cache accountID)) = Some e"
  shows "processTransactionForAcct cfg cache accountID t = Return cache"
  using assms
  by (auto simp: processTransactionForAcct_def cache_Get_def split: option.splits prod.splits)

text \<open>
  C10 (as amended). For every account whose transaction list is present in the cache with
  length at most the configured \<open>HistoryLimit\<close>, and a \<open>HistoryLimit\<close> of at least 1:
  \<open>processTransactionForAcct\<close> returns, and the cached list then starts with the new
  transaction followed by the previous entries, without the oldest one when the list was
  full, so that its length does not exceed \<open>HistoryLimit\<close>. If the cache read fails,
  the cache is left as it was.
\<close>

theorem processTransactionForAcct_history:
  "(cached cache accountID = Some old \<and> int (length old) \<le> HistoryLimit cfg \<and>
    1 \<le> HistoryLimit cfg \<longrightarrow>
      processTransactionForAcct cfg cache accountID t =
        Return (cache\<lparr>cached := (cached cache)
                  (accountID \<mapsto> t # take (nat (HistoryLimit cfg) - 1) old)\<rparr>) \<and>
      cached_after (processTransactionForAcct cfg cache accountID t) accountID =
        Some (t # take (nat (HistoryLimit cfg) - 1) old) \<and>
      int (length (t # take (nat (HistoryLimit cfg) - 1) old)) \<le> HistoryLimit cfg \<and>
      (int (length old) < HistoryLimit cfg \<longrightarrow> take (nat (HistoryLimit cfg) - 1) old = old) \<and>
      (int (length old) = HistoryLimit cfg \<longrightarrow> take (nat (HistoryLimit cfg) - 1) old = butlast old)) \<and>
   (snd (fst (cache_Get cache accountID)) = Some e \<longrightarrow>
      processTransactionForAcct cfg cache accountID t = Return cache)"
proof (intro conjI impI)
  assume a: "cached cache accountID = Some old \<and> int (length old) \<le> HistoryLimit cfg \<and>
    1 \<le> HistoryLimit cfg"
  then have p: "cached cache accountID = Some old" and l: "1 \<le> HistoryLimit cfg"
    by simp_all
  from l obtain n where n: "nat (HistoryLimit cfg) = Suc n"
    by (cases "nat (HistoryLimit cfg)") simp_all
  from l have z: "0 \<le> HistoryLimit cfg" by simp
  show r: "processTransactionForAcct cfg cache accountID t =
        Return (cache\<lparr>cached := (cached cache)
                  (accountID \<mapsto> t # take (nat (HistoryLimit cfg) - 1) old)\<rparr>)"
    by (simp add: processTransactionForAcct_present [OF p z] cache_Put_def n)
  show "cached_after (processTransactionForAcct cfg cache accountID t) accountID =
        Some (t # take (nat (HistoryLimit cfg) - 1) old)"
    by (simp add: r cached_after_def)
  show "int (length (t # take (nat (HistoryLimit cfg) - 1) old)) \<le> HistoryLimit cfg"
    using l by simp
  show "take (nat (HistoryLimit cfg) - 1) old = old" if "int (length old) < HistoryLimit cfg"
    using that by simp
  show "take (nat (HistoryLimit cfg) - 1) old = butlast old"
    if "int (length old) = HistoryLimit cfg"
  proof -
    from that have "nat (HistoryLimit cfg) = length old" by simp
    then show ?thesis by (simp add: butlast_conv_take)
  qed
next
  assume "snd (fst (cache_Get cache accountID)) = Some e"
  then show "processTransactionForAcct cfg cache accountID t = Return cache"
    by (rule processTransactionForAcct_failed)
qed

theorem processTransactionForAcct_history_witness:
  "cached_after (processTransactionForAcct (limit_cfg 3) (history_cache [''t2'', ''t1''])
       ''1011226111'' ''t3'') ''1011226111'' = Some [''t3'', ''t2'', ''t1''] \<and>
   cached_after (processTransactionForAcct (limit_cfg 3) (history_cache [''t3'', ''t2'', ''t1''])
       ''1011226111'' ''t4'') ''1011226111'' = Some [''t4'', ''t3'', ''t2''] \<and>
   processTransactionForAcct (limit_cfg 3) (history_cache [''t2'', ''t1'']) ''4096'' ''t3''
     = Return (history_cache [''t2'', ''t1''])"
proof -
  have c: "cached (history_cache old) ''1011226111'' = Some old" for old
    by (simp add: history_cache_def)
  have h: "HistoryLimit (limit_cfg n) = n" for n
    by (simp add: limit_cfg_def)
  have g: "snd (fst (cache_Get (history_cache [''t2'', ''t1'']) ''4096''))
             = Some (ErrorString ''ledger unreachable'')"
    by (simp add: cache_Get_def history_cache_def)
  have p1: "cached (history_cache [''t2'', ''t1'']) ''1011226111'' = Some [''t2'', ''t1''] \<and>
      int (length [''t2'', ''t1'']) \<le> HistoryLimit (limit_cfg 3) \<and> 1 \<le> HistoryLimit (limit_cfg 3)"
    by (simp add: c h)
  have p2: "cached (history_cache [''t3'', ''t2'', ''t1'']) ''1011226111''
        = Some [''t3'', ''t2'', ''t1''] \<and>
      int (length [''t3'', ''t2'', ''t1'']) \<le> HistoryLimit (limit_cfg 3) \<and>
      1 \<le> HistoryLimit (limit_cfg 3)"
    by (simp add: c h)
  have 1: "cached_after (processTransactionForAcct (limit_cfg 3) (history_cache [''t2'', ''t1''])
       ''1011226111'' ''t3'') ''1011226111'' = Some [''t3'', ''t2'', ''t1'']"
    using processTransactionForAcct_history
      [where cache = "history_cache [''t2'', ''t1'']" and accountID = "''1011226111''"
         and old = "[''t2'', ''t1'']" and cfg = "limit_cfg 3" and t = "''t3''"
         and e = "ErrorString ''ledger unreachable''",
       THEN conjunct1, THEN mp, OF p1, THEN conjunct2, THEN conjunct1]
    by (simp add: h)
  have 2: "cached_after (processTransactionForAcct (limit_cfg 3)
       (history_cache [''t3'', ''t2'', ''t1'']) ''1011226111'' ''t4'') ''1011226111''
       = Some [''t4'', ''t3'', ''t2'']"
    using processTransactionForAcct_history
      [where cache = "history_cache [''t3'', ''t2'', ''t1'']" and accountID = "''1011226111''"
         and old = "[''t3'', ''t2'', ''t1'']" and cfg = "limit_cfg 3" and t = "''t4''"
         and e = "ErrorString ''ledger unreachable''",
       THEN conjunct1, THEN mp, OF p2, THEN conjunct2, THEN conjunct1]
    by (simp add: h)
  have 3: "processTransactionForAcct (limit_cfg 3) (history_cache [''t2'', ''t1'']) ''4096'' ''t3''
     = Return (history_cache [''t2'', ''t1''])"
    by (rule processTransactionForAcct_history
      [where cache = "history_cache [''t2'', ''t1'']" and accountID = "''4096''"
         and old = "[]" and cfg = "limit_cfg 3" and t = "''t3''"
         and e = "ErrorString ''ledger unreachable''",
       THEN conjunct2, THEN mp, OF g])
  from 1 2 3 show ?thesis by (intro conjI)
qed

theorem processTransactionForAcct_history_counterexample:
  "cached (history_cache []) ''1011226111'' = Some [] \<and>
   int (length ([] :: string list)) \<le> HistoryLimit (limit_cfg 0) \<and>
   cached_after (processTransactionForAcct (limit_cfg 0) (history_cache [])
       ''1011226111'' ''t1'') ''1011226111'' = Some []"
  by (simp add: history_cache_def limit_cfg_def processTransactionForAcct_def cache_Get_def
      cache_Put_def cached_after_def)

end
